theory Spec2Isabelle
  imports Main "HOL-Library.Word"
begin

section \<open>Bytes, exceptions and the \<open>struct\<close> module\<close>

type_synonym byte = "8 word"
type_synonym bytes = "byte list"

text \<open>
  The exception classes that the modelled code can raise. The first four are the classes of
  \<^verbatim>\<open>xaptum/xdaa/exceptions.py\<close>, the two FSM errors are those of
  \<^verbatim>\<open>xaptum/fsm/exceptions.py\<close>; the others are Python's own
  (\<^verbatim>\<open>struct.error\<close>, \<^verbatim>\<open>socket.error\<close>, and the built-in errors);
  \<open>CryptoError\<close> stands for whatever a cryptographic library raises on a malformed input.
  \<open>NotModelled\<close> is no exception of the program: it marks the three places where the model
  of the state machine stops, each of which is shown below never to be reached.
\<close>

datatype error =
    InvalidMessageError
  | UnsupportedVersionError
  | IncorrectGroupError
  | InvalidSignatureError
  | TerminatedError
  | UnsupportedEventError
  | StructError
  | SocketError
  | NameError
  | TypeError
  | AttributeError
  | UnicodeEncodeError
  | AssertionError
  | CryptoError
  | NotModelled

text \<open>
  \<open>isinstance e c\<close>: an exception of class \<open>e\<close> is caught by a handler for class \<open>c\<close>.
  The only subclass relation among the classes above is
  \<^verbatim>\<open>class UnsupportedVersionError(InvalidMessageError)\<close>.
\<close>

definition isinstance :: "error \<Rightarrow> error \<Rightarrow> bool" where
  "isinstance e c \<longleftrightarrow> e = c \<or> (e = UnsupportedVersionError \<and> c = InvalidMessageError)"

text \<open>
  The formats used by the codec are \<^verbatim>\<open>'!BHH'\<close>, \<^verbatim>\<open>'!BHHHH'\<close> and
  \<^verbatim>\<open>'!%ds%ds'\<close>: network byte order, no padding. A format is the list of its field
  codes; \<open>S k\<close> is \<^verbatim>\<open>'ks'\<close>.
\<close>

datatype fmt = B | H | S nat

datatype val = VInt int | VBytes bytes

fun calcsize :: "fmt list \<Rightarrow> nat" where
  "calcsize [] = 0"
| "calcsize (B # fs) = 1 + calcsize fs"
| "calcsize (H # fs) = 2 + calcsize fs"
| "calcsize (S k # fs) = k + calcsize fs"

fun pack_field :: "fmt \<Rightarrow> val \<Rightarrow> error + bytes" where
  "pack_field B (VInt n) =
     (if 0 \<le> n \<and> n \<le> 255 then Inr [word_of_int n] else Inl StructError)"
| "pack_field H (VInt n) =
     (if 0 \<le> n \<and> n \<le> 65535 then Inr [word_of_int (n div 256), word_of_int (n mod 256)]
      else Inl StructError)"
| "pack_field (S k) (VBytes bs) = Inr (take k bs @ replicate (k - length bs) 0)"
| "pack_field _ _ = Inl StructError"

fun struct_pack :: "fmt list \<Rightarrow> val list \<Rightarrow> error + bytes" where
  "struct_pack [] [] = Inr []"
| "struct_pack (f # fs) (v # vs) =
     (case pack_field f v of
        Inl e \<Rightarrow> Inl e
      | Inr b \<Rightarrow> (case struct_pack fs vs of Inl e \<Rightarrow> Inl e | Inr bs \<Rightarrow> Inr (b @ bs)))"
| "struct_pack _ _ = Inl StructError"

fun unpack_fields :: "fmt list \<Rightarrow> bytes \<Rightarrow> val list" where
  "unpack_fields [] d = []"
| "unpack_fields (S k # fs) d = VBytes (take k d) # unpack_fields fs (drop k d)"
| "unpack_fields (B # fs) (b # d) = VInt (uint b) # unpack_fields fs d"
| "unpack_fields (H # fs) (b1 # b0 # d) = VInt (uint b1 * 256 + uint b0) # unpack_fields fs d"
| "unpack_fields _ _ = []"

text \<open>\<^verbatim>\<open>struct.unpack\<close> raises unless the buffer has exactly the size of the format.\<close>

definition struct_unpack :: "fmt list \<Rightarrow> bytes \<Rightarrow> error + val list" where
  "struct_unpack fs d = (if length d = calcsize fs then Inr (unpack_fields fs d) else Inl StructError)"

text \<open>
  Reading a name in a function body: the name is looked up among the names bound in the
  scope, and \<^verbatim>\<open>NameError\<close> is raised when it is bound nowhere.
\<close>

definition lookup_name :: "(string \<times> 'a) list \<Rightarrow> string \<Rightarrow> error + 'a" where
  "lookup_name scope n = (case map_of scope n of None \<Rightarrow> Inl NameError | Some v \<Rightarrow> Inr v)"

text \<open>
  Sequencing of two computations that may raise: an exception of the first one propagates.
\<close>

definition bind_result :: "error + 'a \<Rightarrow> ('a \<Rightarrow> error + 'b) \<Rightarrow> error + 'b" where
  "bind_result r f = (case r of Inl e \<Rightarrow> Inl e | Inr x \<Rightarrow> f x)"

section \<open>The message codec (\<^verbatim>\<open>xaptum/xdaa/message.py\<close>)\<close>

subsection \<open>ClientHelloMessage\<close>

record ClientHelloMessage =
  ch_version :: int
  ch_client_group_id_len :: nat
  ch_client_nonce_len :: nat
  ch_client_group_id :: bytes
  ch_client_nonce :: bytes

definition ClientHelloMessage_init :: "bytes \<Rightarrow> bytes \<Rightarrow> ClientHelloMessage" where
  "ClientHelloMessage_init client_group_id client_nonce =
     \<lparr> ch_version = 0,
       ch_client_group_id_len = length client_group_id,
       ch_client_nonce_len = length client_nonce,
       ch_client_group_id = client_group_id,
       ch_client_nonce = client_nonce \<rparr>"

definition ch_header_len :: nat where
  "ch_header_len = 5"

definition ch_parse_header :: "bytes \<Rightarrow> error + (ClientHelloMessage \<times> nat)" where
  "ch_parse_header header =
     (case struct_unpack [B, H, H] header of
        Inl e \<Rightarrow> Inl InvalidMessageError
      | Inr unpacked \<Rightarrow>
          (case unpacked of
             [VInt version, VInt client_group_id_len, VInt client_nonce_len] \<Rightarrow>
               if version \<noteq> 0 then Inl InvalidMessageError
               else
                 let message = (ClientHelloMessage_init [] [])
                       \<lparr> ch_client_group_id_len := nat client_group_id_len,
                         ch_client_nonce_len := nat client_nonce_len \<rparr>;
                     body_length = nat client_group_id_len + nat client_nonce_len
                 in Inr (message, body_length)
           | _ \<Rightarrow> Inl TypeError))"

definition ch_parse_body :: "ClientHelloMessage \<Rightarrow> bytes \<Rightarrow> error + ClientHelloMessage" where
  "ch_parse_body self data =
     (case struct_unpack [S (ch_client_group_id_len self), S (ch_client_nonce_len self)] data of
        Inl e \<Rightarrow> Inl InvalidMessageError
      | Inr unpacked \<Rightarrow>
          (case unpacked of
             [VBytes f0, VBytes f1] \<Rightarrow>
               Inr (self \<lparr> ch_client_group_id := f0, ch_client_nonce := f1 \<rparr>)
           | _ \<Rightarrow> Inl TypeError))"

definition ch_serialize :: "ClientHelloMessage \<Rightarrow> error + bytes" where
  "ch_serialize self =
     (case struct_pack [B, H, H]
             [VInt (ch_version self),
              VInt (int (ch_client_group_id_len self)),
              VInt (int (ch_client_nonce_len self))] of
        Inl e \<Rightarrow> Inl e
      | Inr header \<Rightarrow>
          (case struct_pack [S (ch_client_group_id_len self), S (ch_client_nonce_len self)]
                  [VBytes (ch_client_group_id self), VBytes (ch_client_nonce self)] of
             Inl e \<Rightarrow> Inl e
           | Inr body \<Rightarrow> Inr (header @ body)))"

subsection \<open>ServerKeyExchangeMessage\<close>

record ServerKeyExchangeMessage =
  ske_version :: int
  ske_server_group_id_len :: nat
  ske_server_nonce_len :: nat
  ske_server_ecdhe_public_key_len :: nat
  ske_signature_len :: nat
  ske_server_group_id :: bytes
  ske_server_nonce :: bytes
  ske_server_ecdhe_public_key :: bytes
  ske_signature :: bytes

definition ServerKeyExchangeMessage_init ::
  "bytes \<Rightarrow> bytes \<Rightarrow> bytes \<Rightarrow> bytes \<Rightarrow> ServerKeyExchangeMessage" where
  "ServerKeyExchangeMessage_init server_group_id server_nonce server_ecdhe_public_key signature =
     \<lparr> ske_version = 0,
       ske_server_group_id_len = length server_group_id,
       ske_server_nonce_len = length server_nonce,
       ske_server_ecdhe_public_key_len = length server_ecdhe_public_key,
       ske_signature_len = length signature,
       ske_server_group_id = server_group_id,
       ske_server_nonce = server_nonce,
       ske_server_ecdhe_public_key = server_ecdhe_public_key,
       ske_signature = signature \<rparr>"

definition ske_header_len :: nat where
  "ske_header_len = 9"

text \<open>
  \<^verbatim>\<open>sig_format = '!%ds%ds'%(len(server_ecdhe_public_key), len(client_nonce))\<close>, then
  \<^verbatim>\<open>struct.pack(sig_format, server_ecdhe_public_key, client_nonce)\<close>.
\<close>

definition ske_serialize_for_signature :: "bytes \<Rightarrow> bytes \<Rightarrow> error + bytes" where
  "ske_serialize_for_signature server_ecdhe_public_key client_nonce =
     (let sig_format = [S (length server_ecdhe_public_key), S (length client_nonce)]
      in case lookup_name [(''sig_format'', sig_format)] ''sig_format'' of
           Inl e \<Rightarrow> Inl e
         | Inr f \<Rightarrow> struct_pack f [VBytes server_ecdhe_public_key, VBytes client_nonce])"

definition ske_parse_header :: "bytes \<Rightarrow> error + (ServerKeyExchangeMessage \<times> nat)" where
  "ske_parse_header header =
     (case struct_unpack [B, H, H, H, H] header of
        Inl e \<Rightarrow> Inl InvalidMessageError
      | Inr unpacked \<Rightarrow>
          (case unpacked of
             [VInt version, VInt server_group_id_len, VInt server_nonce_len,
              VInt server_ecdhe_public_key_len, VInt signature_len] \<Rightarrow>
               if version \<noteq> 0 then Inl InvalidMessageError
               else
                 let message = (ServerKeyExchangeMessage_init [] [] [] [])
                       \<lparr> ske_server_group_id_len := nat server_group_id_len,
                         ske_server_nonce_len := nat server_nonce_len,
                         ske_server_ecdhe_public_key_len := nat server_ecdhe_public_key_len,
                         ske_signature_len := nat signature_len \<rparr>;
                     body_length = nat server_group_id_len + nat server_nonce_len +
                                   nat server_ecdhe_public_key_len + nat signature_len
                 in Inr (message, body_length)
           | _ \<Rightarrow> Inl TypeError))"

definition ske_parse_body ::
  "ServerKeyExchangeMessage \<Rightarrow> bytes \<Rightarrow> error + ServerKeyExchangeMessage" where
  "ske_parse_body self data =
     (case struct_unpack [S (ske_server_group_id_len self), S (ske_server_nonce_len self),
                          S (ske_server_ecdhe_public_key_len self), S (ske_signature_len self)]
             data of
        Inl e \<Rightarrow> Inl InvalidMessageError
      | Inr unpacked \<Rightarrow>
          (case unpacked of
             [VBytes f0, VBytes f1, VBytes f2, VBytes f3] \<Rightarrow>
               Inr (self \<lparr> ske_server_group_id := f0, ske_server_nonce := f1,
                           ske_server_ecdhe_public_key := f2, ske_signature := f3 \<rparr>)
           | _ \<Rightarrow> Inl TypeError))"

definition ske_serialize :: "ServerKeyExchangeMessage \<Rightarrow> error + bytes" where
  "ske_serialize self =
     (case struct_pack [B, H, H, H, H]
             [VInt (ske_version self),
              VInt (int (ske_server_group_id_len self)),
              VInt (int (ske_server_nonce_len self)),
              VInt (int (ske_server_ecdhe_public_key_len self)),
              VInt (int (ske_signature_len self))] of
        Inl e \<Rightarrow> Inl e
      | Inr header \<Rightarrow>
          (case struct_pack [S (ske_server_group_id_len self), S (ske_server_nonce_len self),
                             S (ske_server_ecdhe_public_key_len self), S (ske_signature_len self)]
                  [VBytes (ske_server_group_id self), VBytes (ske_server_nonce self),
                   VBytes (ske_server_ecdhe_public_key self), VBytes (ske_signature self)] of
             Inl e \<Rightarrow> Inl e
           | Inr body \<Rightarrow> Inr (header @ body)))"

subsection \<open>ClientKeyExchangeMessage\<close>

record ClientKeyExchangeMessage =
  cke_version :: int
  cke_client_ecdhe_public_key_len :: nat
  cke_signature_len :: nat
  cke_client_ecdhe_public_key :: bytes
  cke_signature :: bytes

definition ClientKeyExchangeMessage_init :: "bytes \<Rightarrow> bytes \<Rightarrow> ClientKeyExchangeMessage" where
  "ClientKeyExchangeMessage_init client_ecdhe_public_key signature =
     \<lparr> cke_version = 0,
       cke_client_ecdhe_public_key_len = length client_ecdhe_public_key,
       cke_signature_len = length signature,
       cke_client_ecdhe_public_key = client_ecdhe_public_key,
       cke_signature = signature \<rparr>"

definition cke_header_len :: nat where
  "cke_header_len = 5"

text \<open>
  \<^verbatim>\<open>format = '!%ds%ds'%(len(client_ecdhe_public_key), len(server_nonce))\<close>, then
  \<^verbatim>\<open>struct.pack(sig_format, client_ecdhe_public_key, server_nonce)\<close>: the local variable
  is called \<^verbatim>\<open>format\<close>, the name that is read is \<^verbatim>\<open>sig_format\<close>, and the
  module binds no global of that name.
\<close>

definition cke_serialize_for_signature :: "bytes \<Rightarrow> bytes \<Rightarrow> error + bytes" where
  "cke_serialize_for_signature client_ecdhe_public_key server_nonce =
     (let format = [S (length client_ecdhe_public_key), S (length server_nonce)]
      in case lookup_name [(''format'', format)] ''sig_format'' of
           Inl e \<Rightarrow> Inl e
         | Inr f \<Rightarrow> struct_pack f [VBytes client_ecdhe_public_key, VBytes server_nonce])"

definition cke_parse_header :: "bytes \<Rightarrow> error + (ClientKeyExchangeMessage \<times> nat)" where
  "cke_parse_header header =
     (case struct_unpack [B, H, H] header of
        Inl e \<Rightarrow> Inl InvalidMessageError
      | Inr unpacked \<Rightarrow>
          (case unpacked of
             [VInt version, VInt client_ecdhe_public_key_len, VInt signature_len] \<Rightarrow>
               if version \<noteq> 0 then Inl InvalidMessageError
               else
                 let message = (ClientKeyExchangeMessage_init [] [])
                       \<lparr> cke_client_ecdhe_public_key_len := nat client_ecdhe_public_key_len,
                         cke_signature_len := nat signature_len \<rparr>;
                     body_length = nat client_ecdhe_public_key_len + nat signature_len
                 in Inr (message, body_length)
           | _ \<Rightarrow> Inl TypeError))"

definition cke_parse_body ::
  "ClientKeyExchangeMessage \<Rightarrow> bytes \<Rightarrow> error + ClientKeyExchangeMessage" where
  "cke_parse_body self data =
     (case struct_unpack [S (cke_client_ecdhe_public_key_len self), S (cke_signature_len self)]
             data of
        Inl e \<Rightarrow> Inl InvalidMessageError
      | Inr unpacked \<Rightarrow>
          (case unpacked of
             [VBytes f0, VBytes f1] \<Rightarrow>
               Inr (self \<lparr> cke_client_ecdhe_public_key := f0, cke_signature := f1 \<rparr>)
           | _ \<Rightarrow> Inl TypeError))"

definition cke_serialize :: "ClientKeyExchangeMessage \<Rightarrow> error + bytes" where
  "cke_serialize self =
     (case struct_pack [B, H, H]
             [VInt (cke_version self),
              VInt (int (cke_client_ecdhe_public_key_len self)),
              VInt (int (cke_signature_len self))] of
        Inl e \<Rightarrow> Inl e
      | Inr header \<Rightarrow>
          (case struct_pack [S (cke_client_ecdhe_public_key_len self), S (cke_signature_len self)]
                  [VBytes (cke_client_ecdhe_public_key self), VBytes (cke_signature self)] of
             Inl e \<Rightarrow> Inl e
           | Inr body \<Rightarrow> Inr (header @ body)))"

subsection \<open>Decoding a whole message\<close>

text \<open>
  \<^verbatim>\<open>decode_message\<close> of the test suite: the header is the slice
  \<^verbatim>\<open>message_data[:header_len]\<close>, the body the slice
  \<^verbatim>\<open>message_data[header_len:header_len + length]\<close>, and the total length is asserted
  afterwards.
\<close>

definition decode_message ::
  "nat \<Rightarrow> (bytes \<Rightarrow> error + ('m \<times> nat)) \<Rightarrow> ('m \<Rightarrow> bytes \<Rightarrow> error + 'm) \<Rightarrow> bytes \<Rightarrow> error + 'm" where
  "decode_message header_len parse_header parse_body message_data =
     (case parse_header (take header_len message_data) of
        Inl e \<Rightarrow> Inl e
      | Inr (m, body_length) \<Rightarrow>
          (case parse_body m (take body_length (drop header_len message_data)) of
             Inl e \<Rightarrow> Inl e
           | Inr m' \<Rightarrow>
               if header_len + body_length = length message_data then Inr m'
               else Inl AssertionError))"

definition ch_decode :: "bytes \<Rightarrow> error + ClientHelloMessage" where
  "ch_decode = decode_message ch_header_len ch_parse_header ch_parse_body"

definition ske_decode :: "bytes \<Rightarrow> error + ServerKeyExchangeMessage" where
  "ske_decode = decode_message ske_header_len ske_parse_header ske_parse_body"

definition cke_decode :: "bytes \<Rightarrow> error + ClientKeyExchangeMessage" where
  "cke_decode = decode_message cke_header_len cke_parse_header cke_parse_body"

text \<open>The two bytes of an unsigned 16-bit integer in network byte order.\<close>

definition be16 :: "nat \<Rightarrow> bytes" where
  "be16 n = [word_of_int (int n div 256), word_of_int (int n mod 256)]"

section \<open>Key provisioning (\<^verbatim>\<open>xaptum/xdaa/daa.py\<close>)\<close>

text \<open>
  \<^verbatim>\<open>str.split(sep)\<close> for a separator of one character, without \<^verbatim>\<open>maxsplit\<close>: the
  string is cut at every occurrence of the separator.
\<close>

fun split :: "char \<Rightarrow> string \<Rightarrow> string list" where
  "split sep [] = [[]]"
| "split sep (c # cs) =
     (if c = sep then [] # split sep cs
      else (case split sep cs of [] \<Rightarrow> [[c]] | w # ws \<Rightarrow> (c # w) # ws))"

text \<open>
  \<^verbatim>\<open>codecs.encode(s, 'ascii')\<close>: the bytes of the characters, and
  \<^verbatim>\<open>UnicodeEncodeError\<close> when a character is not ASCII.
\<close>

definition encode_ascii :: "string \<Rightarrow> error + bytes" where
  "encode_ascii s =
     (if list_all (\<lambda>c. (of_char c :: nat) < 128) s then Inr (map (\<lambda>c. of_nat (of_char c)) s)
      else Inl UnicodeEncodeError)"

record Keys =
  group_id :: bytes
  server_public_key :: bytes
  client_private_key :: bytes

definition Keys_init :: "string \<Rightarrow> string \<Rightarrow> string \<Rightarrow> error + Keys" where
  "Keys_init g s c =
     bind_result (encode_ascii g) (\<lambda>g'.
     bind_result (encode_ascii s) (\<lambda>s'.
     bind_result (encode_ascii c) (\<lambda>c'.
       Inr \<lparr> group_id = g', server_public_key = s', client_private_key = c' \<rparr>)))"

text \<open>
  \<^verbatim>\<open>Keys(*csv.split(','))\<close>: the constructor takes three positional arguments, and a call
  with another number of them raises \<^verbatim>\<open>TypeError\<close>.
\<close>

definition Keys_from_csv :: "string \<Rightarrow> error + Keys" where
  "Keys_from_csv csv =
     (case split CHR '','' csv of
        [g, s, c] \<Rightarrow> Keys_init g s c
      | _ \<Rightarrow> Inl TypeError)"

section \<open>The synchronous transport (\<^verbatim>\<open>xaptum/xdaa/sync/io.py\<close>)\<close>

text \<open>
  The socket is any object with \<^verbatim>\<open>recv_into\<close> and \<^verbatim>\<open>sendall\<close>. \<open>recv_into sock n\<close>
  returns the bytes received, at most \<open>n\<close> of them (none when the peer has closed), and the
  socket afterwards; both operations may raise.
\<close>

record 's socket_ops =
  recv_into :: "'s \<Rightarrow> nat \<Rightarrow> error + (bytes \<times> 's)"
  sendall :: "'s \<Rightarrow> bytes \<Rightarrow> error + 's"

text \<open>
  The loop of \<^verbatim>\<open>recvexactly\<close>, on the buffer, the position and the socket. A chunk is
  written into the buffer at the position; an empty chunk ends the loop with \<^verbatim>\<open>b''\<close>.
\<close>

function recvexactly_loop ::
  "'s socket_ops \<Rightarrow> nat \<Rightarrow> bytes \<Rightarrow> nat \<Rightarrow> 's \<Rightarrow> error + (bytes \<times> 's)" where
  "recvexactly_loop ops sz buffer pos sock =
     (if pos < sz then
        (case recv_into ops sock (sz - pos) of
           Inl e \<Rightarrow> Inl e
         | Inr (received, sock') \<Rightarrow>
             (let chunk = take (sz - pos) received; read = length chunk in
              if read = 0 then Inr ([], sock')
              else recvexactly_loop ops sz
                     (take pos buffer @ chunk @ drop (pos + read) buffer) (pos + read) sock'))
      else Inr (buffer, sock))"
  by pat_completeness auto
termination
proof (relation "measure (\<lambda>(ops, sz, buffer, pos, sock). sz - pos)")
  fix ops :: "'s socket_ops" and sz pos :: nat and sock sock' :: 's and received chunk :: bytes
    and x :: "bytes \<times> 's" and read :: nat
  assume "pos < sz" and "chunk = take (sz - pos) received" and "read = length chunk"
    and "read \<noteq> 0"
  then have "0 < read" by simp
  with \<open>pos < sz\<close> have "sz - (pos + read) < sz - pos" by arith
  then show "((ops, sz, take pos buffer @ chunk @ drop (pos + read) buffer, pos + read, sock'),
              (ops, sz, buffer, pos, sock)) \<in> measure (\<lambda>(ops, sz, buffer, pos, sock). sz - pos)"
    for buffer
    by simp
qed simp

definition recvexactly :: "'s socket_ops \<Rightarrow> 's \<Rightarrow> nat \<Rightarrow> error + (bytes \<times> 's)" where
  "recvexactly ops sock sz = recvexactly_loop ops sz (replicate sz 0) 0 sock"

text \<open>The socket of the test suite (\<^verbatim>\<open>MockSock\<close> in \<^verbatim>\<open>test_io.py\<close>).\<close>

record MockSock =
  to_read :: bytes
  written :: bytes

definition MockSock_ops :: "MockSock socket_ops" where
  "MockSock_ops =
     \<lparr> recv_into = (\<lambda>sock sz.
         let n = min (length (to_read sock)) sz
         in Inr (take n (to_read sock), sock \<lparr> to_read := drop n (to_read sock) \<rparr>)),
       sendall = (\<lambda>sock buf. Inr (sock \<lparr> written := written sock @ buf \<rparr>)) \<rparr>"

section \<open>Events (\<^verbatim>\<open>xaptum/fsm/events.py\<close>, \<^verbatim>\<open>xaptum/xdaa/events.py\<close>)\<close>

text \<open>
  The keys are objects of the wrapper classes of \<^verbatim>\<open>xaptum/crypto\<close>. A Curve25519 public
  key is given by the little-endian bytes of the key it wraps, a key pair by its private and
  its public part, a secp256r1 public key by its encoded point and a private key by its
  integral value.
\<close>

datatype x25519_public_key = X25519_public_key bytes

datatype x25519_key_pair = X25519_key_pair (private_part: bytes) (public_part: bytes)

datatype secp256r1_public_key = Secp256r1_public_key bytes

datatype secp256r1_private_key = Secp256r1_private_key int

datatype Events =
    START | TERMINATED | ENTRY | EXIT
  | DATA_WRITE | DATA_WRITE_RESULT | DATA_READ | DATA_READ_RESULT
  | CREATE_NONCE | CREATE_NONCE_RESULT
  | EPHEMERAL_CREATE_KEY | EPHEMERAL_CREATE_KEY_RESULT
  | EPHEMERAL_COMPUTE_SHARED_SECRET | EPHEMERAL_COMPUTE_SHARED_SECRET_RESULT
  | EPHEMERAL_DECODE_PUBLIC_KEY | EPHEMERAL_DECODE_PUBLIC_KEY_RESULT
  | EPHEMERAL_ENCODE_PUBLIC_KEY | EPHEMERAL_ENCODE_PUBLIC_KEY_RESULT
  | GROUP_DECODE_PUBLIC_KEY | GROUP_DECODE_PUBLIC_KEY_RESULT
  | GROUP_DECODE_PRIVATE_KEY | GROUP_DECODE_PRIVATE_KEY_RESULT
  | GROUP_SHA256_SIGN_DATA | GROUP_SHA256_SIGN_DATA_RESULT
  | GROUP_SHA256_VERIFY_SIGNATURE | GROUP_SHA256_VERIFY_SIGNATURE_RESULT

text \<open>
  The two arguments of \<open>EphemeralComputeSharedSecret\<close> and the one of
  \<open>EphemeralEncodePublicKey\<close> are read from context attributes that are \<^verbatim>\<open>None\<close> until
  they are assigned, hence the options.
\<close>

datatype event =
    Start | Terminated | Entry | Exit
  | DataWrite bytes
  | DataWriteResult
  | DataRead nat
  | DataReadResult bytes
  | CreateNonce nat
  | CreateNonceResult bytes
  | EphemeralCreateKey
  | EphemeralCreateKeyResult x25519_key_pair
  | EphemeralComputeSharedSecret "x25519_key_pair option" "x25519_public_key option"
  | EphemeralComputeSharedSecretResult bytes
  | EphemeralDecodePublicKey bytes
  | EphemeralDecodePublicKeyResult x25519_public_key
  | EphemeralEncodePublicKey "x25519_key_pair option"
  | EphemeralEncodePublicKeyResult bytes
  | GroupDecodePublicKey bytes
  | GroupDecodePublicKeyResult secp256r1_public_key
  | GroupDecodePrivateKey bytes
  | GroupDecodePrivateKeyResult secp256r1_private_key
  | GroupSHA256SignData secp256r1_private_key bytes
  | GroupSHA256SignDataResult bytes
  | GroupSHA256VerifySignature secp256r1_public_key bytes bytes
  | GroupSHA256VerifySignatureResult bool

fun kind :: "event \<Rightarrow> Events" where
  "kind Start = START"
| "kind Terminated = TERMINATED"
| "kind Entry = ENTRY"
| "kind Exit = EXIT"
| "kind (DataWrite d) = DATA_WRITE"
| "kind DataWriteResult = DATA_WRITE_RESULT"
| "kind (DataRead n) = DATA_READ"
| "kind (DataReadResult d) = DATA_READ_RESULT"
| "kind (CreateNonce n) = CREATE_NONCE"
| "kind (CreateNonceResult d) = CREATE_NONCE_RESULT"
| "kind EphemeralCreateKey = EPHEMERAL_CREATE_KEY"
| "kind (EphemeralCreateKeyResult k) = EPHEMERAL_CREATE_KEY_RESULT"
| "kind (EphemeralComputeSharedSecret k p) = EPHEMERAL_COMPUTE_SHARED_SECRET"
| "kind (EphemeralComputeSharedSecretResult d) = EPHEMERAL_COMPUTE_SHARED_SECRET_RESULT"
| "kind (EphemeralDecodePublicKey d) = EPHEMERAL_DECODE_PUBLIC_KEY"
| "kind (EphemeralDecodePublicKeyResult p) = EPHEMERAL_DECODE_PUBLIC_KEY_RESULT"
| "kind (EphemeralEncodePublicKey k) = EPHEMERAL_ENCODE_PUBLIC_KEY"
| "kind (EphemeralEncodePublicKeyResult d) = EPHEMERAL_ENCODE_PUBLIC_KEY_RESULT"
| "kind (GroupDecodePublicKey d) = GROUP_DECODE_PUBLIC_KEY"
| "kind (GroupDecodePublicKeyResult p) = GROUP_DECODE_PUBLIC_KEY_RESULT"
| "kind (GroupDecodePrivateKey d) = GROUP_DECODE_PRIVATE_KEY"
| "kind (GroupDecodePrivateKeyResult p) = GROUP_DECODE_PRIVATE_KEY_RESULT"
| "kind (GroupSHA256SignData p d) = GROUP_SHA256_SIGN_DATA"
| "kind (GroupSHA256SignDataResult d) = GROUP_SHA256_SIGN_DATA_RESULT"
| "kind (GroupSHA256VerifySignature p d sg) = GROUP_SHA256_VERIFY_SIGNATURE"
| "kind (GroupSHA256VerifySignatureResult b) = GROUP_SHA256_VERIFY_SIGNATURE_RESULT"

section \<open>The handshake (\<^verbatim>\<open>xaptum/xdaa/handshake.py\<close>)\<close>

subsection \<open>Context and state machine objects\<close>

text \<open>
  \<^verbatim>\<open>DAAGroup\<close> has the three attributes of \<^verbatim>\<open>Keys\<close>, and the test suite passes a
  \<^verbatim>\<open>Keys\<close> object where a \<^verbatim>\<open>DAAGroup\<close> is expected.
\<close>

type_synonym DAAGroup = Keys

text \<open>
  \<^verbatim>\<open>XDAAContext\<close>. The attributes up to \<open>server_ephemeral_public_key\<close> are set to
  \<^verbatim>\<open>None\<close> by the constructor (\<open>None\<close> here too). The last three are not: they exist
  once they have been assigned, and reading one before raises \<^verbatim>\<open>AttributeError\<close>
  (\<open>None\<close> is the absent attribute).
\<close>

record XDAAContext =
  protocol_version :: int
  daa_group :: "DAAGroup option"
  client_nonce :: "bytes option"
  client_daa_private_key :: "secp256r1_private_key option"
  client_ephemeral_private_key :: "x25519_key_pair option"
  server_nonce :: "bytes option"
  server_daa_public_key :: "secp256r1_public_key option"
  server_ephemeral_public_key :: "x25519_public_key option"
  server_group_public_key :: "secp256r1_public_key option"
  client_group_private_key :: "secp256r1_private_key option"
  shared_secret :: "bytes option"

definition XDAAContext_init :: XDAAContext where
  "XDAAContext_init =
     \<lparr> protocol_version = 0, daa_group = None, client_nonce = None,
       client_daa_private_key = None, client_ephemeral_private_key = None,
       server_nonce = None, server_daa_public_key = None, server_ephemeral_public_key = None,
       server_group_public_key = None, client_group_private_key = None,
       shared_secret = None \<rparr>"

text \<open>Reading an attribute that may be absent, and reading an attribute of \<^verbatim>\<open>None\<close>.\<close>

definition getattr :: "'a option \<Rightarrow> error + 'a" where
  "getattr v = (case v of None \<Rightarrow> Inl AttributeError | Some x \<Rightarrow> Inr x)"

text \<open>\<^verbatim>\<open>len(x)\<close> where \<open>x\<close> may be \<^verbatim>\<open>None\<close>.\<close>

definition len_arg :: "bytes option \<Rightarrow> error + bytes" where
  "len_arg v = (case v of None \<Rightarrow> Inl TypeError | Some x \<Rightarrow> Inr x)"

text \<open>The state methods of the five state machine classes, and the classes of the children.\<close>

datatype state =
    initial | final
  | init_context | send_client_hello | receive_server_key_exchange
  | send_client_key_exchange | compute_shared_secret
  | steps
  | send
  | receive_message | validate_message | process_message
  | prepare_message | send_message

datatype child_class =
  InitContext | SendClientHello | ReceiveServerKeyExchange | SendClientKeyExchange

text \<open>
  A child state machine: its class, \<^verbatim>\<open>current\<close>, the counter \<^verbatim>\<open>_step\<close> of
  \<^verbatim>\<open>StepMixin\<close> and the attributes that the state methods assign (\<open>None\<close> while absent).
  Its \<^verbatim>\<open>context\<close> is the context object of the parent, and its \<^verbatim>\<open>maybeParent\<close> is the
  parent for as long as the parent holds it as \<^verbatim>\<open>maybeChild\<close>; no child has a child.
\<close>

record child_fsm =
  cls :: child_class
  current :: "state option"
  step_count :: "nat option"
  ske_message :: "ServerKeyExchangeMessage option"
  public_key_encoded :: "bytes option"
  signature :: "bytes option"
  cke_message :: "ClientKeyExchangeMessage option"

definition child_init :: "child_class \<Rightarrow> child_fsm" where
  "child_init c =
     \<lparr> cls = c, current = Some initial, step_count = None, ske_message = None,
       public_key_encoded = None, signature = None, cke_message = None \<rparr>"

definition on_start :: "child_class \<Rightarrow> state" where
  "on_start c =
     (case c of
        InitContext \<Rightarrow> steps
      | SendClientHello \<Rightarrow> send
      | ReceiveServerKeyExchange \<Rightarrow> receive_message
      | SendClientKeyExchange \<Rightarrow> prepare_message)"

text \<open>
  What a state method does last. Every state method ends by returning an event (or nothing),
  or by returning the result of \<^verbatim>\<open>become\<close>, \<^verbatim>\<open>terminate\<close>, \<^verbatim>\<open>delegate\<close> or
  \<^verbatim>\<open>unhandled\<close>; the state machine base class carries that call out.
\<close>

datatype action =
    Return "event option"
  | Become state
  | Terminate
  | Delegate child_class
  | Unhandled event

subsection \<open>\<^verbatim>\<open>StepMixin\<close>\<close>

definition init_step :: "child_fsm \<Rightarrow> bool \<Rightarrow> child_fsm \<times> bool" where
  "init_step self guard = (if guard then (self \<lparr> step_count := Some 0 \<rparr>, True) else (self, False))"

text \<open>\<^verbatim>\<open>num == self._step + 1 and guard\<close> reads \<^verbatim>\<open>_step\<close> whatever the guard is.\<close>

definition step :: "child_fsm \<Rightarrow> nat \<Rightarrow> bool \<Rightarrow> error + (child_fsm \<times> bool)" where
  "step self num guard =
     (case step_count self of
        None \<Rightarrow> Inl AttributeError
      | Some k \<Rightarrow>
          if num = k + 1 \<and> guard then Inr (self \<lparr> step_count := Some (k + 1) \<rparr>, True)
          else Inr (self, False))"

subsection \<open>The state methods of the child state machines\<close>

type_synonym child_result = "error + (XDAAContext \<times> child_fsm \<times> action)"

definition InitContext_steps :: "XDAAContext \<Rightarrow> child_fsm \<Rightarrow> event \<Rightarrow> child_result" where
  "InitContext_steps ctx self event =
     (let (self, entered) = init_step self (kind event = ENTRY) in
      if entered then
        bind_result (getattr (daa_group ctx)) (\<lambda>g.
          Inr (ctx, self, Return (Some (GroupDecodePublicKey (server_public_key g)))))
      else bind_result (step self 1 (kind event = GROUP_DECODE_PUBLIC_KEY_RESULT)) (\<lambda>(self, ok).
      if ok then
        (case event of
           GroupDecodePublicKeyResult pk \<Rightarrow>
             bind_result (getattr (daa_group ctx)) (\<lambda>g.
               Inr (ctx \<lparr> server_group_public_key := Some pk \<rparr>, self,
                    Return (Some (GroupDecodePrivateKey (client_private_key g)))))
         | _ \<Rightarrow> Inl AttributeError)
      else bind_result (step self 2 (kind event = GROUP_DECODE_PRIVATE_KEY_RESULT)) (\<lambda>(self, ok).
      if ok then
        (case event of
           GroupDecodePrivateKeyResult sk \<Rightarrow>
             Inr (ctx \<lparr> client_group_private_key := Some sk \<rparr>, self,
                  Return (Some (CreateNonce 32)))
         | _ \<Rightarrow> Inl AttributeError)
      else bind_result (step self 3 (kind event = CREATE_NONCE_RESULT)) (\<lambda>(self, ok).
      if ok then
        (case event of
           CreateNonceResult nonce \<Rightarrow>
             Inr (ctx \<lparr> client_nonce := Some nonce \<rparr>, self, Return (Some EphemeralCreateKey))
         | _ \<Rightarrow> Inl AttributeError)
      else bind_result (step self 4 (kind event = EPHEMERAL_CREATE_KEY_RESULT)) (\<lambda>(self, ok).
      if ok then
        (case event of
           EphemeralCreateKeyResult key \<Rightarrow>
             Inr (ctx \<lparr> client_ephemeral_private_key := Some key \<rparr>, self, Terminate)
         | _ \<Rightarrow> Inl AttributeError)
      else Inr (ctx, self, Unhandled event))))))"

definition SendClientHello_send :: "XDAAContext \<Rightarrow> child_fsm \<Rightarrow> event \<Rightarrow> child_result" where
  "SendClientHello_send ctx self event =
     (if kind event = ENTRY then
        bind_result (getattr (daa_group ctx)) (\<lambda>g.
        bind_result (len_arg (client_nonce ctx)) (\<lambda>nonce.
        bind_result (ch_serialize (ClientHelloMessage_init (group_id g) nonce)) (\<lambda>d.
          Inr (ctx, self, Return (Some (DataWrite d))))))
      else if kind event = DATA_WRITE_RESULT then Inr (ctx, self, Terminate)
      else Inr (ctx, self, Unhandled event))"

definition ReceiveServerKeyExchange_receive_message ::
  "XDAAContext \<Rightarrow> child_fsm \<Rightarrow> event \<Rightarrow> child_result" where
  "ReceiveServerKeyExchange_receive_message ctx self event =
     (let (self, entered) = init_step self (kind event = ENTRY) in
      if entered then Inr (ctx, self, Return (Some (DataRead ske_header_len)))
      else bind_result (step self 1 (kind event = DATA_READ_RESULT)) (\<lambda>(self, ok).
      if ok then
        (case event of
           DataReadResult d \<Rightarrow>
             bind_result (ske_parse_header d) (\<lambda>(message, remaining).
               Inr (ctx, self \<lparr> ske_message := Some message \<rparr>,
                    Return (Some (DataRead remaining))))
         | _ \<Rightarrow> Inl AttributeError)
      else bind_result (step self 2 (kind event = DATA_READ_RESULT)) (\<lambda>(self, ok).
      if ok then
        (case event of
           DataReadResult d \<Rightarrow>
             bind_result (getattr (ske_message self)) (\<lambda>message.
             bind_result (ske_parse_body message d) (\<lambda>message.
               Inr (ctx, self \<lparr> ske_message := Some message \<rparr>, Become validate_message)))
         | _ \<Rightarrow> Inl AttributeError)
      else Inr (ctx, self, Unhandled event))))"

definition ReceiveServerKeyExchange_validate_message ::
  "XDAAContext \<Rightarrow> child_fsm \<Rightarrow> event \<Rightarrow> child_result" where
  "ReceiveServerKeyExchange_validate_message ctx self event =
     (let (self, entered) = init_step self (kind event = ENTRY) in
      if entered then
        bind_result (getattr (ske_message self)) (\<lambda>message.
          if ske_version message \<noteq> protocol_version ctx then Inl UnsupportedVersionError
          else
            bind_result (getattr (daa_group ctx)) (\<lambda>g.
              if ske_server_group_id message \<noteq> group_id g then Inl IncorrectGroupError
              else
                bind_result (getattr (server_group_public_key ctx)) (\<lambda>pk.
                bind_result (len_arg (client_nonce ctx)) (\<lambda>nonce.
                bind_result (ske_serialize_for_signature
                               (ske_server_ecdhe_public_key message) nonce) (\<lambda>buf.
                  Inr (ctx, self,
                       Return (Some (GroupSHA256VerifySignature pk buf
                                       (ske_signature message)))))))))
      else bind_result (step self 1 (kind event = GROUP_SHA256_VERIFY_SIGNATURE_RESULT))
        (\<lambda>(self, ok).
      if ok then
        (case event of
           GroupSHA256VerifySignatureResult verified \<Rightarrow>
             if verified = False then Inl InvalidSignatureError
             else Inr (ctx, self, Become process_message)
         | _ \<Rightarrow> Inl AttributeError)
      else Inr (ctx, self, Unhandled event)))"

definition ReceiveServerKeyExchange_process_message ::
  "XDAAContext \<Rightarrow> child_fsm \<Rightarrow> event \<Rightarrow> child_result" where
  "ReceiveServerKeyExchange_process_message ctx self event =
     (if kind event = ENTRY then
        bind_result (getattr (ske_message self)) (\<lambda>message.
          Inr (ctx \<lparr> server_nonce := Some (ske_server_nonce message) \<rparr>, self,
               Return (Some (EphemeralDecodePublicKey (ske_server_ecdhe_public_key message)))))
      else if kind event = EPHEMERAL_DECODE_PUBLIC_KEY_RESULT then
        (case event of
           EphemeralDecodePublicKeyResult pk \<Rightarrow>
             Inr (ctx \<lparr> server_ephemeral_public_key := Some pk \<rparr>, self, Terminate)
         | _ \<Rightarrow> Inl AttributeError)
      else Inr (ctx, self, Unhandled event))"

definition SendClientKeyExchange_prepare_message ::
  "XDAAContext \<Rightarrow> child_fsm \<Rightarrow> event \<Rightarrow> child_result" where
  "SendClientKeyExchange_prepare_message ctx self event =
     (let (self, entered) = init_step self (kind event = ENTRY) in
      if entered then
        Inr (ctx, self, Return (Some (EphemeralEncodePublicKey (client_ephemeral_private_key ctx))))
      else bind_result (step self 1 (kind event = EPHEMERAL_ENCODE_PUBLIC_KEY_RESULT))
        (\<lambda>(self, ok).
      if ok then
        (case event of
           EphemeralEncodePublicKeyResult encoded \<Rightarrow>
             (let self = self \<lparr> public_key_encoded := Some encoded \<rparr> in
              bind_result (len_arg (server_nonce ctx)) (\<lambda>nonce.
              bind_result (cke_serialize_for_signature encoded nonce) (\<lambda>sig_buffer.
              bind_result (getattr (client_group_private_key ctx)) (\<lambda>sk.
                Inr (ctx, self, Return (Some (GroupSHA256SignData sk sig_buffer)))))))
         | _ \<Rightarrow> Inl AttributeError)
      else bind_result (step self 2 (kind event = GROUP_SHA256_SIGN_DATA_RESULT)) (\<lambda>(self, ok).
      if ok then
        (case event of
           GroupSHA256SignDataResult sg \<Rightarrow>
             (let self = self \<lparr> signature := Some sg \<rparr> in
              bind_result (getattr (public_key_encoded self)) (\<lambda>encoded.
                Inr (ctx, self \<lparr> cke_message := Some (ClientKeyExchangeMessage_init encoded sg) \<rparr>,
                     Become send_message)))
         | _ \<Rightarrow> Inl AttributeError)
      else Inr (ctx, self, Unhandled event))))"

definition SendClientKeyExchange_send_message ::
  "XDAAContext \<Rightarrow> child_fsm \<Rightarrow> event \<Rightarrow> child_result" where
  "SendClientKeyExchange_send_message ctx self event =
     (if kind event = ENTRY then
        bind_result (getattr (cke_message self)) (\<lambda>message.
        bind_result (cke_serialize message) (\<lambda>d.
          Inr (ctx, self, Return (Some (DataWrite d)))))
      else if kind event = DATA_WRITE_RESULT then Inr (ctx, self, Terminate)
      else Inr (ctx, self, Unhandled event))"

subsection \<open>The state machine base class (\<^verbatim>\<open>xaptum/fsm/fsm.py\<close>), for a child\<close>

text \<open>\<^verbatim>\<open>FSM.initial\<close> and \<^verbatim>\<open>FSM.final\<close>; every class here passes an \<^verbatim>\<open>on_start\<close>.\<close>

definition FSM_initial :: "state \<Rightarrow> event \<Rightarrow> action" where
  "FSM_initial start event = (if kind event = START then Become start else Unhandled event)"

definition FSM_final :: "event \<Rightarrow> error + action" where
  "FSM_final event = (if kind event = ENTRY then Inr (Return (Some Terminated)) else Inl TerminatedError)"

text \<open>
  \<^verbatim>\<open>self.current(event)\<close>: the state method is a method of the object's class, bound
  when \<^verbatim>\<open>current\<close> was assigned. A state that is no method of the class cannot be in
  \<^verbatim>\<open>current\<close>; the model answers \<^verbatim>\<open>AttributeError\<close> there.
\<close>

definition child_call :: "XDAAContext \<Rightarrow> child_fsm \<Rightarrow> state \<Rightarrow> event \<Rightarrow> child_result" where
  "child_call ctx self s event =
     (if s = initial then Inr (ctx, self, FSM_initial (on_start (cls self)) event)
      else if s = final then bind_result (FSM_final event) (\<lambda>a. Inr (ctx, self, a))
      else if cls self = InitContext \<and> s = steps then InitContext_steps ctx self event
      else if cls self = SendClientHello \<and> s = send then SendClientHello_send ctx self event
      else if cls self = ReceiveServerKeyExchange \<and> s = receive_message
        then ReceiveServerKeyExchange_receive_message ctx self event
      else if cls self = ReceiveServerKeyExchange \<and> s = validate_message
        then ReceiveServerKeyExchange_validate_message ctx self event
      else if cls self = ReceiveServerKeyExchange \<and> s = process_message
        then ReceiveServerKeyExchange_process_message ctx self event
      else if cls self = SendClientKeyExchange \<and> s = prepare_message
        then SendClientKeyExchange_prepare_message ctx self event
      else if cls self = SendClientKeyExchange \<and> s = send_message
        then SendClientKeyExchange_send_message ctx self event
      else Inl AttributeError)"

text \<open>
  \<^verbatim>\<open>_exit\<close>: \<^verbatim>\<open>self.current(Exit())\<close>, whose result is dropped, then
  \<^verbatim>\<open>self.current = None\<close>. Calling \<^verbatim>\<open>None\<close> raises \<^verbatim>\<open>TypeError\<close>.
  \<^verbatim>\<open>unhandled\<close> does nothing for \<^verbatim>\<open>Entry\<close> and \<^verbatim>\<open>Exit\<close>. A state method that
  answered \<^verbatim>\<open>Exit\<close> with a transition would make \<^verbatim>\<open>become\<close> nest; none does, and
  the model stops there.
\<close>

definition child_exit :: "XDAAContext \<Rightarrow> child_fsm \<Rightarrow> error + (XDAAContext \<times> child_fsm)" where
  "child_exit ctx self =
     (case current self of
        None \<Rightarrow> Inl TypeError
      | Some s \<Rightarrow>
          bind_result (child_call ctx self s Exit) (\<lambda>(ctx, self, a).
            case a of
              Return r \<Rightarrow> Inr (ctx, self \<lparr> current := None \<rparr>)
            | Unhandled e \<Rightarrow>
                if kind e = ENTRY \<or> kind e = EXIT then Inr (ctx, self \<lparr> current := None \<rparr>)
                else Inl NotModelled
            | _ \<Rightarrow> Inl NotModelled))"

text \<open>\<^verbatim>\<open>_enter\<close>: \<^verbatim>\<open>self.current = state\<close>, then \<^verbatim>\<open>return self.current(Entry())\<close>.\<close>

definition child_enter ::
  "XDAAContext \<Rightarrow> child_fsm \<Rightarrow> state \<Rightarrow> error + (XDAAContext \<times> child_fsm \<times> event option)" where
  "child_enter ctx self s =
     (let self = self \<lparr> current := Some s \<rparr> in
      bind_result (child_call ctx self s Entry) (\<lambda>(ctx, self, a).
        case a of
          Return r \<Rightarrow> Inr (ctx, self, r)
        | Unhandled e \<Rightarrow>
            if kind e = ENTRY \<or> kind e = EXIT then Inr (ctx, self, None) else Inl NotModelled
        | _ \<Rightarrow> Inl NotModelled))"

text \<open>\<^verbatim>\<open>become\<close>; a child has no child to abort.\<close>

definition child_become ::
  "XDAAContext \<Rightarrow> child_fsm \<Rightarrow> state \<Rightarrow> error + (XDAAContext \<times> child_fsm \<times> event option)" where
  "child_become ctx self s =
     bind_result (child_exit ctx self) (\<lambda>(ctx, self). child_enter ctx self s)"

text \<open>
  \<^verbatim>\<open>receive\<close> of a child, up to the point where \<^verbatim>\<open>unhandled\<close> hands the event to the
  parent: the result is the returned event, or the event that goes to
  \<^verbatim>\<open>self.maybeParent._receive_self\<close>. No state method of a child delegates.
\<close>

datatype outcome = Done "event option" | ToParent event

definition child_receive ::
  "XDAAContext \<Rightarrow> child_fsm \<Rightarrow> event \<Rightarrow> error + (XDAAContext \<times> child_fsm \<times> outcome)" where
  "child_receive ctx self event =
     (case current self of
        None \<Rightarrow> Inl TypeError
      | Some s \<Rightarrow>
          bind_result (child_call ctx self s event) (\<lambda>(ctx, self, a).
            case a of
              Return r \<Rightarrow> Inr (ctx, self, Done r)
            | Become s' \<Rightarrow>
                bind_result (child_become ctx self s') (\<lambda>(ctx, self, r). Inr (ctx, self, Done r))
            | Terminate \<Rightarrow>
                bind_result (child_become ctx self final) (\<lambda>(ctx, self, r). Inr (ctx, self, Done r))
            | Unhandled e \<Rightarrow>
                if kind e = ENTRY \<or> kind e = EXIT then Inr (ctx, self, Done None)
                else Inr (ctx, self, ToParent e)
            | Delegate c \<Rightarrow> Inl NotModelled))"

subsection \<open>\<^verbatim>\<open>XDAAHandshake\<close>\<close>

record handshake =
  hs_current :: "state option"
  maybeChild :: "child_fsm option"
  hs_context :: XDAAContext

definition XDAAHandshake_init :: "DAAGroup \<Rightarrow> handshake" where
  "XDAAHandshake_init g =
     \<lparr> hs_current = Some initial, maybeChild = None,
       hs_context = XDAAContext_init \<lparr> daa_group := Some g \<rparr> \<rparr>"

text \<open>The state methods of \<^verbatim>\<open>XDAAHandshake\<close>. Two of them have no \<^verbatim>\<open>else\<close> branch.\<close>

definition XDAAHandshake_call :: "handshake \<Rightarrow> state \<Rightarrow> event \<Rightarrow> error + (handshake \<times> action)" where
  "XDAAHandshake_call self s event =
     (if s = initial then Inr (self, FSM_initial init_context event)
      else if s = final then bind_result (FSM_final event) (\<lambda>a. Inr (self, a))
      else if s = init_context then
        (if kind event = ENTRY then Inr (self, Delegate InitContext)
         else if kind event = TERMINATED then Inr (self, Become send_client_hello)
         else Inr (self, Unhandled event))
      else if s = send_client_hello then
        (if kind event = ENTRY then Inr (self, Delegate SendClientHello)
         else if kind event = TERMINATED then Inr (self, Become receive_server_key_exchange)
         else Inr (self, Unhandled event))
      else if s = receive_server_key_exchange then
        (if kind event = ENTRY then Inr (self, Delegate ReceiveServerKeyExchange)
         else if kind event = TERMINATED then Inr (self, Become send_client_key_exchange)
         else Inr (self, Return None))
      else if s = send_client_key_exchange then
        (if kind event = ENTRY then Inr (self, Delegate SendClientKeyExchange)
         else if kind event = TERMINATED then Inr (self, Become compute_shared_secret)
         else Inr (self, Return None))
      else if s = compute_shared_secret then
        (if kind event = ENTRY then
           Inr (self, Return (Some (EphemeralComputeSharedSecret
                                      (client_ephemeral_private_key (hs_context self))
                                      (server_ephemeral_public_key (hs_context self)))))
         else if kind event = EPHEMERAL_COMPUTE_SHARED_SECRET_RESULT then
           (case event of
              EphemeralComputeSharedSecretResult secret \<Rightarrow>
                Inr (self \<lparr> hs_context := (hs_context self) \<lparr> shared_secret := Some secret \<rparr> \<rparr>,
                     Terminate)
            | _ \<Rightarrow> Inl AttributeError)
         else Inr (self, Unhandled event))
      else Inl AttributeError)"

text \<open>\<^verbatim>\<open>unhandled\<close> of the handshake, which has no parent.\<close>

definition handshake_unhandled :: "handshake \<Rightarrow> event \<Rightarrow> error + (handshake \<times> event option)" where
  "handshake_unhandled self event =
     (if kind event = ENTRY \<or> kind event = EXIT then Inr (self, None)
      else Inl UnsupportedEventError)"

definition handshake_exit :: "handshake \<Rightarrow> error + handshake" where
  "handshake_exit self =
     (case hs_current self of
        None \<Rightarrow> Inl TypeError
      | Some s \<Rightarrow>
          bind_result (XDAAHandshake_call self s Exit) (\<lambda>(self, a).
            case a of
              Return r \<Rightarrow> Inr (self \<lparr> hs_current := None \<rparr>)
            | Unhandled e \<Rightarrow>
                bind_result (handshake_unhandled self e) (\<lambda>(self, r).
                  Inr (self \<lparr> hs_current := None \<rparr>))
            | _ \<Rightarrow> Inl NotModelled))"

text \<open>
  \<^verbatim>\<open>delegate\<close>: with a child in place it calls \<^verbatim>\<open>self._abortChild()\<close>, a method that
  does not exist. Otherwise the new child gets \<^verbatim>\<open>Start\<close>, which its \<^verbatim>\<open>initial\<close> state
  answers by a transition to its first state; it hands nothing to the parent.
\<close>

definition delegate :: "handshake \<Rightarrow> child_class \<Rightarrow> error + (handshake \<times> event option)" where
  "delegate self c =
     (if maybeChild self \<noteq> None then Inl AttributeError
      else
        bind_result (child_receive (hs_context self) (child_init c) Start) (\<lambda>(ctx, child, out).
          case out of
            Done r \<Rightarrow> Inr (self \<lparr> maybeChild := Some child, hs_context := ctx \<rparr>, r)
          | ToParent e \<Rightarrow> Inl NotModelled))"

definition handshake_enter :: "handshake \<Rightarrow> state \<Rightarrow> error + (handshake \<times> event option)" where
  "handshake_enter self s =
     (let self = self \<lparr> hs_current := Some s \<rparr> in
      bind_result (XDAAHandshake_call self s Entry) (\<lambda>(self, a).
        case a of
          Return r \<Rightarrow> Inr (self, r)
        | Delegate c \<Rightarrow> delegate self c
        | Unhandled e \<Rightarrow> handshake_unhandled self e
        | _ \<Rightarrow> Inl NotModelled))"

text \<open>
  \<^verbatim>\<open>become\<close>: a child in place is aborted (\<^verbatim>\<open>_abort_child\<close> drops it), then
  \<^verbatim>\<open>_exit\<close> and \<^verbatim>\<open>_enter\<close>.
\<close>

definition handshake_become :: "handshake \<Rightarrow> state \<Rightarrow> error + (handshake \<times> event option)" where
  "handshake_become self s =
     (let self = (if maybeChild self \<noteq> None then self \<lparr> maybeChild := None \<rparr> else self) in
      bind_result (handshake_exit self) (\<lambda>self. handshake_enter self s))"

definition receive_self :: "handshake \<Rightarrow> event \<Rightarrow> error + (handshake \<times> event option)" where
  "receive_self self event =
     (case hs_current self of
        None \<Rightarrow> Inl TypeError
      | Some s \<Rightarrow>
          bind_result (XDAAHandshake_call self s event) (\<lambda>(self, a).
            case a of
              Return r \<Rightarrow> Inr (self, r)
            | Become s' \<Rightarrow> handshake_become self s'
            | Terminate \<Rightarrow> handshake_become self final
            | Delegate c \<Rightarrow> delegate self c
            | Unhandled e \<Rightarrow> handshake_unhandled self e))"

text \<open>
  \<^verbatim>\<open>_receive_child\<close>: the child receives the event, and an event it does not handle comes
  back through \<^verbatim>\<open>_receive_self\<close>; then \<^verbatim>\<open>ret.kind\<close> is read (\<^verbatim>\<open>AttributeError\<close> on
  \<^verbatim>\<open>None\<close>), and a \<^verbatim>\<open>Terminated\<close> drops the child and goes to the current state.
\<close>

definition receive_child ::
  "handshake \<Rightarrow> child_fsm \<Rightarrow> event \<Rightarrow> error + (handshake \<times> event option)" where
  "receive_child self child event =
     bind_result (child_receive (hs_context self) child event) (\<lambda>(ctx, child, out).
       let self = self \<lparr> maybeChild := Some child, hs_context := ctx \<rparr> in
       bind_result (case out of Done r \<Rightarrow> Inr (self, r) | ToParent e \<Rightarrow> receive_self self e)
         (\<lambda>(self, ret).
           case ret of
             None \<Rightarrow> Inl AttributeError
           | Some r \<Rightarrow>
               if kind r = TERMINATED then receive_self (self \<lparr> maybeChild := None \<rparr>) r
               else Inr (self, Some r)))"

definition receive :: "handshake \<Rightarrow> event \<Rightarrow> error + (handshake \<times> event option)" where
  "receive self event =
     (case maybeChild self of
        Some child \<Rightarrow> receive_child self child event
      | None \<Rightarrow> receive_self self event)"

section \<open>The cryptographic wrappers (\<^verbatim>\<open>xaptum/crypto\<close>)\<close>

text \<open>
  The libraries behind the wrappers (\<^verbatim>\<open>os\<close>, \<^verbatim>\<open>codecs\<close>, \<^verbatim>\<open>donna25519\<close>,
  \<^verbatim>\<open>cryptography\<close>) are not part of the program: their functions are parameters. A
  function that may raise returns a sum; \<open>urandom\<close>, \<open>donna_PrivateKey\<close> and \<open>ecdsa_sign\<close>
  give the outcome of the random draw of one run. \<open>ecdsa_verify public signature message\<close>
  is whether \<^verbatim>\<open>verify\<close> returns without \<^verbatim>\<open>InvalidSignature\<close>.
\<close>

record crypto_lib =
  urandom :: "nat \<Rightarrow> bytes"
  hex_decode :: "bytes \<Rightarrow> error + bytes"
  int_base16 :: "bytes \<Rightarrow> error + int"
  donna_PrivateKey :: bytes
  donna_get_public :: "bytes \<Rightarrow> bytes"
  donna_PublicKey :: "bytes \<Rightarrow> error + bytes"
  donna_do_exchange :: "bytes \<Rightarrow> bytes \<Rightarrow> bytes"
  ec_from_encoded_point :: "bytes \<Rightarrow> error + bytes"
  ec_derive_private_key :: "int \<Rightarrow> error + int"
  ecdsa_sign :: "int \<Rightarrow> bytes \<Rightarrow> bytes"
  ecdsa_verify :: "bytes \<Rightarrow> bytes \<Rightarrow> bytes \<Rightarrow> bool"

subsection \<open>\<^verbatim>\<open>x25519.py\<close>\<close>

definition public_key_from_bytes_le :: "crypto_lib \<Rightarrow> bytes \<Rightarrow> error + x25519_public_key" where
  "public_key_from_bytes_le lib bytes_le =
     bind_result (donna_PublicKey lib bytes_le) (\<lambda>raw. Inr (X25519_public_key raw))"

definition public_key_from_bytes_be :: "crypto_lib \<Rightarrow> bytes \<Rightarrow> error + x25519_public_key" where
  "public_key_from_bytes_be lib bytes_be =
     (let bytes_le = rev bytes_be in public_key_from_bytes_le lib bytes_le)"

fun to_bytes_le :: "x25519_public_key \<Rightarrow> bytes" where
  "to_bytes_le (X25519_public_key raw) = raw"

definition to_bytes_be :: "x25519_public_key \<Rightarrow> bytes" where
  "to_bytes_be self = rev (to_bytes_le self)"

definition key_pair :: "crypto_lib \<Rightarrow> x25519_key_pair" where
  "key_pair lib =
     (let private = donna_PrivateKey lib in X25519_key_pair private (donna_get_public lib private))"

definition public :: "x25519_key_pair \<Rightarrow> x25519_public_key" where
  "public self = X25519_public_key (public_part self)"

definition compute_shared :: "crypto_lib \<Rightarrow> x25519_key_pair \<Rightarrow> x25519_public_key \<Rightarrow> bytes" where
  "compute_shared lib self peer_public =
     donna_do_exchange lib (private_part self) (to_bytes_le peer_public)"

subsection \<open>\<^verbatim>\<open>secp256r1.py\<close>\<close>

definition public_key_from_encoded_point :: "crypto_lib \<Rightarrow> bytes \<Rightarrow> error + secp256r1_public_key" where
  "public_key_from_encoded_point lib point =
     bind_result (ec_from_encoded_point lib point) (\<lambda>raw. Inr (Secp256r1_public_key raw))"

definition public_key_from_encoded_point_hex ::
  "crypto_lib \<Rightarrow> bytes \<Rightarrow> error + secp256r1_public_key" where
  "public_key_from_encoded_point_hex lib point =
     bind_result (hex_decode lib point) (public_key_from_encoded_point lib)"

definition private_key_from_int :: "crypto_lib \<Rightarrow> int \<Rightarrow> error + secp256r1_private_key" where
  "private_key_from_int lib v =
     bind_result (ec_derive_private_key lib v) (\<lambda>raw. Inr (Secp256r1_private_key raw))"

definition private_key_from_int_hex :: "crypto_lib \<Rightarrow> bytes \<Rightarrow> error + secp256r1_private_key" where
  "private_key_from_int_hex lib v = bind_result (int_base16 lib v) (private_key_from_int lib)"

fun verify_sha256 :: "crypto_lib \<Rightarrow> secp256r1_public_key \<Rightarrow> bytes \<Rightarrow> bytes \<Rightarrow> bool" where
  "verify_sha256 lib (Secp256r1_public_key raw) sg message = ecdsa_verify lib raw sg message"

fun sign_sha256 :: "crypto_lib \<Rightarrow> secp256r1_private_key \<Rightarrow> bytes \<Rightarrow> bytes" where
  "sign_sha256 lib (Secp256r1_private_key raw) message = ecdsa_sign lib raw message"

section \<open>The synchronous backends (\<^verbatim>\<open>xaptum/xdaa/sync\<close>)\<close>

subsection \<open>\<^verbatim>\<open>SyncCrypto\<close>\<close>

text \<open>
  The dispatch table and its handlers: \<open>None\<close> for an event whose kind is not in the table.
\<close>

definition sync_crypto_dispatch :: "crypto_lib \<Rightarrow> event \<Rightarrow> (error + event) option" where
  "sync_crypto_dispatch lib event =
     (case event of
        CreateNonce sz \<Rightarrow> Some (Inr (CreateNonceResult (urandom lib sz)))
      | EphemeralCreateKey \<Rightarrow> Some (Inr (EphemeralCreateKeyResult (key_pair lib)))
      | EphemeralComputeSharedSecret private_key public_key \<Rightarrow>
          Some (bind_result (getattr private_key) (\<lambda>k.
                bind_result (getattr public_key) (\<lambda>p.
                  let secret = rev (compute_shared lib k p)
                  in Inr (EphemeralComputeSharedSecretResult secret))))
      | EphemeralDecodePublicKey encoded \<Rightarrow>
          Some (bind_result (public_key_from_bytes_be lib encoded) (\<lambda>pk.
                  Inr (EphemeralDecodePublicKeyResult pk)))
      | EphemeralEncodePublicKey key \<Rightarrow>
          Some (bind_result (getattr key) (\<lambda>k.
                  Inr (EphemeralEncodePublicKeyResult (to_bytes_be (public k)))))
      | GroupDecodePublicKey encoded \<Rightarrow>
          Some (bind_result (public_key_from_encoded_point_hex lib encoded) (\<lambda>key.
                  Inr (GroupDecodePublicKeyResult key)))
      | GroupDecodePrivateKey encoded \<Rightarrow>
          Some (bind_result (private_key_from_int_hex lib encoded) (\<lambda>key.
                  Inr (GroupDecodePrivateKeyResult key)))
      | GroupSHA256SignData private_key d \<Rightarrow>
          Some (Inr (GroupSHA256SignDataResult (sign_sha256 lib private_key d)))
      | GroupSHA256VerifySignature public_key d sg \<Rightarrow>
          Some (Inr (GroupSHA256VerifySignatureResult (verify_sha256 lib public_key sg d)))
      | _ \<Rightarrow> None)"

text \<open>
  \<^verbatim>\<open>SyncCrypto.receive\<close>: the loop ends with the first event that is no request to the
  cryptography. \<^verbatim>\<open>event.kind\<close> on \<^verbatim>\<open>None\<close> raises \<^verbatim>\<open>AttributeError\<close>. The value is
  \<open>None\<close> should the loop not end.
\<close>

partial_function (option) SyncCrypto_receive ::
  "crypto_lib \<Rightarrow> handshake \<Rightarrow> event \<Rightarrow> (error + (handshake \<times> event)) option" where
  "SyncCrypto_receive lib self event =
     (case receive self event of
        Inl e \<Rightarrow> Some (Inl e)
      | Inr (self', None) \<Rightarrow> Some (Inl AttributeError)
      | Inr (self', Some out) \<Rightarrow>
          (case sync_crypto_dispatch lib out of
             None \<Rightarrow> Some (Inr (self', out))
           | Some (Inl e) \<Rightarrow> Some (Inl e)
           | Some (Inr result) \<Rightarrow> SyncCrypto_receive lib self' result))"

subsection \<open>\<^verbatim>\<open>SyncSocket\<close>\<close>

definition data_write :: "'s socket_ops \<Rightarrow> 's \<Rightarrow> bytes \<Rightarrow> error + ('s \<times> event)" where
  "data_write ops sock d = bind_result (sendall ops sock d) (\<lambda>sock'. Inr (sock', DataWriteResult))"

definition data_read :: "'s socket_ops \<Rightarrow> 's \<Rightarrow> nat \<Rightarrow> error + ('s \<times> event)" where
  "data_read ops sock sz =
     bind_result (recvexactly ops sock sz) (\<lambda>(d, sock').
       if d = [] then Inl SocketError else Inr (sock', DataReadResult d))"

definition sync_socket_dispatch ::
  "'s socket_ops \<Rightarrow> 's \<Rightarrow> event \<Rightarrow> (error + ('s \<times> event)) option" where
  "sync_socket_dispatch ops sock event =
     (case event of
        DataWrite d \<Rightarrow> Some (data_write ops sock d)
      | DataRead sz \<Rightarrow> Some (data_read ops sock sz)
      | _ \<Rightarrow> None)"

text \<open>
  \<^verbatim>\<open>SyncSocket.receive\<close> as mixed in after \<^verbatim>\<open>SyncCrypto\<close>: its \<^verbatim>\<open>super().receive\<close>
  is \<^verbatim>\<open>SyncCrypto.receive\<close>.
\<close>

partial_function (option) SyncSocket_receive ::
  "crypto_lib \<Rightarrow> 's socket_ops \<Rightarrow> 's \<Rightarrow> handshake \<Rightarrow> event
     \<Rightarrow> (error + ('s \<times> handshake \<times> event)) option" where
  "SyncSocket_receive lib ops sock self event =
     (case SyncCrypto_receive lib self event of
        None \<Rightarrow> None
      | Some (Inl e) \<Rightarrow> Some (Inl e)
      | Some (Inr (self', out)) \<Rightarrow>
          (case sync_socket_dispatch ops sock out of
             None \<Rightarrow> Some (Inr (sock, self', out))
           | Some (Inl e) \<Rightarrow> Some (Inl e)
           | Some (Inr (sock', result)) \<Rightarrow> SyncSocket_receive lib ops sock' self' result))"

section \<open>The entry point (\<^verbatim>\<open>xaptum/xdaa/xdaa.py\<close>)\<close>

text \<open>
  The string \<^verbatim>\<open>group\<close> is cut at its commas and the pieces are the attributes of the
  \<^verbatim>\<open>DAAGroup\<close>, as they are (a \<^verbatim>\<open>str\<close> is a byte-string here); the constructor takes
  three positional arguments. \<^verbatim>\<open>handshake.start()\<close> is \<^verbatim>\<open>receive(Start())\<close>, its
  result is dropped, and the secret is read from the context afterwards.
\<close>

definition str_bytes :: "string \<Rightarrow> bytes" where
  "str_bytes s = map (\<lambda>c. of_nat (of_char c)) s"

definition negotiate_secret ::
  "crypto_lib \<Rightarrow> 's socket_ops \<Rightarrow> 's \<Rightarrow> string \<Rightarrow> (error + bytes) option" where
  "negotiate_secret lib ops sock grp =
     (case split CHR '','' grp of
        [g, s, c] \<Rightarrow>
          (let daa_group = \<lparr> group_id = str_bytes g, server_public_key = str_bytes s,
                             client_private_key = str_bytes c \<rparr>;
               handshake = XDAAHandshake_init daa_group
           in case SyncSocket_receive lib ops sock handshake Start of
                None \<Rightarrow> None
              | Some (Inl e) \<Rightarrow> Some (Inl e)
              | Some (Inr (sock', handshake', out)) \<Rightarrow>
                  Some (getattr (shared_secret (hs_context handshake'))))
      | _ \<Rightarrow> Some (Inl TypeError))"

section \<open>Driving the handshake\<close>

text \<open>
  A driver that feeds the state machine one event after the other, each the result of the
  request returned before, and collects the requests. An exception ends the run.
\<close>

fun drive :: "handshake \<Rightarrow> event list \<Rightarrow> error + (handshake \<times> event option list)" where
  "drive self [] = Inr (self, [])"
| "drive self (e # es) =
     bind_result (receive self e) (\<lambda>(self, out).
     bind_result (drive self es) (\<lambda>(self, outs). Inr (self, out # outs)))"

text \<open>
  The events that take the handshake through \<^verbatim>\<open>InitContext\<close> and \<^verbatim>\<open>SendClientHello\<close>:
  the start, the two decoded group keys, the nonce, the ephemeral key pair, and the
  acknowledgement of the write of the ClientHello message.
\<close>

definition init_events ::
  "secp256r1_public_key \<Rightarrow> secp256r1_private_key \<Rightarrow> bytes \<Rightarrow> x25519_key_pair \<Rightarrow> event list" where
  "init_events pk sk nonce kp =
     [Start, GroupDecodePublicKeyResult pk, GroupDecodePrivateKeyResult sk,
      CreateNonceResult nonce, EphemeralCreateKeyResult kp, DataWriteResult]"

text \<open>The context that these events leave behind.\<close>

definition init_context_of ::
  "DAAGroup \<Rightarrow> secp256r1_public_key \<Rightarrow> secp256r1_private_key \<Rightarrow> bytes \<Rightarrow> x25519_key_pair
     \<Rightarrow> XDAAContext" where
  "init_context_of g pk sk nonce kp =
     XDAAContext_init \<lparr> daa_group := Some g, client_nonce := Some nonce,
       client_ephemeral_private_key := Some kp, server_group_public_key := Some pk,
       client_group_private_key := Some sk \<rparr>"

text \<open>
  Names for the states of the handshake that the properties speak of: the handshake in the
  state \<open>p\<close> with the child \<open>c\<close>, and a child of class \<open>c\<close> in the state \<open>s\<close> with the step
  counter \<open>k\<close>.
\<close>

definition hs :: "state \<Rightarrow> child_fsm \<Rightarrow> XDAAContext \<Rightarrow> handshake" where
  "hs p c ctx = \<lparr> hs_current = Some p, maybeChild = Some c, hs_context = ctx \<rparr>"

definition child_in :: "child_class \<Rightarrow> state \<Rightarrow> nat option \<Rightarrow> child_fsm" where
  "child_in c s k = (child_init c) \<lparr> current := Some s, step_count := k \<rparr>"

text \<open>
  The ClientHello message has been written and its acknowledgement is awaited; the header
  of the ServerKeyExchange message has been requested; the header has been parsed into \<open>m\<close>
  and the body has been requested.
\<close>

definition awaiting_hello_ack :: "XDAAContext \<Rightarrow> handshake" where
  "awaiting_hello_ack ctx = hs send_client_hello (child_in SendClientHello send None) ctx"

definition awaiting_header :: "XDAAContext \<Rightarrow> handshake" where
  "awaiting_header ctx =
     hs receive_server_key_exchange (child_in ReceiveServerKeyExchange receive_message (Some 0)) ctx"

definition awaiting_body :: "ServerKeyExchangeMessage \<Rightarrow> XDAAContext \<Rightarrow> handshake" where
  "awaiting_body m ctx =
     hs receive_server_key_exchange
       ((child_in ReceiveServerKeyExchange receive_message (Some 1)) \<lparr> ske_message := Some m \<rparr>) ctx"

text \<open>
  A stand-in for the libraries, to run the model on concrete inputs: every decoder accepts
  its input as it is, a signature is the signed message itself and verifies on that message
  only, and the exchange concatenates the two keys.
\<close>

definition toy_lib :: crypto_lib where
  "toy_lib =
     \<lparr> urandom = (\<lambda>n. replicate n 0),
       hex_decode = Inr,
       int_base16 = (\<lambda>b. Inr (int (length b))),
       donna_PrivateKey = [1],
       donna_get_public = (\<lambda>private. private),
       donna_PublicKey = Inr,
       donna_do_exchange = (\<lambda>private peer. private @ peer),
       ec_from_encoded_point = Inr,
       ec_derive_private_key = Inr,
       ecdsa_sign = (\<lambda>k message. message),
       ecdsa_verify = (\<lambda>p sg message. sg = message) \<rparr>"

section \<open>Properties of the codec\<close>

lemma bind_result_simps [simp]:
  "bind_result (Inl e) f = Inl e"
  "bind_result (Inr x) f = f x"
  by (simp_all add: bind_result_def)

lemma u16_roundtrip:
  assumes n: "n \<le> 65535"
  shows "uint (word_of_int (int n div 256) :: byte) * 256
           + uint (word_of_int (int n mod 256) :: byte) = int n"
proof -
  have hi: "uint (word_of_int (int n div 256) :: byte) = int n div 256"
    using n by (simp add: uint_word_of_int take_bit_int_eq_self)
  have lo: "uint (word_of_int (int n mod 256) :: byte) = int n mod 256"
    by (simp add: uint_word_of_int take_bit_eq_mod)
  show ?thesis unfolding hi lo by simp
qed

lemma length_be16 [simp]: "length (be16 n) = 2"
  by (simp add: be16_def)

lemma pack_H:
  "pack_field H (VInt (int n)) = (if n \<le> 65535 then Inr (be16 n) else Inl StructError)"
  by (simp add: be16_def)

lemma unpack_H:
  "n \<le> 65535 \<Longrightarrow> unpack_fields (H # fs) (be16 n @ d) = VInt (int n) # unpack_fields fs d"
  by (simp add: be16_def u16_roundtrip)

lemma unpack_H_nil:
  "n \<le> 65535 \<Longrightarrow> unpack_fields (H # fs) (be16 n) = VInt (int n) # unpack_fields fs []"
  by (simp add: be16_def u16_roundtrip)

subsection \<open>What \<open>serialize\<close> returns\<close>

lemma ch_serialize_eq:
  "ch_serialize (ClientHelloMessage_init a b) =
     (if length a \<le> 65535 \<and> length b \<le> 65535
      then Inr (0 # be16 (length a) @ be16 (length b) @ a @ b) else Inl StructError)"
  by (simp add: ch_serialize_def ClientHelloMessage_init_def pack_H del: pack_field.simps(2))

lemma ske_serialize_eq:
  "ske_serialize (ServerKeyExchangeMessage_init a b c d) =
     (if length a \<le> 65535 \<and> length b \<le> 65535 \<and> length c \<le> 65535 \<and> length d \<le> 65535
      then Inr (0 # be16 (length a) @ be16 (length b) @ be16 (length c) @ be16 (length d)
                @ a @ b @ c @ d)
      else Inl StructError)"
  by (simp add: ske_serialize_def ServerKeyExchangeMessage_init_def pack_H del: pack_field.simps(2))

lemma cke_serialize_eq:
  "cke_serialize (ClientKeyExchangeMessage_init a b) =
     (if length a \<le> 65535 \<and> length b \<le> 65535
      then Inr (0 # be16 (length a) @ be16 (length b) @ a @ b) else Inl StructError)"
  by (simp add: cke_serialize_def ClientKeyExchangeMessage_init_def pack_H del: pack_field.simps(2))

subsection \<open>Parsing a well-formed header\<close>

lemma ch_parse_header_eq:
  "la \<le> 65535 \<Longrightarrow> lb \<le> 65535 \<Longrightarrow>
   ch_parse_header (0 # be16 la @ be16 lb) =
     Inr ((ClientHelloMessage_init [] [])
            \<lparr> ch_client_group_id_len := la, ch_client_nonce_len := lb \<rparr>, la + lb)"
  by (simp add: ch_parse_header_def struct_unpack_def unpack_H unpack_H_nil)

lemma ske_parse_header_eq:
  "la \<le> 65535 \<Longrightarrow> lb \<le> 65535 \<Longrightarrow> lc \<le> 65535 \<Longrightarrow> ld \<le> 65535 \<Longrightarrow>
   ske_parse_header (0 # be16 la @ be16 lb @ be16 lc @ be16 ld) =
     Inr ((ServerKeyExchangeMessage_init [] [] [] [])
            \<lparr> ske_server_group_id_len := la, ske_server_nonce_len := lb,
              ske_server_ecdhe_public_key_len := lc, ske_signature_len := ld \<rparr>,
          la + lb + lc + ld)"
  by (simp add: ske_parse_header_def struct_unpack_def unpack_H unpack_H_nil)

lemma cke_parse_header_eq:
  "la \<le> 65535 \<Longrightarrow> lb \<le> 65535 \<Longrightarrow>
   cke_parse_header (0 # be16 la @ be16 lb) =
     Inr ((ClientKeyExchangeMessage_init [] [])
            \<lparr> cke_client_ecdhe_public_key_len := la, cke_signature_len := lb \<rparr>, la + lb)"
  by (simp add: cke_parse_header_def struct_unpack_def unpack_H unpack_H_nil)

subsection \<open>Decoding a serialized message\<close>

lemma ch_decode_serialized:
  assumes "length a \<le> 65535" "length b \<le> 65535"
  shows "ch_decode (0 # be16 (length a) @ be16 (length b) @ a @ b)
           = Inr (ClientHelloMessage_init a b)"
  using assms
  by (simp add: ch_decode_def decode_message_def ch_header_len_def ch_parse_header_eq
        ch_parse_body_def struct_unpack_def ClientHelloMessage_init_def)

lemma ske_decode_serialized:
  assumes "length a \<le> 65535" "length b \<le> 65535" "length c \<le> 65535" "length d \<le> 65535"
  shows "ske_decode (0 # be16 (length a) @ be16 (length b) @ be16 (length c) @ be16 (length d)
                       @ a @ b @ c @ d)
           = Inr (ServerKeyExchangeMessage_init a b c d)"
  using assms
  by (simp add: ske_decode_def decode_message_def ske_header_len_def ske_parse_header_eq
        ske_parse_body_def struct_unpack_def ServerKeyExchangeMessage_init_def)

lemma cke_decode_serialized:
  assumes "length a \<le> 65535" "length b \<le> 65535"
  shows "cke_decode (0 # be16 (length a) @ be16 (length b) @ a @ b)
           = Inr (ClientKeyExchangeMessage_init a b)"
  using assms
  by (simp add: cke_decode_def decode_message_def cke_header_len_def cke_parse_header_eq
        cke_parse_body_def struct_unpack_def ClientKeyExchangeMessage_init_def)

lemma ch_roundtrip_iff:
  "bind_result (ch_serialize (ClientHelloMessage_init a b)) ch_decode
     = Inr (ClientHelloMessage_init a b)
   \<longleftrightarrow> length a \<le> 65535 \<and> length b \<le> 65535"
  by (simp add: ch_serialize_eq ch_decode_serialized)

lemma ske_roundtrip_iff:
  "bind_result (ske_serialize (ServerKeyExchangeMessage_init a b c d)) ske_decode
     = Inr (ServerKeyExchangeMessage_init a b c d)
   \<longleftrightarrow> length a \<le> 65535 \<and> length b \<le> 65535 \<and> length c \<le> 65535 \<and> length d \<le> 65535"
  by (simp add: ske_serialize_eq ske_decode_serialized)

lemma cke_roundtrip_iff:
  "bind_result (cke_serialize (ClientKeyExchangeMessage_init a b)) cke_decode
     = Inr (ClientKeyExchangeMessage_init a b)
   \<longleftrightarrow> length a \<le> 65535 \<and> length b \<le> 65535"
  by (simp add: cke_serialize_eq cke_decode_serialized)

subsection \<open>Rejected headers and bodies\<close>

lemma ch_parse_header_length:
  "length header \<noteq> 5 \<Longrightarrow> ch_parse_header header = Inl InvalidMessageError"
  by (simp add: ch_parse_header_def struct_unpack_def)

lemma ske_parse_header_length:
  "length header \<noteq> 9 \<Longrightarrow> ske_parse_header header = Inl InvalidMessageError"
  by (simp add: ske_parse_header_def struct_unpack_def)

lemma cke_parse_header_length:
  "length header \<noteq> 5 \<Longrightarrow> cke_parse_header header = Inl InvalidMessageError"
  by (simp add: cke_parse_header_def struct_unpack_def)

lemma ch_parse_header_version:
  assumes v: "hd header \<noteq> 0"
  shows "ch_parse_header header = Inl InvalidMessageError"
proof (cases "length header = 5")
  case False
  then show ?thesis by (rule ch_parse_header_length)
next
  case True
  then obtain v0 a b c d where h: "header = [v0, a, b, c, d]"
    by (auto simp: length_Suc_conv eval_nat_numeral)
  with v have "uint v0 \<noteq> 0" by (simp add: uint_0_iff)
  then show ?thesis
    by (simp add: h ch_parse_header_def struct_unpack_def)
qed

lemma ske_parse_header_version:
  assumes v: "hd header \<noteq> 0"
  shows "ske_parse_header header = Inl InvalidMessageError"
proof (cases "length header = 9")
  case False
  then show ?thesis by (rule ske_parse_header_length)
next
  case True
  then obtain v0 a b c d e f g h where h: "header = [v0, a, b, c, d, e, f, g, h]"
    by (auto simp: length_Suc_conv eval_nat_numeral)
  with v have "uint v0 \<noteq> 0" by (simp add: uint_0_iff)
  then show ?thesis
    by (simp add: h ske_parse_header_def struct_unpack_def)
qed

lemma cke_parse_header_version:
  assumes v: "hd header \<noteq> 0"
  shows "cke_parse_header header = Inl InvalidMessageError"
proof (cases "length header = 5")
  case False
  then show ?thesis by (rule cke_parse_header_length)
next
  case True
  then obtain v0 a b c d where h: "header = [v0, a, b, c, d]"
    by (auto simp: length_Suc_conv eval_nat_numeral)
  with v have "uint v0 \<noteq> 0" by (simp add: uint_0_iff)
  then show ?thesis
    by (simp add: h cke_parse_header_def struct_unpack_def)
qed

lemma ch_parse_body_length:
  "length data \<noteq> ch_client_group_id_len m + ch_client_nonce_len m \<Longrightarrow>
   ch_parse_body m data = Inl InvalidMessageError"
  by (simp add: ch_parse_body_def struct_unpack_def)

lemma ske_parse_body_length:
  "length data \<noteq> ske_server_group_id_len m + ske_server_nonce_len m
                     + ske_server_ecdhe_public_key_len m + ske_signature_len m \<Longrightarrow>
   ske_parse_body m data = Inl InvalidMessageError"
  by (simp add: ske_parse_body_def struct_unpack_def)

lemma cke_parse_body_length:
  "length data \<noteq> cke_client_ecdhe_public_key_len m + cke_signature_len m \<Longrightarrow>
   cke_parse_body m data = Inl InvalidMessageError"
  by (simp add: cke_parse_body_def struct_unpack_def)

section \<open>The claims about the codec\<close>

text \<open>
  Claim C1. Both \<^verbatim>\<open>serialize_for_signature\<close> functions are to return the concatenation
  of their two arguments. The one of \<^verbatim>\<open>ServerKeyExchangeMessage\<close> does, for all
  byte-strings. The one of \<^verbatim>\<open>ClientKeyExchangeMessage\<close> binds its format to the local
  name \<^verbatim>\<open>format\<close> and then reads the unbound name \<^verbatim>\<open>sig_format\<close>: it raises
  \<^verbatim>\<open>NameError\<close> on every input, in particular on \<^verbatim>\<open>(b'abcdef', b'12345')\<close>, where
  the test suite expects \<^verbatim>\<open>b'abcdef12345'\<close>.
\<close>

theorem C1_serialize_for_signature:
  "ske_serialize_for_signature a b = Inr (a @ b)
   \<and> cke_serialize_for_signature a b = Inl NameError
   \<and> ske_serialize_for_signature [97, 98, 99, 100, 101, 102] [49, 50, 51, 52, 53]
       = Inr [97, 98, 99, 100, 101, 102, 49, 50, 51, 52, 53]
   \<and> cke_serialize_for_signature [97, 98, 99, 100, 101, 102] [49, 50, 51, 52, 53]
       = Inl NameError"
  by (simp add: ske_serialize_for_signature_def cke_serialize_for_signature_def lookup_name_def)

text \<open>
  Claim C2, as stated, for all byte-strings: it fails for a field of 65536 bytes, whose
  length does not fit the unsigned 16-bit length field, so that \<open>serialize\<close> raises
  \<^verbatim>\<open>struct.error\<close> and there is nothing to parse.
\<close>

theorem C2_roundtrip_counterexample:
  "bind_result (ch_serialize (ClientHelloMessage_init (replicate 65536 0) [])) ch_decode
     = Inl StructError
   \<and> bind_result (ch_serialize (ClientHelloMessage_init (replicate 65536 0) [])) ch_decode
     \<noteq> Inr (ClientHelloMessage_init (replicate 65536 0) [])"
  by (simp add: ch_serialize_eq)

text \<open>
  Claim C2, amended: for each of the three message types and all field values of at most
  65535 bytes each, decoding the serialization (\<open>parse_header\<close> on the first
  \<open>header_len\<close> bytes, \<open>parse_body\<close> on the rest) returns a message whose fields are
  the original ones and whose version is 0.
\<close>

theorem C2_roundtrip:
  "(length a \<le> 65535 \<and> length b \<le> 65535 \<longrightarrow>
      (\<exists>m. bind_result (ch_serialize (ClientHelloMessage_init a b)) ch_decode = Inr m
         \<and> ch_version m = 0 \<and> ch_client_group_id m = a \<and> ch_client_nonce m = b))
   \<and> (length g \<le> 65535 \<and> length n \<le> 65535 \<and> length p \<le> 65535 \<and> length s \<le> 65535 \<longrightarrow>
      (\<exists>m. bind_result (ske_serialize (ServerKeyExchangeMessage_init g n p s)) ske_decode = Inr m
         \<and> ske_version m = 0 \<and> ske_server_group_id m = g \<and> ske_server_nonce m = n
         \<and> ske_server_ecdhe_public_key m = p \<and> ske_signature m = s))
   \<and> (length k \<le> 65535 \<and> length sg \<le> 65535 \<longrightarrow>
      (\<exists>m. bind_result (cke_serialize (ClientKeyExchangeMessage_init k sg)) cke_decode = Inr m
         \<and> cke_version m = 0 \<and> cke_client_ecdhe_public_key m = k \<and> cke_signature m = sg))"
proof (intro conjI impI)
  assume "length a \<le> 65535 \<and> length b \<le> 65535"
  then have "bind_result (ch_serialize (ClientHelloMessage_init a b)) ch_decode
               = Inr (ClientHelloMessage_init a b)"
    by (simp add: ch_roundtrip_iff)
  then show "\<exists>m. bind_result (ch_serialize (ClientHelloMessage_init a b)) ch_decode = Inr m
         \<and> ch_version m = 0 \<and> ch_client_group_id m = a \<and> ch_client_nonce m = b"
    by (simp add: ClientHelloMessage_init_def)
next
  assume "length g \<le> 65535 \<and> length n \<le> 65535 \<and> length p \<le> 65535 \<and> length s \<le> 65535"
  then have "bind_result (ske_serialize (ServerKeyExchangeMessage_init g n p s)) ske_decode
               = Inr (ServerKeyExchangeMessage_init g n p s)"
    by (simp add: ske_roundtrip_iff)
  then show "\<exists>m. bind_result (ske_serialize (ServerKeyExchangeMessage_init g n p s)) ske_decode = Inr m
         \<and> ske_version m = 0 \<and> ske_server_group_id m = g \<and> ske_server_nonce m = n
         \<and> ske_server_ecdhe_public_key m = p \<and> ske_signature m = s"
    by (simp add: ServerKeyExchangeMessage_init_def)
next
  assume "length k \<le> 65535 \<and> length sg \<le> 65535"
  then have "bind_result (cke_serialize (ClientKeyExchangeMessage_init k sg)) cke_decode
               = Inr (ClientKeyExchangeMessage_init k sg)"
    by (simp add: cke_roundtrip_iff)
  then show "\<exists>m. bind_result (cke_serialize (ClientKeyExchangeMessage_init k sg)) cke_decode = Inr m
         \<and> cke_version m = 0 \<and> cke_client_ecdhe_public_key m = k \<and> cke_signature m = sg"
    by (simp add: ClientKeyExchangeMessage_init_def)
qed

theorem C2_roundtrip_witness:
  "(\<exists>m. bind_result (ch_serialize (ClientHelloMessage_init [1, 2, 3] [4, 5])) ch_decode = Inr m
         \<and> ch_version m = 0 \<and> ch_client_group_id m = [1, 2, 3] \<and> ch_client_nonce m = [4, 5])
   \<and> (\<exists>m. bind_result (ske_serialize (ServerKeyExchangeMessage_init [1] [] [2, 3] [4])) ske_decode
             = Inr m
         \<and> ske_version m = 0 \<and> ske_server_group_id m = [1] \<and> ske_server_nonce m = []
         \<and> ske_server_ecdhe_public_key m = [2, 3] \<and> ske_signature m = [4])
   \<and> (\<exists>m. bind_result (cke_serialize (ClientKeyExchangeMessage_init [] [7, 8])) cke_decode = Inr m
         \<and> cke_version m = 0 \<and> cke_client_ecdhe_public_key m = [] \<and> cke_signature m = [7, 8])"
  using C2_roundtrip [of "[1, 2, 3]" "[4, 5]" "[1]" "[]" "[2, 3]" "[4]" "[]" "[7, 8]"]
  by simp

text \<open>
  Claim C6. \<open>parse_header\<close> raises \<^verbatim>\<open>InvalidMessageError\<close> when the header is
  shorter than the fixed header length and when its version byte is not zero, and
  \<open>parse_body\<close> raises it when the length of the body is not the sum of the field lengths
  declared in the header; this for the three message types. The 4-byte header
  \<^verbatim>\<open>b'\x00\x00\x01\x01'\<close> and the message \<^verbatim>\<open>b'\x00\x00\x01\x00\x02ab'\<close>, whose
  header declares 3 body bytes where 2 follow, are rejected so as ClientHello.
\<close>

theorem C6_invalid_message:
  "(length header < ch_header_len \<longrightarrow> ch_parse_header header = Inl InvalidMessageError)
   \<and> (v \<noteq> 0 \<longrightarrow> ch_parse_header (v # rest) = Inl InvalidMessageError)
   \<and> (length data \<noteq> ch_client_group_id_len m + ch_client_nonce_len m \<longrightarrow>
        ch_parse_body m data = Inl InvalidMessageError)
   \<and> (length header < ske_header_len \<longrightarrow> ske_parse_header header = Inl InvalidMessageError)
   \<and> (v \<noteq> 0 \<longrightarrow> ske_parse_header (v # rest) = Inl InvalidMessageError)
   \<and> (length data \<noteq> ske_server_group_id_len m1 + ske_server_nonce_len m1
                        + ske_server_ecdhe_public_key_len m1 + ske_signature_len m1 \<longrightarrow>
        ske_parse_body m1 data = Inl InvalidMessageError)
   \<and> (length header < cke_header_len \<longrightarrow> cke_parse_header header = Inl InvalidMessageError)
   \<and> (v \<noteq> 0 \<longrightarrow> cke_parse_header (v # rest) = Inl InvalidMessageError)
   \<and> (length data \<noteq> cke_client_ecdhe_public_key_len m2 + cke_signature_len m2 \<longrightarrow>
        cke_parse_body m2 data = Inl InvalidMessageError)
   \<and> ch_parse_header [0, 0, 1, 1] = Inl InvalidMessageError
   \<and> ch_parse_header (take ch_header_len [0, 0, 1, 0, 2, 97, 98])
        = Inr ((ClientHelloMessage_init [] [])
                 \<lparr> ch_client_group_id_len := 1, ch_client_nonce_len := 2 \<rparr>, 3)
   \<and> ch_parse_body ((ClientHelloMessage_init [] [])
                       \<lparr> ch_client_group_id_len := 1, ch_client_nonce_len := 2 \<rparr>)
                    (drop ch_header_len [0, 0, 1, 0, 2, 97, 98])
        = Inl InvalidMessageError
   \<and> ch_decode [0, 0, 1, 0, 2, 97, 98] = Inl InvalidMessageError"
proof -
  have lit: "ch_parse_header [0, 0, 1, 0, 2]
        = Inr ((ClientHelloMessage_init [] [])
                 \<lparr> ch_client_group_id_len := 1, ch_client_nonce_len := 2 \<rparr>, 3)"
    by (simp add: ch_parse_header_def struct_unpack_def)
  have body: "ch_parse_body ((ClientHelloMessage_init [] [])
                       \<lparr> ch_client_group_id_len := 1, ch_client_nonce_len := 2 \<rparr>) [97, 98]
        = Inl InvalidMessageError"
    by (simp add: ch_parse_body_length)
  show ?thesis
    using lit body
    by (simp add: ch_header_len_def ske_header_len_def cke_header_len_def
          ch_parse_header_length ske_parse_header_length cke_parse_header_length
          ch_parse_header_version ske_parse_header_version cke_parse_header_version
          ch_parse_body_length ske_parse_body_length cke_parse_body_length
          ch_decode_def decode_message_def)
qed

theorem C6_invalid_message_witness:
  "ch_parse_header [0, 0, 1, 1] = Inl InvalidMessageError
   \<and> ch_parse_header [1, 0, 1, 0, 1] = Inl InvalidMessageError
   \<and> ch_parse_body ((ClientHelloMessage_init [] [])
                       \<lparr> ch_client_group_id_len := 1, ch_client_nonce_len := 2 \<rparr>) [97, 98]
        = Inl InvalidMessageError
   \<and> ske_parse_header [0, 0, 16, 16] = Inl InvalidMessageError
   \<and> ske_parse_header [1, 0, 1, 0, 1, 0, 1, 0, 1] = Inl InvalidMessageError
   \<and> ske_parse_body ((ServerKeyExchangeMessage_init [] [] [] [])
                        \<lparr> ske_server_group_id_len := 1, ske_server_nonce_len := 1,
                          ske_server_ecdhe_public_key_len := 1, ske_signature_len := 2 \<rparr>)
                     [97, 98, 99, 100]
        = Inl InvalidMessageError
   \<and> cke_parse_header [0, 0, 16, 16] = Inl InvalidMessageError
   \<and> cke_parse_header [1, 0, 1, 0, 1] = Inl InvalidMessageError
   \<and> cke_parse_body ((ClientKeyExchangeMessage_init [] [])
                        \<lparr> cke_client_ecdhe_public_key_len := 1, cke_signature_len := 2 \<rparr>)
                     [97, 98]
        = Inl InvalidMessageError"
proof -
  note a = C6_invalid_message [of "[0, 0, 1, 1]" 1 "[0, 1, 0, 1]" "[97, 98]"
      "(ClientHelloMessage_init [] []) \<lparr> ch_client_group_id_len := 1, ch_client_nonce_len := 2 \<rparr>"
      "(ServerKeyExchangeMessage_init [] [] [] [])
          \<lparr> ske_server_group_id_len := 1, ske_server_nonce_len := 1,
            ske_server_ecdhe_public_key_len := 1, ske_signature_len := 2 \<rparr>"
      "(ClientKeyExchangeMessage_init [] [])
          \<lparr> cke_client_ecdhe_public_key_len := 1, cke_signature_len := 2 \<rparr>"]
  note b = C6_invalid_message [of "[0, 0, 16, 16]" 1 "[0, 1, 0, 1, 0, 1, 0, 1]" "[97, 98, 99, 100]"
      "(ClientHelloMessage_init [] []) \<lparr> ch_client_group_id_len := 1, ch_client_nonce_len := 2 \<rparr>"
      "(ServerKeyExchangeMessage_init [] [] [] [])
          \<lparr> ske_server_group_id_len := 1, ske_server_nonce_len := 1,
            ske_server_ecdhe_public_key_len := 1, ske_signature_len := 2 \<rparr>"
      "(ClientKeyExchangeMessage_init [] [])
          \<lparr> cke_client_ecdhe_public_key_len := 1, cke_signature_len := 2 \<rparr>"]
  show ?thesis
    using a b
    by (simp add: ch_header_len_def ske_header_len_def cke_header_len_def
          ClientHelloMessage_init_def ServerKeyExchangeMessage_init_def
          ClientKeyExchangeMessage_init_def)
qed

text \<open>
  Claim C9. \<open>serialize\<close> returns bytes exactly when every field is at most 65535 bytes
  long. With a longer field it raises \<^verbatim>\<open>struct.error\<close> (the length does not fit the
  \<^verbatim>\<open>H\<close> code), which is not an \<^verbatim>\<open>InvalidMessageError\<close>; and the round trip through
  the codec returns the message exactly under that bound. This for the three message types.
\<close>

theorem C9_serialize_length_bound:
  "((\<exists>d. ch_serialize (ClientHelloMessage_init a b) = Inr d)
       \<longleftrightarrow> length a \<le> 65535 \<and> length b \<le> 65535)
   \<and> (ch_serialize (ClientHelloMessage_init a b) = Inl StructError
       \<longleftrightarrow> 65535 < length a \<or> 65535 < length b)
   \<and> (bind_result (ch_serialize (ClientHelloMessage_init a b)) ch_decode
         = Inr (ClientHelloMessage_init a b)
       \<longleftrightarrow> length a \<le> 65535 \<and> length b \<le> 65535)
   \<and> ((\<exists>d. ske_serialize (ServerKeyExchangeMessage_init g n p s) = Inr d)
       \<longleftrightarrow> length g \<le> 65535 \<and> length n \<le> 65535 \<and> length p \<le> 65535 \<and> length s \<le> 65535)
   \<and> (ske_serialize (ServerKeyExchangeMessage_init g n p s) = Inl StructError
       \<longleftrightarrow> 65535 < length g \<or> 65535 < length n \<or> 65535 < length p \<or> 65535 < length s)
   \<and> (bind_result (ske_serialize (ServerKeyExchangeMessage_init g n p s)) ske_decode
         = Inr (ServerKeyExchangeMessage_init g n p s)
       \<longleftrightarrow> length g \<le> 65535 \<and> length n \<le> 65535 \<and> length p \<le> 65535 \<and> length s \<le> 65535)
   \<and> ((\<exists>d. cke_serialize (ClientKeyExchangeMessage_init k sg) = Inr d)
       \<longleftrightarrow> length k \<le> 65535 \<and> length sg \<le> 65535)
   \<and> (cke_serialize (ClientKeyExchangeMessage_init k sg) = Inl StructError
       \<longleftrightarrow> 65535 < length k \<or> 65535 < length sg)
   \<and> (bind_result (cke_serialize (ClientKeyExchangeMessage_init k sg)) cke_decode
         = Inr (ClientKeyExchangeMessage_init k sg)
       \<longleftrightarrow> length k \<le> 65535 \<and> length sg \<le> 65535)
   \<and> \<not> isinstance StructError InvalidMessageError"
proof -
  have ch: "(\<exists>d. ch_serialize (ClientHelloMessage_init a b) = Inr d)
       \<longleftrightarrow> length a \<le> 65535 \<and> length b \<le> 65535"
    "ch_serialize (ClientHelloMessage_init a b) = Inl StructError
       \<longleftrightarrow> 65535 < length a \<or> 65535 < length b"
    by (auto simp: ch_serialize_eq)
  have ske: "(\<exists>d. ske_serialize (ServerKeyExchangeMessage_init g n p s) = Inr d)
       \<longleftrightarrow> length g \<le> 65535 \<and> length n \<le> 65535 \<and> length p \<le> 65535 \<and> length s \<le> 65535"
    "ske_serialize (ServerKeyExchangeMessage_init g n p s) = Inl StructError
       \<longleftrightarrow> 65535 < length g \<or> 65535 < length n \<or> 65535 < length p \<or> 65535 < length s"
    by (auto simp: ske_serialize_eq)
  have cke: "(\<exists>d. cke_serialize (ClientKeyExchangeMessage_init k sg) = Inr d)
       \<longleftrightarrow> length k \<le> 65535 \<and> length sg \<le> 65535"
    "cke_serialize (ClientKeyExchangeMessage_init k sg) = Inl StructError
       \<longleftrightarrow> 65535 < length k \<or> 65535 < length sg"
    by (auto simp: cke_serialize_eq)
  have cls: "\<not> isinstance StructError InvalidMessageError"
    by (simp add: isinstance_def)
  from ch ske cke cls ch_roundtrip_iff [of a b] ske_roundtrip_iff [of g n p s]
    cke_roundtrip_iff [of k sg]
  show ?thesis by blast
qed

theorem C9_serialize_length_bound_witness:
  "ch_serialize (ClientHelloMessage_init [] (replicate 65536 7)) = Inl StructError
   \<and> (\<exists>d. ch_serialize (ClientHelloMessage_init (replicate 65535 7) []) = Inr d)
   \<and> ske_serialize (ServerKeyExchangeMessage_init [] [] [] (replicate 70000 1)) = Inl StructError
   \<and> cke_serialize (ClientKeyExchangeMessage_init (replicate 65536 0) [1]) = Inl StructError
   \<and> bind_result (cke_serialize (ClientKeyExchangeMessage_init [5] [6])) cke_decode
       = Inr (ClientKeyExchangeMessage_init [5] [6])"
  using C9_serialize_length_bound [of "[]" "replicate 65536 7" "[]" "[]" "[]" "replicate 70000 1"
      "replicate 65536 0" "[1]"]
    C9_serialize_length_bound [of "replicate 65535 7" "[]" "[]" "[]" "[]" "[]" "[5]" "[6]"]
  by simp

section \<open>Properties of the handshake\<close>

subsection \<open>The steps of the handshake\<close>

text \<open>
  One lemma for each event of a run: the state in which the event arrives, the state it
  leaves, and the request returned.
\<close>

lemmas engine_defs =
  receive_def receive_self_def receive_child_def handshake_become_def handshake_enter_def
  handshake_exit_def handshake_unhandled_def delegate_def XDAAHandshake_call_def
  child_receive_def child_become_def child_enter_def child_exit_def child_call_def
  FSM_initial_def FSM_final_def on_start_def child_init_def init_step_def step_def
  getattr_def len_arg_def hs_def child_in_def

lemma step_start:
  "receive (XDAAHandshake_init g) Start =
     Inr (hs init_context (child_in InitContext steps (Some 0))
            (XDAAContext_init \<lparr> daa_group := Some g \<rparr>),
          Some (GroupDecodePublicKey (server_public_key g)))"
  by (simp add: engine_defs InitContext_steps_def XDAAHandshake_init_def XDAAContext_init_def)

lemma step_init_context_1:
  "daa_group ctx = Some g \<Longrightarrow>
   receive (hs init_context (child_in InitContext steps (Some 0)) ctx) (GroupDecodePublicKeyResult pk) =
     Inr (hs init_context (child_in InitContext steps (Some 1))
            (ctx \<lparr> server_group_public_key := Some pk \<rparr>),
          Some (GroupDecodePrivateKey (client_private_key g)))"
  by (simp add: engine_defs InitContext_steps_def)

lemma step_init_context_2:
  "receive (hs init_context (child_in InitContext steps (Some 1)) ctx) (GroupDecodePrivateKeyResult sk) =
     Inr (hs init_context (child_in InitContext steps (Some 2))
            (ctx \<lparr> client_group_private_key := Some sk \<rparr>),
          Some (CreateNonce 32))"
  by (simp add: engine_defs InitContext_steps_def)

lemma step_init_context_3:
  "receive (hs init_context (child_in InitContext steps (Some 2)) ctx) (CreateNonceResult nonce) =
     Inr (hs init_context (child_in InitContext steps (Some 3))
            (ctx \<lparr> client_nonce := Some nonce \<rparr>),
          Some EphemeralCreateKey)"
  by (simp add: engine_defs InitContext_steps_def)

lemma step_init_context_4:
  "daa_group ctx = Some g \<Longrightarrow> client_nonce ctx = Some nonce \<Longrightarrow>
   receive (hs init_context (child_in InitContext steps (Some 3)) ctx) (EphemeralCreateKeyResult kp) =
     bind_result (ch_serialize (ClientHelloMessage_init (group_id g) nonce)) (\<lambda>d.
       Inr (hs send_client_hello (child_in SendClientHello send None)
              (ctx \<lparr> client_ephemeral_private_key := Some kp \<rparr>),
            Some (DataWrite d)))"
  by (cases "ch_serialize (ClientHelloMessage_init (group_id g) nonce)")
     (simp_all add: engine_defs InitContext_steps_def SendClientHello_send_def)

lemma step_hello_written:
  "receive (hs send_client_hello (child_in SendClientHello send None) ctx) DataWriteResult =
     Inr (hs receive_server_key_exchange (child_in ReceiveServerKeyExchange receive_message (Some 0)) ctx,
          Some (DataRead 9))"
  by (simp add: engine_defs SendClientHello_send_def ReceiveServerKeyExchange_receive_message_def
        ske_header_len_def)

lemma step_header:
  "receive (hs receive_server_key_exchange (child_in ReceiveServerKeyExchange receive_message (Some 0)) ctx)
           (DataReadResult hdr) =
     bind_result (ske_parse_header hdr) (\<lambda>(m, remaining).
       Inr (hs receive_server_key_exchange
              ((child_in ReceiveServerKeyExchange receive_message (Some 1)) \<lparr> ske_message := Some m \<rparr>) ctx,
            Some (DataRead remaining)))"
  by (cases "ske_parse_header hdr")
     (auto simp add: engine_defs ReceiveServerKeyExchange_receive_message_def)

lemma step_body:
  assumes "ske_parse_body m body = Inr m'"
    and "ske_version m' = protocol_version ctx"
    and "daa_group ctx = Some g" and "ske_server_group_id m' = group_id g"
    and "server_group_public_key ctx = Some pk" and "client_nonce ctx = Some nonce"
  shows "receive (hs receive_server_key_exchange
              ((child_in ReceiveServerKeyExchange receive_message (Some 1)) \<lparr> ske_message := Some m \<rparr>) ctx)
           (DataReadResult body) =
     Inr (hs receive_server_key_exchange
            ((child_in ReceiveServerKeyExchange validate_message (Some 0)) \<lparr> ske_message := Some m' \<rparr>) ctx,
          Some (GroupSHA256VerifySignature pk (ske_server_ecdhe_public_key m' @ nonce) (ske_signature m')))"
  using assms
  by (simp add: engine_defs ReceiveServerKeyExchange_receive_message_def
        ReceiveServerKeyExchange_validate_message_def ske_serialize_for_signature_def lookup_name_def)

lemma step_body_error:
  assumes "ske_parse_body m body = Inl e"
  shows "receive (hs receive_server_key_exchange
              ((child_in ReceiveServerKeyExchange receive_message (Some 1)) \<lparr> ske_message := Some m \<rparr>) ctx)
           (DataReadResult body) = Inl e"
  using assms
  by (simp add: engine_defs ReceiveServerKeyExchange_receive_message_def)

lemma step_body_version:
  assumes "ske_parse_body m body = Inr m'"
    and "ske_version m' \<noteq> protocol_version ctx"
  shows "receive (hs receive_server_key_exchange
              ((child_in ReceiveServerKeyExchange receive_message (Some 1)) \<lparr> ske_message := Some m \<rparr>) ctx)
           (DataReadResult body) = Inl UnsupportedVersionError"
  using assms
  by (simp add: engine_defs ReceiveServerKeyExchange_receive_message_def
        ReceiveServerKeyExchange_validate_message_def)

lemma step_body_group:
  assumes "ske_parse_body m body = Inr m'"
    and "ske_version m' = protocol_version ctx"
    and "daa_group ctx = Some g" and "ske_server_group_id m' \<noteq> group_id g"
  shows "receive (hs receive_server_key_exchange
              ((child_in ReceiveServerKeyExchange receive_message (Some 1)) \<lparr> ske_message := Some m \<rparr>) ctx)
           (DataReadResult body) = Inl IncorrectGroupError"
  using assms
  by (simp add: engine_defs ReceiveServerKeyExchange_receive_message_def
        ReceiveServerKeyExchange_validate_message_def)

lemma step_verified:
  "receive (hs receive_server_key_exchange
              ((child_in ReceiveServerKeyExchange validate_message (Some 0)) \<lparr> ske_message := Some m \<rparr>) ctx)
           (GroupSHA256VerifySignatureResult verified) =
     (if verified = False then Inl InvalidSignatureError
      else Inr (hs receive_server_key_exchange
                  ((child_in ReceiveServerKeyExchange process_message (Some 1)) \<lparr> ske_message := Some m \<rparr>)
                  (ctx \<lparr> server_nonce := Some (ske_server_nonce m) \<rparr>),
                Some (EphemeralDecodePublicKey (ske_server_ecdhe_public_key m))))"
  by (simp add: engine_defs ReceiveServerKeyExchange_validate_message_def
        ReceiveServerKeyExchange_process_message_def)

lemma step_decoded:
  "receive (hs receive_server_key_exchange
              ((child_in ReceiveServerKeyExchange process_message (Some 1)) \<lparr> ske_message := Some m \<rparr>) ctx)
           (EphemeralDecodePublicKeyResult spk) =
     Inr (hs send_client_key_exchange (child_in SendClientKeyExchange prepare_message (Some 0))
            (ctx \<lparr> server_ephemeral_public_key := Some spk \<rparr>),
          Some (EphemeralEncodePublicKey (client_ephemeral_private_key ctx)))"
  by (simp add: engine_defs ReceiveServerKeyExchange_process_message_def
        SendClientKeyExchange_prepare_message_def)

lemma step_encoded:
  "receive (hs send_client_key_exchange (child_in SendClientKeyExchange prepare_message (Some 0)) ctx)
           (EphemeralEncodePublicKeyResult encoded) =
     (case server_nonce ctx of None \<Rightarrow> Inl TypeError | Some n \<Rightarrow> Inl NameError)"
  by (simp add: engine_defs SendClientKeyExchange_prepare_message_def
        cke_serialize_for_signature_def lookup_name_def split: option.splits)

lemma step_secret:
  "receive \<lparr> hs_current = Some compute_shared_secret, maybeChild = None, hs_context = ctx \<rparr>
           (EphemeralComputeSharedSecretResult secret) =
     Inr (\<lparr> hs_current = Some final, maybeChild = None,
            hs_context = ctx \<lparr> shared_secret := Some secret \<rparr> \<rparr>,
          Some Terminated)"
  by (simp add: engine_defs)

subsection \<open>The first two phases\<close>

lemma drive_append:
  "drive h (es @ es') =
     bind_result (drive h es) (\<lambda>(h', outs).
     bind_result (drive h' es') (\<lambda>(h'', outs'). Inr (h'', outs @ outs')))"
  by (induction es arbitrary: h) (auto simp: bind_result_def split: sum.splits prod.splits)

lemma drive_init:
  assumes "length (group_id g) \<le> 65535" "length nonce \<le> 65535"
  shows "drive (XDAAHandshake_init g) (init_events pk sk nonce kp) =
     Inr (hs receive_server_key_exchange (child_in ReceiveServerKeyExchange receive_message (Some 0))
            (init_context_of g pk sk nonce kp),
          [Some (GroupDecodePublicKey (server_public_key g)),
           Some (GroupDecodePrivateKey (client_private_key g)),
           Some (CreateNonce 32),
           Some EphemeralCreateKey,
           Some (DataWrite (0 # be16 (length (group_id g)) @ be16 (length nonce) @ group_id g @ nonce)),
           Some (DataRead 9)])"
  using assms
  by (simp add: init_events_def step_start step_init_context_1 step_init_context_2 step_init_context_3 step_init_context_4 step_hello_written ch_serialize_eq
        XDAAContext_init_def init_context_of_def del: One_nat_def)

subsection \<open>The loops of the synchronous backends\<close>

lemma SyncCrypto_receive_error: "receive h e = Inl x \<Longrightarrow> SyncCrypto_receive lib h e = Some (Inl x)"
  by (subst SyncCrypto_receive.simps) simp

lemma SyncCrypto_receive_stop:
  "receive h e = Inr (h', Some out) \<Longrightarrow> sync_crypto_dispatch lib out = None \<Longrightarrow>
   SyncCrypto_receive lib h e = Some (Inr (h', out))"
  by (subst SyncCrypto_receive.simps) simp

lemma SyncCrypto_receive_raise:
  "receive h e = Inr (h', Some out) \<Longrightarrow> sync_crypto_dispatch lib out = Some (Inl x) \<Longrightarrow>
   SyncCrypto_receive lib h e = Some (Inl x)"
  by (subst SyncCrypto_receive.simps) simp

lemma SyncCrypto_receive_step:
  "receive h e = Inr (h', Some out) \<Longrightarrow> sync_crypto_dispatch lib out = Some (Inr r) \<Longrightarrow>
   SyncCrypto_receive lib h e = SyncCrypto_receive lib h' r"
  by (subst SyncCrypto_receive.simps) simp

lemma SyncSocket_receive_error:
  "SyncCrypto_receive lib h e = Some (Inl x) \<Longrightarrow> SyncSocket_receive lib ops sock h e = Some (Inl x)"
  by (subst SyncSocket_receive.simps) simp

lemma SyncSocket_receive_stop:
  "SyncCrypto_receive lib h e = Some (Inr (h', out)) \<Longrightarrow> sync_socket_dispatch ops sock out = None \<Longrightarrow>
   SyncSocket_receive lib ops sock h e = Some (Inr (sock, h', out))"
  by (subst SyncSocket_receive.simps) simp

lemma SyncSocket_receive_raise:
  "SyncCrypto_receive lib h e = Some (Inr (h', out)) \<Longrightarrow>
   sync_socket_dispatch ops sock out = Some (Inl x) \<Longrightarrow>
   SyncSocket_receive lib ops sock h e = Some (Inl x)"
  by (subst SyncSocket_receive.simps) simp

lemma SyncSocket_receive_step:
  "SyncCrypto_receive lib h e = Some (Inr (h', out)) \<Longrightarrow>
   sync_socket_dispatch ops sock out = Some (Inr (sock', r)) \<Longrightarrow>
   SyncSocket_receive lib ops sock h e = SyncSocket_receive lib ops sock' h' r"
  by (subst SyncSocket_receive.simps) simp

lemma recvexactly_zero: "recvexactly ops sock 0 = Inr ([], sock)"
  by (simp add: recvexactly_def)

lemma data_read_zero: "data_read ops sock 0 = Inl SocketError"
  by (simp add: data_read_def recvexactly_zero)

lemma recvexactly_MockSock:
  assumes "0 < n" "n \<le> length (to_read sock)"
  shows "recvexactly MockSock_ops sock n =
           Inr (take n (to_read sock), sock \<lparr> to_read := drop n (to_read sock) \<rparr>)"
proof -
  have "recvexactly_loop MockSock_ops n (replicate n 0) 0 sock =
          recvexactly_loop MockSock_ops n (take n (to_read sock)) n
            (sock \<lparr> to_read := drop n (to_read sock) \<rparr>)"
    using assms
    by (subst recvexactly_loop.simps) (simp add: MockSock_ops_def Let_def min_def)
  also have "\<dots> = Inr (take n (to_read sock), sock \<lparr> to_read := drop n (to_read sock) \<rparr>)"
    by (subst recvexactly_loop.simps) simp
  finally show ?thesis by (simp add: recvexactly_def)
qed

lemma recvexactly_MockSock_closed:
  assumes "0 < n" "to_read sock = []"
  shows "recvexactly MockSock_ops sock n = Inr ([], sock)"
  using assms
  by (simp add: recvexactly_def) (subst recvexactly_loop.simps, simp add: MockSock_ops_def Let_def)

subsection \<open>Parsed messages and the context after the first two phases\<close>

lemma ske_parse_header_fields:
  assumes "ske_parse_header hdr = Inr (m, L)"
  shows "ske_version m = 0"
    and "L = ske_server_group_id_len m + ske_server_nonce_len m
              + ske_server_ecdhe_public_key_len m + ske_signature_len m"
    and "length hdr = 9"
proof -
  have len: "length hdr = 9"
    using assms by (auto simp: ske_parse_header_def struct_unpack_def split: if_splits)
  then obtain v a b c d e f g h where h: "hdr = [v, a, b, c, d, e, f, g, h]"
    by (auto simp: length_Suc_conv eval_nat_numeral)
  show "length hdr = 9" by (rule len)
  show "ske_version m = 0"
    using assms unfolding h
    by (auto simp: ske_parse_header_def struct_unpack_def ServerKeyExchangeMessage_init_def Let_def
          split: if_splits)
  show "L = ske_server_group_id_len m + ske_server_nonce_len m
              + ske_server_ecdhe_public_key_len m + ske_signature_len m"
    using assms unfolding h
    by (auto simp: ske_parse_header_def struct_unpack_def ServerKeyExchangeMessage_init_def Let_def
          split: if_splits)
qed

lemma ske_parse_body_version:
  assumes "ske_parse_body m body = Inr m'"
  shows "ske_version m' = ske_version m"
  using assms
  by (auto simp: ske_parse_body_def struct_unpack_def split: if_splits)

lemma protocol_version_init [simp]: "protocol_version (init_context_of g pk sk nonce kp) = 0"
  by (simp add: init_context_of_def XDAAContext_init_def)

lemma init_context_of_simps [simp]:
  "daa_group (init_context_of g pk sk nonce kp) = Some g"
  "client_nonce (init_context_of g pk sk nonce kp) = Some nonce"
  "server_group_public_key (init_context_of g pk sk nonce kp) = Some pk"
  "client_group_private_key (init_context_of g pk sk nonce kp) = Some sk"
  "client_ephemeral_private_key (init_context_of g pk sk nonce kp) = Some kp"
  "server_nonce (init_context_of g pk sk nonce kp) = None"
  "shared_secret (init_context_of g pk sk nonce kp) = None"
  by (simp_all add: init_context_of_def XDAAContext_init_def)

lemma drive_init_result:
  assumes "drive (XDAAHandshake_init g) (init_events pk sk nonce kp) = Inr (h0, outs0)"
  shows "h0 = hs receive_server_key_exchange
                (child_in ReceiveServerKeyExchange receive_message (Some 0))
                (init_context_of g pk sk nonce kp)"
    and "outs0 = [Some (GroupDecodePublicKey (server_public_key g)),
           Some (GroupDecodePrivateKey (client_private_key g)),
           Some (CreateNonce 32),
           Some EphemeralCreateKey,
           Some (DataWrite (0 # be16 (length (group_id g)) @ be16 (length nonce) @ group_id g @ nonce)),
           Some (DataRead 9)]"
proof -
  have ok: "length (group_id g) \<le> 65535 \<and> length nonce \<le> 65535"
  proof (rule ccontr)
    assume "\<not> ?thesis"
    then have "ch_serialize (ClientHelloMessage_init (group_id g) nonce) = Inl StructError"
      by (auto simp: ch_serialize_eq)
    then have "drive (XDAAHandshake_init g) (init_events pk sk nonce kp) = Inl StructError"
      by (simp add: init_events_def step_start step_init_context_1 step_init_context_2 step_init_context_3 step_init_context_4
            XDAAContext_init_def del: One_nat_def)
    with assms show False by simp
  qed
  from ok assms drive_init [of g nonce pk sk kp]
  show "h0 = hs receive_server_key_exchange
                (child_in ReceiveServerKeyExchange receive_message (Some 0))
                (init_context_of g pk sk nonce kp)"
    and "outs0 = [Some (GroupDecodePublicKey (server_public_key g)),
           Some (GroupDecodePrivateKey (client_private_key g)),
           Some (CreateNonce 32),
           Some EphemeralCreateKey,
           Some (DataWrite (0 # be16 (length (group_id g)) @ be16 (length nonce) @ group_id g @ nonce)),
           Some (DataRead 9)]"
    by simp_all
qed

subsection \<open>\<^verbatim>\<open>SyncCrypto.receive\<close>, phase by phase\<close>

lemma dispatch_simps [simp]:
  "sync_crypto_dispatch lib (DataWrite d) = None"
  "sync_crypto_dispatch lib (DataRead n) = None"
  "sync_crypto_dispatch lib Terminated = None"
  "sync_crypto_dispatch lib (CreateNonce n) = Some (Inr (CreateNonceResult (urandom lib n)))"
  "sync_crypto_dispatch lib EphemeralCreateKey = Some (Inr (EphemeralCreateKeyResult (key_pair lib)))"
  "sync_crypto_dispatch lib (GroupDecodePublicKey e) =
     Some (bind_result (public_key_from_encoded_point_hex lib e) (\<lambda>key. Inr (GroupDecodePublicKeyResult key)))"
  "sync_crypto_dispatch lib (GroupDecodePrivateKey e) =
     Some (bind_result (private_key_from_int_hex lib e) (\<lambda>key. Inr (GroupDecodePrivateKeyResult key)))"
  "sync_crypto_dispatch lib (GroupSHA256VerifySignature p d sg) =
     Some (Inr (GroupSHA256VerifySignatureResult (verify_sha256 lib p sg d)))"
  "sync_crypto_dispatch lib (EphemeralDecodePublicKey e) =
     Some (bind_result (public_key_from_bytes_be lib e) (\<lambda>pk. Inr (EphemeralDecodePublicKeyResult pk)))"
  "sync_crypto_dispatch lib (EphemeralEncodePublicKey (Some k)) =
     Some (Inr (EphemeralEncodePublicKeyResult (to_bytes_be (public k))))"
  "sync_crypto_dispatch lib (EphemeralComputeSharedSecret (Some k) (Some q)) =
     Some (Inr (EphemeralComputeSharedSecretResult (rev (compute_shared lib k q))))"
  by (simp_all add: sync_crypto_dispatch_def getattr_def)

lemma SyncCrypto_hello_written_hs:
  "SyncCrypto_receive lib (hs send_client_hello (child_in SendClientHello send None) ctx) DataWriteResult =
     Some (Inr (hs receive_server_key_exchange
                  (child_in ReceiveServerKeyExchange receive_message (Some 0)) ctx,
                DataRead 9))"
  by (rule SyncCrypto_receive_stop [OF step_hello_written]) simp

lemma SyncCrypto_header_hs:
  "SyncCrypto_receive lib
     (hs receive_server_key_exchange (child_in ReceiveServerKeyExchange receive_message (Some 0)) ctx)
     (DataReadResult hdr) =
   (case ske_parse_header hdr of
      Inl e \<Rightarrow> Some (Inl e)
    | Inr (m, L) \<Rightarrow>
        Some (Inr (hs receive_server_key_exchange
                     ((child_in ReceiveServerKeyExchange receive_message (Some 1))
                        \<lparr> ske_message := Some m \<rparr>) ctx,
                   DataRead L)))"
proof (cases "ske_parse_header hdr")
  case (Inl e)
  then show ?thesis by (simp add: SyncCrypto_receive_error step_header)
next
  case (Inr p)
  obtain m L where p: "p = (m, L)" by (cases p)
  show ?thesis
    unfolding Inr p
    by (simp, rule SyncCrypto_receive_stop) (simp_all add: step_header Inr p)
qed

lemma SyncCrypto_body_hs:
  assumes body: "ske_parse_body m body = Inr m'"
    and v: "ske_version m' = protocol_version ctx"
    and g: "daa_group ctx = Some g" "ske_server_group_id m' = group_id g"
    and pk: "server_group_public_key ctx = Some pk" and n: "client_nonce ctx = Some nonce"
    and kp: "client_ephemeral_private_key ctx = Some kp"
  shows "SyncCrypto_receive lib
     (hs receive_server_key_exchange
        ((child_in ReceiveServerKeyExchange receive_message (Some 1)) \<lparr> ske_message := Some m \<rparr>) ctx)
     (DataReadResult body) =
   (if \<not> verify_sha256 lib pk (ske_signature m') (ske_server_ecdhe_public_key m' @ nonce)
    then Some (Inl InvalidSignatureError)
    else case public_key_from_bytes_be lib (ske_server_ecdhe_public_key m') of
           Inl e \<Rightarrow> Some (Inl e)
         | Inr spk \<Rightarrow> Some (Inl NameError))"
proof -
  let ?buf = "ske_server_ecdhe_public_key m' @ nonce"
  let ?hv = "hs receive_server_key_exchange
            ((child_in ReceiveServerKeyExchange validate_message (Some 0)) \<lparr> ske_message := Some m' \<rparr>) ctx"
  have 1: "SyncCrypto_receive lib
     (hs receive_server_key_exchange
        ((child_in ReceiveServerKeyExchange receive_message (Some 1)) \<lparr> ske_message := Some m \<rparr>) ctx)
     (DataReadResult body) =
     SyncCrypto_receive lib ?hv
        (GroupSHA256VerifySignatureResult (verify_sha256 lib pk (ske_signature m') ?buf))"
    by (rule SyncCrypto_receive_step [OF step_body [OF body v g pk n]]) simp
  show ?thesis
  proof (cases "verify_sha256 lib pk (ske_signature m') ?buf")
    case False
    then show ?thesis
      unfolding 1 by (simp add: SyncCrypto_receive_error step_verified)
  next
    case True
    let ?hp = "hs receive_server_key_exchange
                  ((child_in ReceiveServerKeyExchange process_message (Some 1)) \<lparr> ske_message := Some m' \<rparr>)
                  (ctx \<lparr> server_nonce := Some (ske_server_nonce m') \<rparr>)"
    have r2: "receive ?hv (GroupSHA256VerifySignatureResult True) =
                Inr (?hp, Some (EphemeralDecodePublicKey (ske_server_ecdhe_public_key m')))"
      by (simp add: step_verified)
    show ?thesis
    proof (cases "public_key_from_bytes_be lib (ske_server_ecdhe_public_key m')")
      case (Inl e)
      have "SyncCrypto_receive lib ?hv (GroupSHA256VerifySignatureResult True) = Some (Inl e)"
        by (rule SyncCrypto_receive_raise [OF r2]) (simp add: Inl)
      then show ?thesis unfolding 1 using True Inl by simp
    next
      case (Inr spk)
      let ?hs = "hs send_client_key_exchange (child_in SendClientKeyExchange prepare_message (Some 0))
            (ctx \<lparr> server_nonce := Some (ske_server_nonce m'),
                   server_ephemeral_public_key := Some spk \<rparr>)"
      have "SyncCrypto_receive lib ?hv (GroupSHA256VerifySignatureResult True) =
            SyncCrypto_receive lib ?hp (EphemeralDecodePublicKeyResult spk)"
        by (rule SyncCrypto_receive_step [OF r2]) (simp add: Inr)
      also have "\<dots> = SyncCrypto_receive lib ?hs
            (EphemeralEncodePublicKeyResult (to_bytes_be (public kp)))"
        by (rule SyncCrypto_receive_step [OF step_decoded]) (simp add: kp)
      also have "\<dots> = Some (Inl NameError)"
        by (rule SyncCrypto_receive_error) (simp add: step_encoded)
      finally show ?thesis unfolding 1 using True Inr by simp
    qed
  qed
qed

lemma SyncCrypto_start:
  "SyncCrypto_receive lib (XDAAHandshake_init g) Start =
     (case public_key_from_encoded_point_hex lib (server_public_key g) of
        Inl e \<Rightarrow> Some (Inl e)
      | Inr pk \<Rightarrow>
         (case private_key_from_int_hex lib (client_private_key g) of
            Inl e \<Rightarrow> Some (Inl e)
          | Inr sk \<Rightarrow>
             (case ch_serialize (ClientHelloMessage_init (group_id g) (urandom lib 32)) of
                Inl e \<Rightarrow> Some (Inl e)
              | Inr d \<Rightarrow>
                  Some (Inr (awaiting_hello_ack
                               (init_context_of g pk sk (urandom lib 32) (key_pair lib)),
                             DataWrite d)))))"
proof (cases "public_key_from_encoded_point_hex lib (server_public_key g)")
  case (Inl e)
  have "SyncCrypto_receive lib (XDAAHandshake_init g) Start = Some (Inl e)"
    by (rule SyncCrypto_receive_raise [OF step_start]) (simp add: Inl)
  then show ?thesis by (simp add: Inl)
next
  case pk: (Inr pk)
  let ?c0 = "XDAAContext_init \<lparr> daa_group := Some g \<rparr>"
  let ?c1 = "?c0 \<lparr> server_group_public_key := Some pk \<rparr>"
  have g0: "daa_group ?c0 = Some g" by simp
  have 1: "SyncCrypto_receive lib (XDAAHandshake_init g) Start =
        SyncCrypto_receive lib (hs init_context (child_in InitContext steps (Some 0)) ?c0)
          (GroupDecodePublicKeyResult pk)"
    by (rule SyncCrypto_receive_step [OF step_start]) (simp add: pk)
  show ?thesis
  proof (cases "private_key_from_int_hex lib (client_private_key g)")
    case (Inl e)
    have "SyncCrypto_receive lib (hs init_context (child_in InitContext steps (Some 0)) ?c0)
          (GroupDecodePublicKeyResult pk) = Some (Inl e)"
      by (rule SyncCrypto_receive_raise [OF step_init_context_1 [OF g0]]) (simp add: Inl)
    then show ?thesis by (simp add: 1 pk Inl)
  next
    case sk: (Inr sk)
    let ?c2 = "?c1 \<lparr> client_group_private_key := Some sk \<rparr>"
    let ?c3 = "?c2 \<lparr> client_nonce := Some (urandom lib 32) \<rparr>"
    have g3: "daa_group ?c3 = Some g" and n3: "client_nonce ?c3 = Some (urandom lib 32)"
      by simp_all
    have "SyncCrypto_receive lib (hs init_context (child_in InitContext steps (Some 0)) ?c0)
          (GroupDecodePublicKeyResult pk)
        = SyncCrypto_receive lib (hs init_context (child_in InitContext steps (Some 1)) ?c1)
          (GroupDecodePrivateKeyResult sk)"
      by (rule SyncCrypto_receive_step [OF step_init_context_1 [OF g0]]) (simp add: sk)
    also have "\<dots> = SyncCrypto_receive lib (hs init_context (child_in InitContext steps (Some 2)) ?c2)
          (CreateNonceResult (urandom lib 32))"
      by (rule SyncCrypto_receive_step [OF step_init_context_2]) simp
    also have "\<dots> = SyncCrypto_receive lib (hs init_context (child_in InitContext steps (Some 3)) ?c3)
          (EphemeralCreateKeyResult (key_pair lib))"
      by (rule SyncCrypto_receive_step [OF step_init_context_3]) simp
    finally have 2: "SyncCrypto_receive lib (XDAAHandshake_init g) Start =
          SyncCrypto_receive lib (hs init_context (child_in InitContext steps (Some 3)) ?c3)
          (EphemeralCreateKeyResult (key_pair lib))"
      using 1 by simp
    have c: "?c3 \<lparr> client_ephemeral_private_key := Some (key_pair lib) \<rparr>
               = init_context_of g pk sk (urandom lib 32) (key_pair lib)"
      by (simp add: init_context_of_def XDAAContext_init_def)
    show ?thesis
    proof (cases "ch_serialize (ClientHelloMessage_init (group_id g) (urandom lib 32))")
      case (Inl e)
      have "SyncCrypto_receive lib (hs init_context (child_in InitContext steps (Some 3)) ?c3)
          (EphemeralCreateKeyResult (key_pair lib)) = Some (Inl e)"
        by (rule SyncCrypto_receive_error) (simp add: step_init_context_4 [OF g3 n3] Inl)
      then show ?thesis by (simp add: 2 pk sk Inl)
    next
      case (Inr d)
      have "SyncCrypto_receive lib (hs init_context (child_in InitContext steps (Some 3)) ?c3)
          (EphemeralCreateKeyResult (key_pair lib)) =
          Some (Inr (hs send_client_hello (child_in SendClientHello send None)
                  (?c3 \<lparr> client_ephemeral_private_key := Some (key_pair lib) \<rparr>), DataWrite d))"
        by (rule SyncCrypto_receive_stop) (simp_all add: step_init_context_4 [OF g3 n3] Inr)
      then show ?thesis
        unfolding c by (simp add: 2 pk sk Inr awaiting_hello_ack_def)
    qed
  qed
qed

lemma SyncCrypto_hello_written:
  "SyncCrypto_receive lib (awaiting_hello_ack ctx) DataWriteResult =
     Some (Inr (awaiting_header ctx, DataRead 9))"
  unfolding awaiting_hello_ack_def awaiting_header_def by (rule SyncCrypto_hello_written_hs)

lemma SyncCrypto_header:
  "SyncCrypto_receive lib (awaiting_header ctx) (DataReadResult hdr) =
   (case ske_parse_header hdr of
      Inl e \<Rightarrow> Some (Inl e)
    | Inr (m, L) \<Rightarrow> Some (Inr (awaiting_body m ctx, DataRead L)))"
  unfolding awaiting_header_def awaiting_body_def by (rule SyncCrypto_header_hs)

lemma SyncCrypto_body:
  assumes v: "ske_version m = 0"
  shows "SyncCrypto_receive lib (awaiting_body m (init_context_of g pk sk nonce kp))
           (DataReadResult body) =
   (case ske_parse_body m body of
      Inl e \<Rightarrow> Some (Inl e)
    | Inr m' \<Rightarrow>
        if ske_server_group_id m' \<noteq> group_id g then Some (Inl IncorrectGroupError)
        else if \<not> verify_sha256 lib pk (ske_signature m') (ske_server_ecdhe_public_key m' @ nonce)
        then Some (Inl InvalidSignatureError)
        else case public_key_from_bytes_be lib (ske_server_ecdhe_public_key m') of
               Inl e \<Rightarrow> Some (Inl e)
             | Inr spk \<Rightarrow> Some (Inl NameError))"
proof (cases "ske_parse_body m body")
  case (Inl e)
  then show ?thesis
    by (simp add: awaiting_body_def SyncCrypto_receive_error step_body_error del: One_nat_def)
next
  case (Inr m')
  have v': "ske_version m' = protocol_version (init_context_of g pk sk nonce kp)"
    using ske_parse_body_version [OF Inr] v by simp
  show ?thesis
  proof (cases "ske_server_group_id m' = group_id g")
    case False
    have "receive (awaiting_body m (init_context_of g pk sk nonce kp)) (DataReadResult body)
            = Inl IncorrectGroupError"
      unfolding awaiting_body_def
      by (rule step_body_group [OF Inr v' _ False]) simp
    then show ?thesis by (simp add: Inr False SyncCrypto_receive_error)
  next
    case True
    show ?thesis
      unfolding awaiting_body_def
      by (subst SyncCrypto_body_hs [OF Inr v' _ True, where pk = pk and nonce = nonce and kp = kp])
         (simp_all add: Inr True del: One_nat_def)
  qed
qed

subsection \<open>\<^verbatim>\<open>SyncSocket.receive\<close> and \<^verbatim>\<open>negotiate_secret\<close>\<close>

lemma data_read_cases:
  obtains (error) e where "data_read ops sock n = Inl e"
  | (data) sock' d where "data_read ops sock n = Inr (sock', DataReadResult d)" "d \<noteq> []"
      "recvexactly ops sock n = Inr (d, sock')"
proof (cases "recvexactly ops sock n")
  case (Inl e)
  then have "data_read ops sock n = Inl e" by (simp add: data_read_def)
  then show thesis by (rule error)
next
  case (Inr p)
  obtain d sock' where p: "p = (d, sock')" by (cases p)
  show thesis
  proof (cases "d = []")
    case True
    then have "data_read ops sock n = Inl SocketError"
      by (simp add: data_read_def Inr p)
    then show thesis by (rule error)
  next
    case False
    then have "data_read ops sock n = Inr (sock', DataReadResult d)"
      by (simp add: data_read_def Inr p)
    then show thesis using False Inr p by (intro data) simp_all
  qed
qed

lemma data_write_cases:
  obtains (error) e where "data_write ops sock d = Inl e"
  | (sent) sock' where "data_write ops sock d = Inr (sock', DataWriteResult)"
      "sendall ops sock d = Inr sock'"
proof (cases "sendall ops sock d")
  case (Inl e)
  then have "data_write ops sock d = Inl e" by (simp add: data_write_def)
  then show thesis by (rule error)
next
  case (Inr sock')
  then have "data_write ops sock d = Inr (sock', DataWriteResult)" by (simp add: data_write_def)
  then show thesis using Inr by (rule sent)
qed

lemma socket_dispatch_simps [simp]:
  "sync_socket_dispatch ops sock (DataWrite d) = Some (data_write ops sock d)"
  "sync_socket_dispatch ops sock (DataRead n) = Some (data_read ops sock n)"
  by (simp_all add: sync_socket_dispatch_def)

lemma SyncSocket_body_raises:
  assumes v: "ske_version m = 0"
  shows "\<exists>e. SyncSocket_receive lib ops sock (awaiting_body m (init_context_of g pk sk nonce kp))
              (DataReadResult body) = Some (Inl e)"
proof -
  have "\<exists>e. SyncCrypto_receive lib (awaiting_body m (init_context_of g pk sk nonce kp))
              (DataReadResult body) = Some (Inl e)"
    by (simp add: SyncCrypto_body [OF v] split: sum.splits)
  then show ?thesis by (auto intro: SyncSocket_receive_error)
qed

lemma SyncSocket_header_raises:
  "\<exists>e. SyncSocket_receive lib ops sock (awaiting_header (init_context_of g pk sk nonce kp))
              (DataReadResult hdr) = Some (Inl e)"
proof (cases "ske_parse_header hdr")
  case (Inl e)
  then have "SyncCrypto_receive lib (awaiting_header (init_context_of g pk sk nonce kp))
              (DataReadResult hdr) = Some (Inl e)"
    by (simp add: SyncCrypto_header)
  then show ?thesis by (auto intro: SyncSocket_receive_error)
next
  case (Inr p)
  obtain m L where p: "p = (m, L)" by (cases p)
  have sc: "SyncCrypto_receive lib (awaiting_header (init_context_of g pk sk nonce kp))
              (DataReadResult hdr)
            = Some (Inr (awaiting_body m (init_context_of g pk sk nonce kp), DataRead L))"
    by (simp add: SyncCrypto_header Inr p)
  have v: "ske_version m = 0"
    using Inr p by (auto dest: ske_parse_header_fields(1))
  show ?thesis
  proof (cases rule: data_read_cases [of ops sock L])
    case (error e)
    have "SyncSocket_receive lib ops sock (awaiting_header (init_context_of g pk sk nonce kp))
              (DataReadResult hdr) = Some (Inl e)"
      by (rule SyncSocket_receive_raise [OF sc]) (simp add: error)
    then show ?thesis by blast
  next
    case (data sock' d)
    have "SyncSocket_receive lib ops sock (awaiting_header (init_context_of g pk sk nonce kp))
              (DataReadResult hdr)
          = SyncSocket_receive lib ops sock' (awaiting_body m (init_context_of g pk sk nonce kp))
              (DataReadResult d)"
      by (rule SyncSocket_receive_step [OF sc]) (simp add: data)
    then show ?thesis using SyncSocket_body_raises [OF v] by simp
  qed
qed

lemma SyncSocket_hello_written_raises:
  "\<exists>e. SyncSocket_receive lib ops sock (awaiting_hello_ack (init_context_of g pk sk nonce kp))
              DataWriteResult = Some (Inl e)"
proof (cases rule: data_read_cases [of ops sock 9])
  case (error e)
  have "SyncSocket_receive lib ops sock (awaiting_hello_ack (init_context_of g pk sk nonce kp))
              DataWriteResult = Some (Inl e)"
    by (rule SyncSocket_receive_raise [OF SyncCrypto_hello_written]) (simp add: error)
  then show ?thesis by blast
next
  case (data sock' d)
  have "SyncSocket_receive lib ops sock (awaiting_hello_ack (init_context_of g pk sk nonce kp))
              DataWriteResult
        = SyncSocket_receive lib ops sock' (awaiting_header (init_context_of g pk sk nonce kp))
              (DataReadResult d)"
    by (rule SyncSocket_receive_step [OF SyncCrypto_hello_written]) (simp add: data)
  then show ?thesis using SyncSocket_header_raises by simp
qed

lemma SyncSocket_start_raises: "\<exists>e. SyncSocket_receive lib ops sock (XDAAHandshake_init g) Start = Some (Inl e)"
proof (cases "SyncCrypto_receive lib (XDAAHandshake_init g) Start")
  case None
  then show ?thesis by (simp add: SyncCrypto_start split: sum.splits)
next
  case (Some r)
  show ?thesis
  proof (cases r)
    case (Inl e)
    with Some show ?thesis by (auto intro: SyncSocket_receive_error)
  next
    case (Inr p)
    with Some obtain pk sk d where
      sc: "SyncCrypto_receive lib (XDAAHandshake_init g) Start =
            Some (Inr (awaiting_hello_ack (init_context_of g pk sk (urandom lib 32) (key_pair lib)),
                       DataWrite d))"
      by (auto simp: SyncCrypto_start split: sum.splits)
    show ?thesis
    proof (cases rule: data_write_cases [of ops sock d])
      case (error e)
      have "SyncSocket_receive lib ops sock (XDAAHandshake_init g) Start = Some (Inl e)"
        by (rule SyncSocket_receive_raise [OF sc]) (simp add: error)
      then show ?thesis by blast
    next
      case (sent sock')
      have "SyncSocket_receive lib ops sock (XDAAHandshake_init g) Start =
            SyncSocket_receive lib ops sock'
              (awaiting_hello_ack (init_context_of g pk sk (urandom lib 32) (key_pair lib)))
              DataWriteResult"
        by (rule SyncSocket_receive_step [OF sc]) (simp add: sent)
      then show ?thesis using SyncSocket_hello_written_raises by simp
    qed
  qed
qed

lemma negotiate_secret_raises: "\<exists>e. negotiate_secret lib ops sock grp = Some (Inl e)"
proof (cases "\<exists>g s c. split CHR '','' grp = [g, s, c]")
  case False
  then have "negotiate_secret lib ops sock grp = Some (Inl TypeError)"
    by (auto simp: negotiate_secret_def split: list.splits)
  then show ?thesis by blast
next
  case True
  then obtain g s c where sp: "split CHR '','' grp = [g, s, c]" by blast
  obtain e where "SyncSocket_receive lib ops sock
      (XDAAHandshake_init \<lparr> group_id = str_bytes g, server_public_key = str_bytes s,
                             client_private_key = str_bytes c \<rparr>) Start = Some (Inl e)"
    using SyncSocket_start_raises [of lib ops sock "\<lparr> group_id = str_bytes g, server_public_key = str_bytes s,
                             client_private_key = str_bytes c \<rparr>"] by blast
  then show ?thesis
    by (simp add: negotiate_secret_def sp)
qed

subsection \<open>The model covers every answer of the state methods\<close>

text \<open>
  The exceptions of the codec, then the answers of the state methods to \<^verbatim>\<open>Exit\<close> and
  \<^verbatim>\<open>Entry\<close>, and last: no function of the state machine returns \<open>NotModelled\<close>.
\<close>

lemma struct_pack_error: "struct_pack fs vs = Inl e \<Longrightarrow> e = StructError"
proof (induction fs vs rule: struct_pack.induct)
  case (2 f fs v vs)
  have pf: "\<And>x. pack_field f v = Inl x \<Longrightarrow> x = StructError"
    by (cases "(f, v)" rule: pack_field.cases) (auto split: if_splits)
  from 2 pf show ?case
    by (auto split: sum.splits)
qed simp_all

lemma serialize_error:
  "ch_serialize m1 = Inl e \<Longrightarrow> e = StructError"
  "ske_serialize m2 = Inl e \<Longrightarrow> e = StructError"
  "cke_serialize m3 = Inl e \<Longrightarrow> e = StructError"
  by (auto simp: ch_serialize_def ske_serialize_def cke_serialize_def
        simp del: struct_pack.simps split: sum.splits dest: struct_pack_error)

lemma ske_parse_error:
  "ske_parse_header hdr = Inl e \<Longrightarrow> e = InvalidMessageError \<or> e = TypeError"
  "ske_parse_body m body = Inl e \<Longrightarrow> e = InvalidMessageError \<or> e = TypeError"
  by (auto simp: ske_parse_header_def ske_parse_body_def Let_def
        split: sum.splits list.splits val.splits if_splits)

lemma sfs_error:
  "ske_serialize_for_signature a b \<noteq> Inl NotModelled"
  "cke_serialize_for_signature a b \<noteq> Inl NotModelled"
  by (simp_all add: ske_serialize_for_signature_def cke_serialize_for_signature_def lookup_name_def)

lemma bind_result_Inl_iff:
  "bind_result r f = Inl e \<longleftrightarrow> r = Inl e \<or> (\<exists>x. r = Inr x \<and> f x = Inl e)"
  by (cases r) simp_all

lemma bind_result_Inr_iff:
  "bind_result r f = Inr y \<longleftrightarrow> (\<exists>x. r = Inr x \<and> f x = Inr y)"
  by (cases r) simp_all

lemma InitContext_steps_props:
  "InitContext_steps ctx self e \<noteq> Inl NotModelled"
  "InitContext_steps ctx self e = Inr (ctx', self', a) \<Longrightarrow> a \<noteq> Delegate c \<and> (\<forall>s. a \<noteq> Become s)"
  "InitContext_steps ctx self Exit = Inr (ctx', self', a) \<Longrightarrow> a = Unhandled Exit"
  "InitContext_steps ctx self Entry = Inr (ctx', self', a) \<Longrightarrow> (\<exists>r. a = Return r)"
  by (auto simp: InitContext_steps_def init_step_def step_def getattr_def Let_def
        bind_result_Inl_iff bind_result_Inr_iff
        split: option.splits if_splits event.splits)

lemma SendClientHello_send_props:
  "SendClientHello_send ctx self e \<noteq> Inl NotModelled"
  "SendClientHello_send ctx self e = Inr (ctx', self', a) \<Longrightarrow> a \<noteq> Delegate c"
  "SendClientHello_send ctx self Exit = Inr (ctx', self', a) \<Longrightarrow> a = Unhandled Exit"
  "SendClientHello_send ctx self Entry = Inr (ctx', self', a) \<Longrightarrow> (\<exists>r. a = Return r)"
  by (auto simp: SendClientHello_send_def init_step_def step_def getattr_def len_arg_def Let_def
        bind_result_Inl_iff bind_result_Inr_iff sfs_error
        split: option.splits if_splits event.splits
        dest: serialize_error ske_parse_error)

lemma ReceiveServerKeyExchange_receive_message_props:
  "ReceiveServerKeyExchange_receive_message ctx self e \<noteq> Inl NotModelled"
  "ReceiveServerKeyExchange_receive_message ctx self e = Inr (ctx', self', a) \<Longrightarrow> a \<noteq> Delegate c"
  "ReceiveServerKeyExchange_receive_message ctx self Exit = Inr (ctx', self', a) \<Longrightarrow> a = Unhandled Exit"
  "ReceiveServerKeyExchange_receive_message ctx self Entry = Inr (ctx', self', a) \<Longrightarrow> (\<exists>r. a = Return r)"
  by (auto simp: ReceiveServerKeyExchange_receive_message_def init_step_def step_def getattr_def len_arg_def Let_def
        bind_result_Inl_iff bind_result_Inr_iff sfs_error
        split: option.splits if_splits event.splits
        dest: serialize_error ske_parse_error)

lemma ReceiveServerKeyExchange_validate_message_props:
  "ReceiveServerKeyExchange_validate_message ctx self e \<noteq> Inl NotModelled"
  "ReceiveServerKeyExchange_validate_message ctx self e = Inr (ctx', self', a) \<Longrightarrow> a \<noteq> Delegate c"
  "ReceiveServerKeyExchange_validate_message ctx self Exit = Inr (ctx', self', a) \<Longrightarrow> a = Unhandled Exit"
  "ReceiveServerKeyExchange_validate_message ctx self Entry = Inr (ctx', self', a) \<Longrightarrow> (\<exists>r. a = Return r)"
  by (auto simp: ReceiveServerKeyExchange_validate_message_def init_step_def step_def getattr_def len_arg_def Let_def
        bind_result_Inl_iff bind_result_Inr_iff sfs_error
        split: option.splits if_splits event.splits
        dest: serialize_error ske_parse_error)

lemma ReceiveServerKeyExchange_process_message_props:
  "ReceiveServerKeyExchange_process_message ctx self e \<noteq> Inl NotModelled"
  "ReceiveServerKeyExchange_process_message ctx self e = Inr (ctx', self', a) \<Longrightarrow> a \<noteq> Delegate c"
  "ReceiveServerKeyExchange_process_message ctx self Exit = Inr (ctx', self', a) \<Longrightarrow> a = Unhandled Exit"
  "ReceiveServerKeyExchange_process_message ctx self Entry = Inr (ctx', self', a) \<Longrightarrow> (\<exists>r. a = Return r)"
  by (auto simp: ReceiveServerKeyExchange_process_message_def init_step_def step_def getattr_def len_arg_def Let_def
        bind_result_Inl_iff bind_result_Inr_iff sfs_error
        split: option.splits if_splits event.splits
        dest: serialize_error ske_parse_error)

lemma SendClientKeyExchange_prepare_message_props:
  "SendClientKeyExchange_prepare_message ctx self e \<noteq> Inl NotModelled"
  "SendClientKeyExchange_prepare_message ctx self e = Inr (ctx', self', a) \<Longrightarrow> a \<noteq> Delegate c"
  "SendClientKeyExchange_prepare_message ctx self Exit = Inr (ctx', self', a) \<Longrightarrow> a = Unhandled Exit"
  "SendClientKeyExchange_prepare_message ctx self Entry = Inr (ctx', self', a) \<Longrightarrow> (\<exists>r. a = Return r)"
  by (auto simp: SendClientKeyExchange_prepare_message_def init_step_def step_def getattr_def len_arg_def Let_def
        bind_result_Inl_iff bind_result_Inr_iff sfs_error
        split: option.splits if_splits event.splits
        dest: serialize_error ske_parse_error)

lemma SendClientKeyExchange_send_message_props:
  "SendClientKeyExchange_send_message ctx self e \<noteq> Inl NotModelled"
  "SendClientKeyExchange_send_message ctx self e = Inr (ctx', self', a) \<Longrightarrow> a \<noteq> Delegate c"
  "SendClientKeyExchange_send_message ctx self Exit = Inr (ctx', self', a) \<Longrightarrow> a = Unhandled Exit"
  "SendClientKeyExchange_send_message ctx self Entry = Inr (ctx', self', a) \<Longrightarrow> (\<exists>r. a = Return r)"
  by (auto simp: SendClientKeyExchange_send_message_def init_step_def step_def getattr_def len_arg_def Let_def
        bind_result_Inl_iff bind_result_Inr_iff sfs_error
        split: option.splits if_splits event.splits
        dest: serialize_error ske_parse_error)

lemma child_call_props:
  "child_call ctx self s e \<noteq> Inl NotModelled"
  "child_call ctx self s e = Inr (ctx', self', a) \<Longrightarrow> a \<noteq> Delegate c"
  "child_call ctx self s Exit = Inr (ctx', self', a) \<Longrightarrow> a = Unhandled Exit"
  "child_call ctx self s Entry = Inr (ctx', self', a) \<Longrightarrow> (\<exists>r. a = Return r) \<or> a = Unhandled Entry"
  using InitContext_steps_props(1,3,4) [of ctx self] InitContext_steps_props(2) [of ctx self e ctx' self' a c]
    SendClientHello_send_props [of ctx self]
    ReceiveServerKeyExchange_receive_message_props [of ctx self]
    ReceiveServerKeyExchange_validate_message_props [of ctx self]
    ReceiveServerKeyExchange_process_message_props [of ctx self]
    SendClientKeyExchange_prepare_message_props [of ctx self]
    SendClientKeyExchange_send_message_props [of ctx self]
  by (auto simp: child_call_def FSM_initial_def FSM_final_def bind_result_Inl_iff bind_result_Inr_iff
        split: if_splits)

lemma child_exit_modelled: "child_exit ctx self \<noteq> Inl NotModelled"
proof
  assume a: "child_exit ctx self = Inl NotModelled"
  then obtain s where s: "current self = Some s"
    by (auto simp: child_exit_def split: option.splits)
  show False
  proof (cases "child_call ctx self s Exit")
    case (Inl e)
    with a s have "e = NotModelled" by (simp add: child_exit_def)
    with Inl child_call_props(1) show False by blast
  next
    case (Inr p)
    obtain ctx' self' act where p: "p = (ctx', self', act)" by (cases p)
    have "act = Unhandled Exit" using Inr p by (auto dest: child_call_props(3))
    with a s Inr p show False by (simp add: child_exit_def)
  qed
qed

lemma child_enter_modelled: "child_enter ctx self s \<noteq> Inl NotModelled"
proof
  assume a: "child_enter ctx self s = Inl NotModelled"
  let ?self = "self \<lparr> current := Some s \<rparr>"
  show False
  proof (cases "child_call ctx ?self s Entry")
    case (Inl e)
    with a have "e = NotModelled" by (simp add: child_enter_def)
    with Inl child_call_props(1) show False by blast
  next
    case (Inr p)
    obtain ctx' self' act where p: "p = (ctx', self', act)" by (cases p)
    have "(\<exists>r. act = Return r) \<or> act = Unhandled Entry"
      using Inr p by (auto dest: child_call_props(4))
    with a Inr p show False by (auto simp: child_enter_def)
  qed
qed

lemma child_become_modelled: "child_become ctx self s \<noteq> Inl NotModelled"
  using child_exit_modelled child_enter_modelled
  by (auto simp: child_become_def bind_result_Inl_iff)

lemma child_receive_modelled: "child_receive ctx self e \<noteq> Inl NotModelled"
proof
  assume a: "child_receive ctx self e = Inl NotModelled"
  then obtain s where s: "current self = Some s"
    by (auto simp: child_receive_def split: option.splits)
  show False
  proof (cases "child_call ctx self s e")
    case (Inl x)
    with a s have "x = NotModelled" by (simp add: child_receive_def)
    with Inl child_call_props(1) show False by blast
  next
    case (Inr p)
    obtain ctx' self' act where p: "p = (ctx', self', act)" by (cases p)
    have nd: "\<And>c. act \<noteq> Delegate c" using Inr p by (auto dest: child_call_props(2))
    from a s Inr p nd child_become_modelled [of ctx' self'] show False
      by (cases act) (auto simp: child_receive_def bind_result_Inl_iff split: if_splits)
  qed
qed

lemma child_start_done:
  "child_receive ctx (child_init c) Start = Inr (ctx', self', out) \<Longrightarrow> \<exists>r. out = Done r"
  by (auto simp: child_receive_def child_init_def child_call_def FSM_initial_def
        bind_result_Inr_iff)

lemma XDAAHandshake_call_props:
  "XDAAHandshake_call self s e \<noteq> Inl NotModelled"
  "XDAAHandshake_call self s Exit = Inr (self', a) \<Longrightarrow> a = Unhandled Exit \<or> a = Return None"
  "XDAAHandshake_call self s Entry = Inr (self', a) \<Longrightarrow>
     (\<exists>r. a = Return r) \<or> (\<exists>c. a = Delegate c) \<or> a = Unhandled Entry"
  by (auto simp: XDAAHandshake_call_def FSM_initial_def FSM_final_def bind_result_Inl_iff
        bind_result_Inr_iff split: if_splits event.splits)

lemma handshake_unhandled_modelled: "handshake_unhandled self e \<noteq> Inl NotModelled"
  by (simp add: handshake_unhandled_def)

lemma handshake_exit_modelled: "handshake_exit self \<noteq> Inl NotModelled"
proof
  assume a: "handshake_exit self = Inl NotModelled"
  then obtain s where s: "hs_current self = Some s"
    by (auto simp: handshake_exit_def split: option.splits)
  show False
  proof (cases "XDAAHandshake_call self s Exit")
    case (Inl x)
    with a s have "x = NotModelled" by (simp add: handshake_exit_def)
    with Inl XDAAHandshake_call_props(1) show False by blast
  next
    case (Inr p)
    obtain self' act where p: "p = (self', act)" by (cases p)
    have "act = Unhandled Exit \<or> act = Return None"
      using Inr p by (auto dest: XDAAHandshake_call_props(2))
    with a s Inr p show False
      by (auto simp: handshake_exit_def handshake_unhandled_def)
  qed
qed

lemma delegate_modelled: "delegate self c \<noteq> Inl NotModelled"
proof
  assume a: "delegate self c = Inl NotModelled"
  then have n: "maybeChild self = None" by (auto simp: delegate_def split: if_splits)
  show False
  proof (cases "child_receive (hs_context self) (child_init c) Start")
    case (Inl x)
    with a n have "x = NotModelled" by (simp add: delegate_def)
    with Inl child_receive_modelled show False by blast
  next
    case (Inr p)
    obtain ctx' self' out where p: "p = (ctx', self', out)" by (cases p)
    obtain r where "out = Done r" using Inr p by (auto dest: child_start_done)
    with a n Inr p show False by (simp add: delegate_def)
  qed
qed

lemma handshake_enter_modelled: "handshake_enter self s \<noteq> Inl NotModelled"
proof
  assume a: "handshake_enter self s = Inl NotModelled"
  let ?self = "self \<lparr> hs_current := Some s \<rparr>"
  show False
  proof (cases "XDAAHandshake_call ?self s Entry")
    case (Inl x)
    with a have "x = NotModelled" by (simp add: handshake_enter_def)
    with Inl XDAAHandshake_call_props(1) show False by blast
  next
    case (Inr p)
    obtain self' act where p: "p = (self', act)" by (cases p)
    have "(\<exists>r. act = Return r) \<or> (\<exists>c. act = Delegate c) \<or> act = Unhandled Entry"
      using Inr p by (auto dest: XDAAHandshake_call_props(3))
    with a Inr p delegate_modelled [of self'] show False
      by (auto simp: handshake_enter_def handshake_unhandled_def)
  qed
qed

lemma handshake_become_modelled: "handshake_become self s \<noteq> Inl NotModelled"
  using handshake_exit_modelled handshake_enter_modelled
  by (auto simp: handshake_become_def bind_result_Inl_iff Let_def)

lemma receive_self_modelled: "receive_self self e \<noteq> Inl NotModelled"
proof
  assume a: "receive_self self e = Inl NotModelled"
  then obtain s where s: "hs_current self = Some s"
    by (auto simp: receive_self_def split: option.splits)
  show False
  proof (cases "XDAAHandshake_call self s e")
    case (Inl x)
    with a s have "x = NotModelled" by (simp add: receive_self_def)
    with Inl XDAAHandshake_call_props(1) show False by blast
  next
    case (Inr p)
    obtain self' act where p: "p = (self', act)" by (cases p)
    from a s Inr p handshake_become_modelled [of self'] delegate_modelled [of self']
      handshake_unhandled_modelled [of self']
    show False
      by (cases act) (auto simp: receive_self_def)
  qed
qed

lemma receive_child_modelled: "receive_child self child e \<noteq> Inl NotModelled"
proof
  assume a: "receive_child self child e = Inl NotModelled"
  show False
  proof (cases "child_receive (hs_context self) child e")
    case (Inl x)
    with a have "x = NotModelled" by (simp add: receive_child_def)
    with Inl child_receive_modelled show False by blast
  next
    case (Inr p)
    obtain ctx' child' out where p: "p = (ctx', child', out)" by (cases p)
    let ?self = "self \<lparr> maybeChild := Some child', hs_context := ctx' \<rparr>"
    let ?r = "case out of Done r \<Rightarrow> Inr (?self, r) | ToParent e \<Rightarrow> receive_self ?self e"
    have r: "?r \<noteq> Inl NotModelled"
      using receive_self_modelled by (cases out) auto
    show False
    proof (cases ?r)
      case (Inl x)
      with a Inr p have "x = NotModelled" by (simp add: receive_child_def Let_def)
      with Inl r show False by simp
    next
      case r2: (Inr q)
      obtain self2 ret where q: "q = (self2, ret)" by (cases q)
      from a Inr p r2 q receive_self_modelled [of "self2 \<lparr> maybeChild := None \<rparr>"]
      show False
        by (auto simp: receive_child_def Let_def split: option.splits if_splits)
    qed
  qed
qed

lemma receive_modelled: "receive self e \<noteq> Inl NotModelled"
  using receive_self_modelled receive_child_modelled
  by (auto simp: receive_def split: option.splits)

section \<open>Properties of the backends and of the key parser\<close>

lemma ske_serialize_version:
  assumes "0 \<le> k" "k \<le> 255"
    and "length a \<le> 65535" "length b \<le> 65535" "length c \<le> 65535" "length sg \<le> 65535"
  shows "ske_serialize ((ServerKeyExchangeMessage_init a b c sg) \<lparr> ske_version := k \<rparr>) =
           Inr ((word_of_int k # be16 (length a) @ be16 (length b) @ be16 (length c)
                   @ be16 (length sg)) @ a @ b @ c @ sg)"
  using assms
  by (simp add: ske_serialize_def ServerKeyExchangeMessage_init_def pack_H del: pack_field.simps(2))

lemma version_byte_nonzero:
  assumes "1 \<le> k" "k \<le> 255"
  shows "(word_of_int k :: byte) \<noteq> 0"
proof
  assume "(word_of_int k :: byte) = 0"
  then have "uint (word_of_int k :: byte) = 0" by simp
  moreover have "uint (word_of_int k :: byte) = k"
    using assms by (simp add: uint_word_of_int take_bit_int_eq_self)
  ultimately show False using assms by simp
qed

lemma drive_header_result:
  assumes run: "drive (XDAAHandshake_init g) (init_events pk sk nonce kp @ [DataReadResult hdr])
                  = Inr (h1, outs1)"
    and hdr: "ske_parse_header hdr = Inr (m, L)"
  shows "h1 = awaiting_body m (init_context_of g pk sk nonce kp)"
proof -
  obtain h0 outs0 where r0: "drive (XDAAHandshake_init g) (init_events pk sk nonce kp) = Inr (h0, outs0)"
    using run by (cases "drive (XDAAHandshake_init g) (init_events pk sk nonce kp)")
      (auto simp: drive_append)
  note h0 = drive_init_result [OF r0]
  from run show ?thesis
    by (simp add: drive_append r0 h0(1) step_header hdr awaiting_body_def)
qed

lemma wit_parse:
  "ske_parse_header [0, 0, 1, 0, 2, 0, 1, 0, 1] =
     Inr ((ServerKeyExchangeMessage_init [] [] [] [])
            \<lparr> ske_server_group_id_len := 1, ske_server_nonce_len := 2,
              ske_server_ecdhe_public_key_len := 1, ske_signature_len := 1 \<rparr>, 5)"
  "ske_parse_body ((ServerKeyExchangeMessage_init [] [] [] [])
            \<lparr> ske_server_group_id_len := 1, ske_server_nonce_len := 2,
              ske_server_ecdhe_public_key_len := 1, ske_signature_len := 1 \<rparr>) [49, 8, 8, 5, 6]
     = Inr ((ServerKeyExchangeMessage_init [49] [8, 8] [5] [6]))"
  by (simp_all add: ske_parse_header_def ske_parse_body_def struct_unpack_def
        ServerKeyExchangeMessage_init_def)

lemma split_nonempty: "split sep s \<noteq> []"
  by (induction s) (auto split: list.splits)

lemma length_split: "length (split sep s) = Suc (count_list s sep)"
  by (induction s) (auto split: list.splits simp: split_nonempty)

lemma split_no_separator: "sep \<notin> set a \<Longrightarrow> split sep a = [a]"
  by (induction a) auto

lemma split_append: "sep \<notin> set a \<Longrightarrow> split sep (a @ sep # r) = a # split sep r"
  by (induction a) auto

lemma split_three:
  assumes "CHR '','' \<notin> set g" "CHR '','' \<notin> set s" "CHR '','' \<notin> set c"
  shows "split CHR '','' (g @ '','' @ s @ '','' @ c) = [g, s, c]"
  using assms by (simp add: split_append split_no_separator)

lemma not_three_fields:
  assumes "count_list csv CHR '','' \<noteq> 2"
  shows "Keys_from_csv csv = Inl TypeError"
    and "negotiate_secret lib ops sock csv = Some (Inl TypeError)"
proof -
  have "length (split CHR '','' csv) \<noteq> 3"
    using assms by (simp add: length_split)
  then show "Keys_from_csv csv = Inl TypeError"
    and "negotiate_secret lib ops sock csv = Some (Inl TypeError)"
    by (auto simp: Keys_from_csv_def negotiate_secret_def split: list.splits)
qed

lemma Keys_init_ascii:
  assumes "list_all (\<lambda>ch. (of_char ch :: nat) < 128) (g @ s @ c)"
  shows "Keys_init g s c =
           Inr \<lparr> group_id = str_bytes g, server_public_key = str_bytes s,
                 client_private_key = str_bytes c \<rparr>"
  using assms by (simp add: Keys_init_def encode_ascii_def str_bytes_def)

lemma SyncSocket_start:
  assumes "public_key_from_encoded_point_hex lib (server_public_key g) = Inr pk"
    and "private_key_from_int_hex lib (client_private_key g) = Inr sk"
    and "ch_serialize (ClientHelloMessage_init (group_id g) (urandom lib 32)) = Inr d"
    and "sendall ops sock d = Inr sock'"
  shows "SyncSocket_receive lib ops sock (XDAAHandshake_init g) Start =
         SyncSocket_receive lib ops sock'
           (awaiting_hello_ack (init_context_of g pk sk (urandom lib 32) (key_pair lib)))
           DataWriteResult"
proof -
  have "SyncCrypto_receive lib (XDAAHandshake_init g) Start =
          Some (Inr (awaiting_hello_ack (init_context_of g pk sk (urandom lib 32) (key_pair lib)),
                     DataWrite d))"
    using assms by (simp add: SyncCrypto_start)
  then show ?thesis
    by (rule SyncSocket_receive_step) (simp add: data_write_def assms)
qed

lemma SyncSocket_hello_written:
  assumes "recvexactly ops sock 9 = Inr (hdr, sock')" and "hdr \<noteq> []"
  shows "SyncSocket_receive lib ops sock (awaiting_hello_ack ctx) DataWriteResult =
         SyncSocket_receive lib ops sock' (awaiting_header ctx) (DataReadResult hdr)"
  by (rule SyncSocket_receive_step [OF SyncCrypto_hello_written]) (simp add: data_read_def assms)

lemma SyncSocket_header:
  assumes "ske_parse_header hdr = Inr (m, L)"
    and "recvexactly ops sock L = Inr (body, sock')" and "body \<noteq> []"
  shows "SyncSocket_receive lib ops sock (awaiting_header ctx) (DataReadResult hdr) =
         SyncSocket_receive lib ops sock' (awaiting_body m ctx) (DataReadResult body)"
proof -
  have "SyncCrypto_receive lib (awaiting_header ctx) (DataReadResult hdr) =
          Some (Inr (awaiting_body m ctx, DataRead L))"
    using assms by (simp add: SyncCrypto_header)
  then show ?thesis
    by (rule SyncSocket_receive_step) (simp add: data_read_def assms)
qed

lemma SyncSocket_header_error:
  assumes "ske_parse_header hdr = Inl e"
  shows "SyncSocket_receive lib ops sock (awaiting_header ctx) (DataReadResult hdr) = Some (Inl e)"
  by (rule SyncSocket_receive_error) (simp add: SyncCrypto_header assms)

lemma SyncSocket_header_zero:
  assumes "ske_parse_header hdr = Inr (m, 0)"
  shows "SyncSocket_receive lib ops sock (awaiting_header ctx) (DataReadResult hdr)
           = Some (Inl SocketError)"
proof -
  have "SyncCrypto_receive lib (awaiting_header ctx) (DataReadResult hdr) =
          Some (Inr (awaiting_body m ctx, DataRead 0))"
    using assms by (simp add: SyncCrypto_header)
  then show ?thesis
    by (rule SyncSocket_receive_raise) (simp add: data_read_zero)
qed

lemma SyncSocket_body:
  assumes "ske_version m = 0"
  shows "SyncSocket_receive lib ops sock (awaiting_body m (init_context_of g pk sk nonce kp))
           (DataReadResult body) =
   (case ske_parse_body m body of
      Inl e \<Rightarrow> Some (Inl e)
    | Inr m' \<Rightarrow>
        if ske_server_group_id m' \<noteq> group_id g then Some (Inl IncorrectGroupError)
        else if \<not> verify_sha256 lib pk (ske_signature m') (ske_server_ecdhe_public_key m' @ nonce)
        then Some (Inl InvalidSignatureError)
        else case public_key_from_bytes_be lib (ske_server_ecdhe_public_key m') of
               Inl e \<Rightarrow> Some (Inl e)
             | Inr spk \<Rightarrow> Some (Inl NameError))"
  by (auto simp: SyncCrypto_body [OF assms] split: sum.splits intro!: SyncSocket_receive_error)

lemma negotiate_secret_split:
  assumes "split CHR '','' grp = [gs, ss, cs]"
  shows "negotiate_secret lib ops sock grp =
     (case SyncSocket_receive lib ops sock
             (XDAAHandshake_init \<lparr> group_id = str_bytes gs, server_public_key = str_bytes ss,
                                    client_private_key = str_bytes cs \<rparr>) Start of
        None \<Rightarrow> None
      | Some (Inl e) \<Rightarrow> Some (Inl e)
      | Some (Inr (sock', handshake', out)) \<Rightarrow>
          Some (getattr (shared_secret (hs_context handshake'))))"
  using assms by (simp add: negotiate_secret_def)

lemma toy_lib_simps [simp]:
  "urandom toy_lib n = replicate n 0"
  "public_key_from_encoded_point_hex toy_lib b = Inr (Secp256r1_public_key b)"
  "private_key_from_int_hex toy_lib b = Inr (Secp256r1_private_key (int (length b)))"
  "key_pair toy_lib = X25519_key_pair [1] [1]"
  "ecdsa_verify toy_lib p sg message \<longleftrightarrow> sg = message"
  "ecdsa_sign toy_lib k message = message"
  "public_key_from_bytes_be toy_lib b = Inr (X25519_public_key (rev b))"
  by (simp_all add: toy_lib_def public_key_from_encoded_point_hex_def
        public_key_from_encoded_point_def private_key_from_int_hex_def private_key_from_int_def
        key_pair_def public_key_from_bytes_be_def public_key_from_bytes_le_def Let_def)

lemma negotiate_secret_after_header:
  assumes sp: "split CHR '','' grp = [gs, ss, cs]"
    and pk: "public_key_from_encoded_point_hex lib (str_bytes ss) = Inr pk"
    and sk: "private_key_from_int_hex lib (str_bytes cs) = Inr sk"
    and hello: "ch_serialize (ClientHelloMessage_init (str_bytes gs) (urandom lib 32)) = Inr d"
    and sent: "sendall ops sock d = Inr sock1"
    and rd: "recvexactly ops sock1 9 = Inr (hdr, sock2)" "hdr \<noteq> []"
  shows "negotiate_secret lib ops sock grp =
     (case SyncSocket_receive lib ops sock2
             (awaiting_header
                (init_context_of \<lparr> group_id = str_bytes gs, server_public_key = str_bytes ss,
                                    client_private_key = str_bytes cs \<rparr>
                   pk sk (urandom lib 32) (key_pair lib)))
             (DataReadResult hdr) of
        None \<Rightarrow> None
      | Some (Inl e) \<Rightarrow> Some (Inl e)
      | Some (Inr (sock', handshake', out)) \<Rightarrow>
          Some (getattr (shared_secret (hs_context handshake'))))"
proof -
  let ?g = "\<lparr> group_id = str_bytes gs, server_public_key = str_bytes ss,
                client_private_key = str_bytes cs \<rparr>"
  have "SyncSocket_receive lib ops sock (XDAAHandshake_init ?g) Start =
        SyncSocket_receive lib ops sock1
           (awaiting_hello_ack (init_context_of ?g pk sk (urandom lib 32) (key_pair lib)))
           DataWriteResult"
    by (rule SyncSocket_start [where d = d]) (simp_all add: pk sk hello sent)
  also have "\<dots> = SyncSocket_receive lib ops sock2
           (awaiting_header (init_context_of ?g pk sk (urandom lib 32) (key_pair lib)))
           (DataReadResult hdr)"
    by (rule SyncSocket_hello_written [OF rd])
  finally show ?thesis
    by (simp add: negotiate_secret_split [OF sp])
qed

lemma split_123: "split CHR '','' ''1,2,3'' = [''1'', ''2'', ''3'']"
  by simp

lemma str_bytes_123:
  "str_bytes ''1'' = [49]" "str_bytes ''2'' = [50]" "str_bytes ''3'' = [51]"
  by (simp_all add: str_bytes_def)

lemma hello_toy:
  "ch_serialize (ClientHelloMessage_init [49] (replicate 32 0)) =
     Inr ([0, 0, 1, 0, 32, 49] @ replicate 32 0)"
  by (simp add: ch_serialize_eq be16_def)

lemma MockSock_sendall [simp]:
  "sendall MockSock_ops sock buf = Inr (sock \<lparr> written := written sock @ buf \<rparr>)"
  by (simp add: MockSock_ops_def)

lemma ske_toy:
  "ske_parse_header [0, 0, 1, 0, 2, 0, 1, 0, 33] =
     Inr ((ServerKeyExchangeMessage_init [] [] [] [])
            \<lparr> ske_server_group_id_len := 1, ske_server_nonce_len := 2,
              ske_server_ecdhe_public_key_len := 1, ske_signature_len := 33 \<rparr>, 37)"
  "ske_parse_body ((ServerKeyExchangeMessage_init [] [] [] [])
            \<lparr> ske_server_group_id_len := 1, ske_server_nonce_len := 2,
              ske_server_ecdhe_public_key_len := 1, ske_signature_len := 33 \<rparr>)
          ([49, 8, 8, 5, 5] @ replicate 32 z)
     = Inr (ServerKeyExchangeMessage_init [49] [8, 8] [5] (5 # replicate 32 z))"
  by (simp_all add: ske_parse_header_def ske_parse_body_def struct_unpack_def
        ServerKeyExchangeMessage_init_def)

section \<open>The claims about the handshake\<close>

text \<open>
  Claim C3. A ServerKeyExchange message whose version byte is \<open>k\<close>, for \<open>k\<close> from 1
  to 255, is to make the handshake fail with \<^verbatim>\<open>UnsupportedVersionError\<close>. The server's
  message serializes to a header that starts with the byte \<open>k\<close>; when that header is
  delivered to the engine, \<^verbatim>\<open>ServerKeyExchangeMessage.parse_header\<close> raises a plain
  \<^verbatim>\<open>InvalidMessageError\<close>, which is not an \<^verbatim>\<open>UnsupportedVersionError\<close>. The version
  check of \<^verbatim>\<open>validate_message\<close>, which would raise the expected error, is never
  reached.
\<close>

theorem C3_version_mismatch:
  assumes "1 \<le> k" and "k \<le> 255"
    and "length a \<le> 65535" and "length b \<le> 65535" and "length c \<le> 65535"
    and "length sg \<le> 65535"
    and "length (group_id g) \<le> 65535" and "length nonce \<le> 65535"
  shows "ske_serialize ((ServerKeyExchangeMessage_init a b c sg) \<lparr> ske_version := k \<rparr>) =
           Inr ((word_of_int k # be16 (length a) @ be16 (length b) @ be16 (length c)
                   @ be16 (length sg)) @ a @ b @ c @ sg)
    \<and> drive (XDAAHandshake_init g)
          (init_events pk sk nonce kp
             @ [DataReadResult (word_of_int k # be16 (length a) @ be16 (length b)
                                  @ be16 (length c) @ be16 (length sg))])
        = Inl InvalidMessageError
    \<and> \<not> isinstance InvalidMessageError UnsupportedVersionError"
proof -
  let ?hdr = "word_of_int k # be16 (length a) @ be16 (length b) @ be16 (length c) @ be16 (length sg)"
  have ser: "ske_serialize ((ServerKeyExchangeMessage_init a b c sg) \<lparr> ske_version := k \<rparr>) =
           Inr (?hdr @ a @ b @ c @ sg)"
    using assms by (intro ske_serialize_version) simp_all
  have parse: "ske_parse_header ?hdr = Inl InvalidMessageError"
    by (rule ske_parse_header_version) (simp add: version_byte_nonzero assms)
  have "drive (XDAAHandshake_init g) (init_events pk sk nonce kp @ [DataReadResult ?hdr])
          = Inl InvalidMessageError"
    using assms
    by (simp add: drive_append drive_init step_header parse)
  moreover have "\<not> isinstance InvalidMessageError UnsupportedVersionError"
    by (simp add: isinstance_def)
  ultimately show ?thesis using ser by simp
qed

theorem C3_version_mismatch_witness:
  "drive (XDAAHandshake_init \<lparr> group_id = [49], server_public_key = [2], client_private_key = [3] \<rparr>)
     (init_events (Secp256r1_public_key [2]) (Secp256r1_private_key 1) [7, 7]
        (X25519_key_pair [1] [1])
      @ [DataReadResult [1, 0, 1, 0, 2, 0, 1, 0, 0]])
   = Inl InvalidMessageError
   \<and> ske_serialize ((ServerKeyExchangeMessage_init [49] [8, 8] [5] []) \<lparr> ske_version := 1 \<rparr>)
       = Inr [1, 0, 1, 0, 2, 0, 1, 0, 0, 49, 8, 8, 5]"
  using C3_version_mismatch [of 1 "[49]" "[8, 8]" "[5]" "[]"
      "\<lparr> group_id = [49], server_public_key = [2], client_private_key = [3] \<rparr>" "[7, 7]"
      "Secp256r1_public_key [2]" "Secp256r1_private_key 1" "X25519_key_pair [1] [1]"]
  by (simp add: be16_def)

text \<open>
  Claim C4. Once the header of the ServerKeyExchange message has been parsed, delivering a
  body that parses and names the client's group makes the engine request
  \<^verbatim>\<open>GroupSHA256VerifySignature\<close> of the message's signature over
  \<^verbatim>\<open>serialize_for_signature(server_ecdhe_public_key, client_nonce)\<close>, which is the
  concatenation of the two; the answer \<^verbatim>\<open>False\<close> raises
  \<^verbatim>\<open>InvalidSignatureError\<close>. The same holds through the synchronous crypto backend when
  the library's verification fails. In particular, for a signature scheme that accepts a
  signature on exactly the signed bytes, a server that signs its ephemeral key with a
  32-byte nonce other than the client's makes the handshake fail with
  \<^verbatim>\<open>InvalidSignatureError\<close>.
\<close>

theorem C4_signature_check:
  assumes run: "drive (XDAAHandshake_init g) (init_events pk sk nonce kp @ [DataReadResult hdr])
                  = Inr (h1, outs1)"
    and hdr: "ske_parse_header hdr = Inr (m, L)"
    and body: "ske_parse_body m body = Inr m'"
    and grp: "ske_server_group_id m' = group_id g"
  shows "ske_serialize_for_signature (ske_server_ecdhe_public_key m') nonce
           = Inr (ske_server_ecdhe_public_key m' @ nonce)
    \<and> (\<exists>h2. receive h1 (DataReadResult body)
               = Inr (h2, Some (GroupSHA256VerifySignature pk
                                  (ske_server_ecdhe_public_key m' @ nonce) (ske_signature m')))
             \<and> receive h2 (GroupSHA256VerifySignatureResult False) = Inl InvalidSignatureError)
    \<and> (\<not> verify_sha256 lib pk (ske_signature m') (ske_server_ecdhe_public_key m' @ nonce)
         \<longrightarrow> SyncCrypto_receive lib h1 (DataReadResult body) = Some (Inl InvalidSignatureError))
    \<and> ((\<forall>message message'.
            verify_sha256 lib pk (sign_sha256 lib server_key message) message'
              \<longleftrightarrow> message' = message)
         \<and> ske_signature m' = sign_sha256 lib server_key (ske_server_ecdhe_public_key m' @ random_nonce)
         \<and> length random_nonce = 32 \<and> random_nonce \<noteq> nonce
         \<longrightarrow> SyncCrypto_receive lib h1 (DataReadResult body) = Some (Inl InvalidSignatureError))"
proof -
  let ?ctx = "init_context_of g pk sk nonce kp"
  let ?buf = "ske_server_ecdhe_public_key m' @ nonce"
  have h1: "h1 = awaiting_body m ?ctx"
    by (rule drive_header_result [OF run hdr])
  have v: "ske_version m = 0"
    by (rule ske_parse_header_fields(1) [OF hdr])
  have v': "ske_version m' = protocol_version ?ctx"
    using ske_parse_body_version [OF body] v by simp
  have sfs: "ske_serialize_for_signature (ske_server_ecdhe_public_key m') nonce = Inr ?buf"
    by (simp add: ske_serialize_for_signature_def lookup_name_def)
  let ?h2 = "hs receive_server_key_exchange
            ((child_in ReceiveServerKeyExchange validate_message (Some 0)) \<lparr> ske_message := Some m' \<rparr>)
            ?ctx"
  have r1: "receive h1 (DataReadResult body)
              = Inr (?h2, Some (GroupSHA256VerifySignature pk ?buf (ske_signature m')))"
    unfolding h1 awaiting_body_def
    by (rule step_body [OF body v' _ grp]) simp_all
  have r2: "receive ?h2 (GroupSHA256VerifySignatureResult False) = Inl InvalidSignatureError"
    by (simp add: step_verified)
  have sync: "\<not> verify_sha256 lib pk (ske_signature m') ?buf
                \<Longrightarrow> SyncCrypto_receive lib h1 (DataReadResult body) = Some (Inl InvalidSignatureError)"
    unfolding h1 by (simp add: SyncCrypto_body [OF v] body grp)
  have tamper: "SyncCrypto_receive lib h1 (DataReadResult body) = Some (Inl InvalidSignatureError)"
    if ideal: "\<forall>message message'.
            verify_sha256 lib pk (sign_sha256 lib server_key message) message'
              \<longleftrightarrow> message' = message"
      and sg: "ske_signature m' = sign_sha256 lib server_key (ske_server_ecdhe_public_key m' @ random_nonce)"
      and ne: "random_nonce \<noteq> nonce"
  proof -
    have "\<not> verify_sha256 lib pk (ske_signature m') ?buf"
      unfolding sg using ideal ne by simp
    then show ?thesis by (rule sync)
  qed
  show ?thesis
    using sfs r1 r2 sync tamper by blast
qed

theorem C4_signature_check_witness:
  "drive (XDAAHandshake_init \<lparr> group_id = [49], server_public_key = [50], client_private_key = [51] \<rparr>)
     (init_events (Secp256r1_public_key [50]) (Secp256r1_private_key 1) (replicate 32 0)
        (X25519_key_pair [1] [1])
      @ [DataReadResult [0, 0, 1, 0, 2, 0, 1, 0, 33]])
   = Inr (awaiting_body
            ((ServerKeyExchangeMessage_init [] [] [] [])
               \<lparr> ske_server_group_id_len := 1, ske_server_nonce_len := 2,
                 ske_server_ecdhe_public_key_len := 1, ske_signature_len := 33 \<rparr>)
            (init_context_of
               \<lparr> group_id = [49], server_public_key = [50], client_private_key = [51] \<rparr>
               (Secp256r1_public_key [50]) (Secp256r1_private_key 1) (replicate 32 0)
               (X25519_key_pair [1] [1])),
          [Some (GroupDecodePublicKey [50]), Some (GroupDecodePrivateKey [51]),
           Some (CreateNonce 32), Some EphemeralCreateKey,
           Some (DataWrite ([0, 0, 1, 0, 32, 49] @ replicate 32 0)), Some (DataRead 9),
           Some (DataRead 37)])
   \<and> SyncCrypto_receive toy_lib
        (awaiting_body
            ((ServerKeyExchangeMessage_init [] [] [] [])
               \<lparr> ske_server_group_id_len := 1, ske_server_nonce_len := 2,
                 ske_server_ecdhe_public_key_len := 1, ske_signature_len := 33 \<rparr>)
            (init_context_of
               \<lparr> group_id = [49], server_public_key = [50], client_private_key = [51] \<rparr>
               (Secp256r1_public_key [50]) (Secp256r1_private_key 1) (replicate 32 0)
               (X25519_key_pair [1] [1])))
        (DataReadResult ([49, 8, 8, 5, 5] @ replicate 32 9))
      = Some (Inl InvalidSignatureError)"
proof -
  let ?g = "\<lparr> group_id = [49], server_public_key = [50], client_private_key = [51] \<rparr> :: DAAGroup"
  let ?pk = "Secp256r1_public_key [50]"
  let ?sk = "Secp256r1_private_key 1"
  let ?kp = "X25519_key_pair [1] [1]"
  let ?m = "(ServerKeyExchangeMessage_init [] [] [] [])
               \<lparr> ske_server_group_id_len := 1, ske_server_nonce_len := 2,
                 ske_server_ecdhe_public_key_len := 1, ske_signature_len := 33 \<rparr>"
  let ?m' = "ServerKeyExchangeMessage_init [49] [8, 8] [5] (5 # replicate 32 9)"
  let ?h1 = "awaiting_body ?m (init_context_of ?g ?pk ?sk (replicate 32 0) ?kp)"
  let ?outs = "[Some (GroupDecodePublicKey [50]), Some (GroupDecodePrivateKey [51]),
           Some (CreateNonce 32), Some EphemeralCreateKey,
           Some (DataWrite ([0, 0, 1, 0, 32, 49] @ replicate 32 0)), Some (DataRead 9),
           Some (DataRead 37)]"
  have run: "drive (XDAAHandshake_init ?g)
               (init_events ?pk ?sk (replicate 32 0) ?kp @ [DataReadResult [0, 0, 1, 0, 2, 0, 1, 0, 33]])
             = Inr (?h1, ?outs)"
    by (simp add: drive_append drive_init step_header ske_toy(1) awaiting_body_def be16_def
          del: One_nat_def)
  have grp: "ske_server_group_id ?m' = group_id ?g"
    by (simp add: ServerKeyExchangeMessage_init_def)
  have ideal: "\<forall>message message'.
          verify_sha256 toy_lib ?pk (sign_sha256 toy_lib ?sk message) message'
            \<longleftrightarrow> message' = message"
    by auto
  have sg: "ske_signature ?m' = sign_sha256 toy_lib ?sk (ske_server_ecdhe_public_key ?m' @ replicate 32 9)"
    by (simp add: ServerKeyExchangeMessage_init_def)
  have ne: "length (replicate 32 (9 :: byte)) = 32 \<and> replicate 32 (9 :: byte) \<noteq> replicate 32 0"
    by simp
  from C4_signature_check [OF run ske_toy(1) ske_toy(2) [of 9] grp,
      of toy_lib ?sk "replicate 32 9"] ideal sg ne
  have "SyncCrypto_receive toy_lib ?h1 (DataReadResult ([49, 8, 8, 5, 5] @ replicate 32 9))
          = Some (Inl InvalidSignatureError)"
    by blast
  with run show ?thesis by simp
qed

text \<open>
  Claim C5. The byte-reversed X25519 output is to be stored as \<^verbatim>\<open>shared_secret\<close>, the
  value that \<^verbatim>\<open>negotiate_secret\<close> returns. The reversal is done by
  \<^verbatim>\<open>SyncCrypto.ephemeral_compute_shared_secret\<close>, and the state
  \<^verbatim>\<open>compute_shared_secret\<close> stores what it is given and terminates. That state is never
  reached: \<^verbatim>\<open>SendClientKeyExchange.prepare_message\<close> calls
  \<^verbatim>\<open>ClientKeyExchangeMessage.serialize_for_signature\<close>, which raises
  \<^verbatim>\<open>NameError\<close> (see claim C1). So \<^verbatim>\<open>negotiate_secret\<close> raises on every input, and
  with a server whose message passes every check it raises \<^verbatim>\<open>NameError\<close>.
\<close>

theorem C5_negotiate_secret_raises:
  "(\<exists>e. negotiate_secret lib ops sock grp = Some (Inl e))
   \<and> sync_crypto_dispatch lib (EphemeralComputeSharedSecret (Some kp) (Some spk))
       = Some (Inr (EphemeralComputeSharedSecretResult (rev (compute_shared lib kp spk))))
   \<and> receive \<lparr> hs_current = Some compute_shared_secret, maybeChild = None, hs_context = ctx \<rparr>
         (EphemeralComputeSharedSecretResult secret)
       = Inr (\<lparr> hs_current = Some final, maybeChild = None,
                hs_context = ctx \<lparr> shared_secret := Some secret \<rparr> \<rparr>,
              Some Terminated)
   \<and> receive (hs send_client_key_exchange (child_in SendClientKeyExchange prepare_message (Some 0))
                 (ctx \<lparr> server_nonce := Some n \<rparr>))
         (EphemeralEncodePublicKeyResult encoded)
       = Inl NameError
   \<and> (split CHR '','' grp = [gs, ss, cs]
        \<and> public_key_from_encoded_point_hex lib (str_bytes ss) = Inr pk
        \<and> private_key_from_int_hex lib (str_bytes cs) = Inr sk
        \<and> ch_serialize (ClientHelloMessage_init (str_bytes gs) (urandom lib 32)) = Inr d
        \<and> sendall ops sock d = Inr sock1
        \<and> recvexactly ops sock1 ske_header_len = Inr (hdr, sock2) \<and> hdr \<noteq> []
        \<and> ske_parse_header hdr = Inr (m, L)
        \<and> recvexactly ops sock2 L = Inr (body, sock3) \<and> body \<noteq> []
        \<and> ske_parse_body m body = Inr m'
        \<and> ske_server_group_id m' = str_bytes gs
        \<and> verify_sha256 lib pk (ske_signature m') (ske_server_ecdhe_public_key m' @ urandom lib 32)
        \<and> public_key_from_bytes_be lib (ske_server_ecdhe_public_key m') = Inr server_key
        \<longrightarrow> negotiate_secret lib ops sock grp = Some (Inl NameError))"
proof -
  have good: "negotiate_secret lib ops sock grp = Some (Inl NameError)"
    if sp: "split CHR '','' grp = [gs, ss, cs]"
      and pk: "public_key_from_encoded_point_hex lib (str_bytes ss) = Inr pk"
      and sk: "private_key_from_int_hex lib (str_bytes cs) = Inr sk"
      and hello: "ch_serialize (ClientHelloMessage_init (str_bytes gs) (urandom lib 32)) = Inr d"
      and sent: "sendall ops sock d = Inr sock1"
      and rd: "recvexactly ops sock1 9 = Inr (hdr, sock2)" "hdr \<noteq> []"
      and hdr: "ske_parse_header hdr = Inr (m, L)"
      and rd2: "recvexactly ops sock2 L = Inr (body, sock3)" "body \<noteq> []"
      and body: "ske_parse_body m body = Inr m'"
      and grp: "ske_server_group_id m' = str_bytes gs"
      and ver: "verify_sha256 lib pk (ske_signature m')
                  (ske_server_ecdhe_public_key m' @ urandom lib 32)"
      and dec: "public_key_from_bytes_be lib (ske_server_ecdhe_public_key m') = Inr server_key"
  proof -
    let ?ctx = "init_context_of \<lparr> group_id = str_bytes gs, server_public_key = str_bytes ss,
                                    client_private_key = str_bytes cs \<rparr>
                   pk sk (urandom lib 32) (key_pair lib)"
    have v: "ske_version m = 0" by (rule ske_parse_header_fields(1) [OF hdr])
    have "SyncSocket_receive lib ops sock2 (awaiting_header ?ctx) (DataReadResult hdr) =
          SyncSocket_receive lib ops sock3 (awaiting_body m ?ctx) (DataReadResult body)"
      by (rule SyncSocket_header [OF hdr rd2])
    also have "\<dots> = Some (Inl NameError)"
      by (simp add: SyncSocket_body [OF v] body grp ver dec)
    finally show ?thesis
      by (simp add: negotiate_secret_after_header [OF sp pk sk hello sent rd])
  qed
  have enc: "receive (hs send_client_key_exchange
                        (child_in SendClientKeyExchange prepare_message (Some 0))
                        (ctx \<lparr> server_nonce := Some n \<rparr>))
               (EphemeralEncodePublicKeyResult encoded) = Inl NameError"
    by (simp add: step_encoded)
  show ?thesis
    using negotiate_secret_raises [of lib ops sock grp] good enc
    by (simp add: step_secret ske_header_len_def)
qed

theorem C5_negotiate_secret_raises_witness:
  "negotiate_secret toy_lib MockSock_ops
     \<lparr> to_read = [0, 0, 1, 0, 2, 0, 1, 0, 33] @ [49, 8, 8, 5, 5] @ replicate 32 0, written = [] \<rparr>
     ''1,2,3'' = Some (Inl NameError)"
proof -
  let ?ske = "[0, 0, 1, 0, 2, 0, 1, 0, 33] @ [49, 8, 8, 5, 5] @ replicate 32 (0 :: byte)"
  let ?hello = "[0, 0, 1, 0, 32, 49] @ replicate 32 (0 :: byte)"
  let ?sock = "\<lparr> to_read = ?ske, written = [] \<rparr>"
  let ?sock1 = "\<lparr> to_read = ?ske, written = ?hello \<rparr>"
  let ?sock2 = "\<lparr> to_read = [49, 8, 8, 5, 5] @ replicate 32 (0 :: byte), written = ?hello \<rparr>"
  let ?sock3 = "\<lparr> to_read = [], written = ?hello \<rparr>"
  have rd1: "recvexactly MockSock_ops ?sock1 ske_header_len = Inr ([0, 0, 1, 0, 2, 0, 1, 0, 33], ?sock2)"
    by (simp add: recvexactly_MockSock ske_header_len_def)
  have rd2: "recvexactly MockSock_ops ?sock2 37 = Inr ([49, 8, 8, 5, 5] @ replicate 32 0, ?sock3)"
    by (simp add: recvexactly_MockSock)
  show ?thesis
    using C5_negotiate_secret_raises [of toy_lib MockSock_ops ?sock "''1,2,3''"
        "X25519_key_pair [1] [1]" "X25519_public_key [5]" XDAAContext_init "[]" "[]" "[]"
        "''1''" "''2''" "''3''" "Secp256r1_public_key [50]" "Secp256r1_private_key 1"
        ?hello ?sock1 "[0, 0, 1, 0, 2, 0, 1, 0, 33]" ?sock2
        "(ServerKeyExchangeMessage_init [] [] [] [])
            \<lparr> ske_server_group_id_len := 1, ske_server_nonce_len := 2,
              ske_server_ecdhe_public_key_len := 1, ske_signature_len := 33 \<rparr>"
        37 "[49, 8, 8, 5, 5] @ replicate 32 0" ?sock3
        "ServerKeyExchangeMessage_init [49] [8, 8] [5] (5 # replicate 32 0)"
        "X25519_public_key [5]"]
      rd1 rd2 ske_toy(1) ske_toy(2) [of 0]
    by (simp add: str_bytes_123 hello_toy ServerKeyExchangeMessage_init_def)
qed

text \<open>
  Claim C7, as stated: the string \<^verbatim>\<open>a,b,c,d\<close> would give the fields \<^verbatim>\<open>a\<close>,
  \<^verbatim>\<open>b\<close> and \<^verbatim>\<open>c,d\<close>. \<^verbatim>\<open>Keys.from_csv\<close> splits it into four parts and the
  constructor, which takes three, raises \<^verbatim>\<open>TypeError\<close>.
\<close>

theorem C7_first_two_commas_counterexample:
  "Keys_from_csv ''a,b,c,d'' = Inl TypeError
   \<and> Keys_from_csv ''a,b,c,d''
       \<noteq> Inr \<lparr> group_id = str_bytes ''a'', server_public_key = str_bytes ''b'',
                client_private_key = str_bytes ''c,d'' \<rparr>
   \<and> split CHR '','' ''a,b,c,d'' = [''a'', ''b'', ''c'', ''d'']"
  by (simp add: Keys_from_csv_def)

text \<open>
  Claim C7, amended: \<^verbatim>\<open>Keys.from_csv\<close> splits the string at every comma, into one
  more part than there are commas. With a number of commas other than two it raises
  \<^verbatim>\<open>TypeError\<close>, and so does \<^verbatim>\<open>negotiate_secret\<close>. Three comma-free fields joined
  by two commas are split into those three fields, which become, when all their characters
  are ASCII, the \<^verbatim>\<open>group_id\<close>, \<^verbatim>\<open>server_public_key\<close> and
  \<^verbatim>\<open>client_private_key\<close> of the result.
\<close>

theorem C7_split_at_every_comma:
  "length (split CHR '','' csv) = Suc (count_list csv CHR '','')
   \<and> (count_list csv CHR '','' \<noteq> 2 \<longrightarrow>
        Keys_from_csv csv = Inl TypeError
        \<and> negotiate_secret lib ops sock csv = Some (Inl TypeError))
   \<and> (CHR '','' \<notin> set g \<and> CHR '','' \<notin> set s \<and> CHR '','' \<notin> set c \<longrightarrow>
        split CHR '','' (g @ '','' @ s @ '','' @ c) = [g, s, c]
        \<and> Keys_from_csv (g @ '','' @ s @ '','' @ c) = Keys_init g s c)
   \<and> (list_all (\<lambda>ch. (of_char ch :: nat) < 128) (g @ s @ c) \<longrightarrow>
        Keys_init g s c =
          Inr \<lparr> group_id = str_bytes g, server_public_key = str_bytes s,
                client_private_key = str_bytes c \<rparr>)"
proof (intro conjI impI)
  show "length (split CHR '','' csv) = Suc (count_list csv CHR '','')"
    by (rule length_split)
next
  assume "count_list csv CHR '','' \<noteq> 2"
  then show "Keys_from_csv csv = Inl TypeError"
    and "negotiate_secret lib ops sock csv = Some (Inl TypeError)"
    by (rule not_three_fields)+
next
  assume a: "CHR '','' \<notin> set g \<and> CHR '','' \<notin> set s \<and> CHR '','' \<notin> set c"
  then show sp: "split CHR '','' (g @ '','' @ s @ '','' @ c) = [g, s, c]"
    by (intro split_three) simp_all
  show "Keys_from_csv (g @ '','' @ s @ '','' @ c) = Keys_init g s c"
    unfolding Keys_from_csv_def sp by simp
next
  assume "list_all (\<lambda>ch. (of_char ch :: nat) < 128) (g @ s @ c)"
  then show "Keys_init g s c =
          Inr \<lparr> group_id = str_bytes g, server_public_key = str_bytes s,
                client_private_key = str_bytes c \<rparr>"
    by (rule Keys_init_ascii)
qed

theorem C7_split_at_every_comma_witness:
  "Keys_from_csv ''12,04DD,3FEA''
     = Inr \<lparr> group_id = str_bytes ''12'', server_public_key = str_bytes ''04DD'',
             client_private_key = str_bytes ''3FEA'' \<rparr>
   \<and> Keys_from_csv ''12,04DD,3FEA,00'' = Inl TypeError
   \<and> Keys_from_csv ''12,04DD'' = Inl TypeError"
proof -
  note a = C7_split_at_every_comma [where csv = "''12,04DD,3FEA,00''" and g = "''12''"
      and s = "''04DD''" and c = "''3FEA''" and lib = toy_lib and ops = MockSock_ops
      and sock = "\<lparr> to_read = [], written = [] \<rparr>"]
  note b = C7_split_at_every_comma [where csv = "''12,04DD''" and g = "''12''"
      and s = "''04DD''" and c = "''3FEA''" and lib = toy_lib and ops = MockSock_ops
      and sock = "\<lparr> to_read = [], written = [] \<rparr>"]
  have 1: "Keys_from_csv ''12,04DD,3FEA,00'' = Inl TypeError"
    using a by simp
  have 2: "Keys_from_csv ''12,04DD'' = Inl TypeError"
    using b by simp
  have 3: "Keys_from_csv ''12,04DD,3FEA'' = Keys_init ''12'' ''04DD'' ''3FEA''"
    using a by simp
  have 4: "Keys_init ''12'' ''04DD'' ''3FEA''
            = Inr \<lparr> group_id = str_bytes ''12'', server_public_key = str_bytes ''04DD'',
             client_private_key = str_bytes ''3FEA'' \<rparr>"
    using a by simp
  from 1 2 3 4 show ?thesis by simp
qed

text \<open>
  Claim C8. Up to the point where the ServerKeyExchange message is awaited, the engine has
  issued one \<^verbatim>\<open>DataRead\<close> request, its last request, of size 9, the fixed header
  length. When the header arrives it issues \<^verbatim>\<open>DataRead(L)\<close>, \<open>L\<close> being the sum of
  the four field lengths declared in the header, whatever that sum is; and after the body
  has arrived, the requests up to the start of the client's key-exchange message contain no
  further \<^verbatim>\<open>DataRead\<close>.
\<close>

theorem C8_two_data_reads:
  assumes run: "drive (XDAAHandshake_init g) (init_events pk sk nonce kp) = Inr (h0, outs0)"
    and hdr: "ske_parse_header hdr = Inr (m, L)"
    and body: "ske_parse_body m body = Inr m'"
    and grp: "ske_server_group_id m' = group_id g"
  shows "filter (\<lambda>out. map_option kind out = Some DATA_READ) outs0 = [Some (DataRead ske_header_len)]
    \<and> last outs0 = Some (DataRead ske_header_len)
    \<and> ske_header_len = 9
    \<and> L = ske_server_group_id_len m + ske_server_nonce_len m
              + ske_server_ecdhe_public_key_len m + ske_signature_len m
    \<and> (\<exists>h. drive h0 [DataReadResult hdr, DataReadResult body,
                      GroupSHA256VerifySignatureResult True, EphemeralDecodePublicKeyResult spk]
         = Inr (h, [Some (DataRead L),
                    Some (GroupSHA256VerifySignature pk (ske_server_ecdhe_public_key m' @ nonce)
                            (ske_signature m')),
                    Some (EphemeralDecodePublicKey (ske_server_ecdhe_public_key m')),
                    Some (EphemeralEncodePublicKey (Some kp))]))"
proof -
  note h0 = drive_init_result [OF run]
  have v: "ske_version m' = 0"
    using ske_parse_body_version [OF body] ske_parse_header_fields(1) [OF hdr] by simp
  have "drive h0 [DataReadResult hdr, DataReadResult body,
                      GroupSHA256VerifySignatureResult True, EphemeralDecodePublicKeyResult spk]
         = Inr (hs send_client_key_exchange (child_in SendClientKeyExchange prepare_message (Some 0))
                  ((init_context_of g pk sk nonce kp)
                     \<lparr> server_nonce := Some (ske_server_nonce m'),
                       server_ephemeral_public_key := Some spk \<rparr>),
                [Some (DataRead L),
                    Some (GroupSHA256VerifySignature pk (ske_server_ecdhe_public_key m' @ nonce)
                            (ske_signature m')),
                    Some (EphemeralDecodePublicKey (ske_server_ecdhe_public_key m')),
                    Some (EphemeralEncodePublicKey (Some kp))])"
    unfolding h0(1)
    using hdr
    by (simp add: step_header step_body [OF body _ _ grp] v step_verified step_decoded
          del: One_nat_def)
  then show ?thesis
    using ske_parse_header_fields(2) [OF hdr]
    by (auto simp: h0(2) ske_header_len_def)
qed

theorem C8_two_data_reads_witness:
  "\<exists>h. drive (awaiting_header
                (init_context_of \<lparr> group_id = [49], server_public_key = [2], client_private_key = [3] \<rparr>
                   (Secp256r1_public_key [2]) (Secp256r1_private_key 1) [7, 7]
                   (X25519_key_pair [1] [1])))
          [DataReadResult [0, 0, 1, 0, 2, 0, 1, 0, 1], DataReadResult [49, 8, 8, 5, 6],
           GroupSHA256VerifySignatureResult True,
           EphemeralDecodePublicKeyResult (X25519_public_key [5])]
       = Inr (h, [Some (DataRead 5),
                  Some (GroupSHA256VerifySignature (Secp256r1_public_key [2]) [5, 7, 7] [6]),
                  Some (EphemeralDecodePublicKey [5]),
                  Some (EphemeralEncodePublicKey (Some (X25519_key_pair [1] [1])))])"
proof -
  let ?g = "\<lparr> group_id = [49], server_public_key = [2], client_private_key = [3] \<rparr>"
  have run: "drive (XDAAHandshake_init ?g)
               (init_events (Secp256r1_public_key [2]) (Secp256r1_private_key 1) [7, 7]
                  (X25519_key_pair [1] [1]))
             = Inr (awaiting_header
                      (init_context_of ?g (Secp256r1_public_key [2]) (Secp256r1_private_key 1) [7, 7]
                         (X25519_key_pair [1] [1])),
                    [Some (GroupDecodePublicKey [2]), Some (GroupDecodePrivateKey [3]),
                     Some (CreateNonce 32), Some EphemeralCreateKey,
                     Some (DataWrite [0, 0, 1, 0, 2, 49, 7, 7]), Some (DataRead 9)])"
    by (simp add: drive_init awaiting_header_def be16_def)
  have grp: "ske_server_group_id (ServerKeyExchangeMessage_init [49] [8, 8] [5] [6]) = group_id ?g"
    by (simp add: ServerKeyExchangeMessage_init_def)
  from C8_two_data_reads [OF run wit_parse(1) wit_parse(2) grp, of "X25519_public_key [5]"]
  show ?thesis
    by (simp add: ServerKeyExchangeMessage_init_def)
qed

text \<open>
  Claim C10. In the synchronous transport backend \<^verbatim>\<open>recvexactly\<close> returns the empty
  byte-string for size 0 without touching the socket, and \<^verbatim>\<open>data_read\<close> of size 0
  raises \<^verbatim>\<open>socket.error\<close>, on every socket. A ServerKeyExchange header whose four
  declared lengths sum to 0 therefore makes the synchronous handshake, and
  \<^verbatim>\<open>negotiate_secret\<close>, raise \<^verbatim>\<open>socket.error\<close>.
\<close>

theorem C10_zero_size_read:
  "recvexactly ops sock 0 = Inr ([], sock)
   \<and> data_read ops sock 0 = Inl SocketError
   \<and> (ske_parse_header hdr = Inr (m, 0) \<longrightarrow>
        SyncSocket_receive lib ops sock (awaiting_header ctx) (DataReadResult hdr)
          = Some (Inl SocketError))
   \<and> (split CHR '','' grp = [gs, ss, cs]
        \<and> public_key_from_encoded_point_hex lib (str_bytes ss) = Inr pk
        \<and> private_key_from_int_hex lib (str_bytes cs) = Inr sk
        \<and> ch_serialize (ClientHelloMessage_init (str_bytes gs) (urandom lib 32)) = Inr d
        \<and> sendall ops sock d = Inr sock1
        \<and> recvexactly ops sock1 ske_header_len = Inr (hdr, sock2) \<and> hdr \<noteq> []
        \<and> ske_parse_header hdr = Inr (m, 0)
        \<longrightarrow> negotiate_secret lib ops sock grp = Some (Inl SocketError))"
proof -
  have e2e: "negotiate_secret lib ops sock grp = Some (Inl SocketError)"
    if "split CHR '','' grp = [gs, ss, cs]"
      and "public_key_from_encoded_point_hex lib (str_bytes ss) = Inr pk"
      and "private_key_from_int_hex lib (str_bytes cs) = Inr sk"
      and "ch_serialize (ClientHelloMessage_init (str_bytes gs) (urandom lib 32)) = Inr d"
      and "sendall ops sock d = Inr sock1"
      and "recvexactly ops sock1 9 = Inr (hdr, sock2)" and "hdr \<noteq> []"
      and z: "ske_parse_header hdr = Inr (m, 0)"
    using that(1-7)
    by (simp add: negotiate_secret_after_header SyncSocket_header_zero [OF z])
  show ?thesis
    using e2e by (simp add: recvexactly_zero data_read_zero SyncSocket_header_zero ske_header_len_def)
qed

theorem C10_zero_size_read_witness:
  "ske_parse_header [0, 0, 0, 0, 0, 0, 0, 0, 0] = Inr (ServerKeyExchangeMessage_init [] [] [] [], 0)
   \<and> negotiate_secret toy_lib MockSock_ops \<lparr> to_read = [0, 0, 0, 0, 0, 0, 0, 0, 0], written = [] \<rparr>
        ''1,2,3'' = Some (Inl SocketError)"
proof -
  let ?hdr = "[0, 0, 0, 0, 0, 0, 0, 0, 0] :: bytes"
  let ?sock = "\<lparr> to_read = ?hdr, written = [] \<rparr>"
  let ?sock1 = "\<lparr> to_read = ?hdr, written = [0, 0, 1, 0, 32, 49] @ replicate 32 0 \<rparr>"
  have parse: "ske_parse_header ?hdr = Inr (ServerKeyExchangeMessage_init [] [] [] [], 0)"
    by (simp add: ske_parse_header_def struct_unpack_def ServerKeyExchangeMessage_init_def)
  have rd: "recvexactly MockSock_ops ?sock1 ske_header_len = Inr (?hdr, ?sock1 \<lparr> to_read := [] \<rparr>)"
    by (simp add: recvexactly_MockSock ske_header_len_def)
  have "negotiate_secret toy_lib MockSock_ops ?sock ''1,2,3'' = Some (Inl SocketError)"
    using C10_zero_size_read [of MockSock_ops ?sock ?hdr "ServerKeyExchangeMessage_init [] [] [] []"
        toy_lib XDAAContext_init "''1,2,3''" "''1''" "''2''" "''3''"
        "Secp256r1_public_key [50]" "Secp256r1_private_key 1"
        "[0, 0, 1, 0, 32, 49] @ replicate 32 0" ?sock1 "?sock1 \<lparr> to_read := [] \<rparr>"]
      parse rd
    by (simp add: str_bytes_123 hello_toy)
  with parse show ?thesis by simp
qed

end
